theory Spec2Isabelle
  imports Main "HOL-Library.Word" "HOL-Library.Signed_Division"
begin

unbundle bit_operations_syntax

text \<open>
  CPUsim is an assembler and a simulator for a 16-bit instruction word. The repository
  holds two profiles of each: the extended profile (eight registers \<^verbatim>\<open>EAX\<close> ... \<^verbatim>\<open>ESP\<close>,
  flags, a stack, 8-bit immediates) and the simple profile (three registers \<^verbatim>\<open>A\<close>,
  \<^verbatim>\<open>B\<close>, \<^verbatim>\<open>C\<close>, 9-bit immediates). Definitions of the simple profile carry the
  suffix \<open>_simple\<close>.
\<close>

section \<open>The extended-profile simulator\<close>

text \<open>
  The simulator keeps its machine in global variables: eight \<^verbatim>\<open>int\<close> registers, two flags,
  \<^verbatim>\<open>int memory[MEMORY_SIZE]\<close>, and it talks to the console. The model passes that state
  explicitly. A C \<^verbatim>\<open>int\<close> is a 32-bit two's-complement word whose arithmetic wraps around;
  an instruction is a \<^verbatim>\<open>uint16_t\<close>.
\<close>

type_synonym cint = "32 word"
type_synonym uint16_t = "16 word"

definition MEMORY_SIZE :: cint where
  "MEMORY_SIZE = 256"

definition STACK_TOP :: cint where
  "STACK_TOP = MEMORY_SIZE - 1"

record Registers =
  EAX :: cint
  EBX :: cint
  ECX :: cint
  EDX :: cint
  ESI :: cint
  EDI :: cint
  EBP :: cint
  ESP :: cint

text \<open>\<^verbatim>\<open>register_names\<close>: the names of the registers for printing, by register code.\<close>

definition register_names :: "string list" where
  "register_names = [''EAX'', ''EBX'', ''ECX'', ''EDX'', ''ESI'', ''EDI'', ''EBP'', ''ESP'']"

text \<open>The flags are C ints that only ever hold the value of a comparison (0 or 1).\<close>

record Flags =
  ZF :: bool
  SF :: bool

text \<open>
  What the simulators print, one constructor per \<^verbatim>\<open>printf\<close>/\<^verbatim>\<open>fprintf\<close> of
  \<^verbatim>\<open>execute_instruction\<close>, \<^verbatim>\<open>write_memory\<close> and \<^verbatim>\<open>read_memory\<close>, with the
  values it formats. \<open>State_dump\<close> and \<open>Program_finished\<close> belong to the simple profile:
  the dump of the registers and the memory, and the closing line of \<^verbatim>\<open>run_program\<close>.
  \<open>Killed_by_SIGFPE\<close> is no message of the program: it records, with the program counter,
  that the process was killed inside \<^verbatim>\<open>execute_instruction\<close> by the trap of a division
  whose quotient does not fit.
\<close>

datatype event =
    Hlt_message cint
  | Division_by_zero cint
  | Unknown_opcode uint16_t cint
  | Input_prompt uint16_t
  | Invalid_integer_input
  | Output_message uint16_t cint
  | Invalid_write cint
  | Invalid_read cint
  | State_dump "cint list" "cint list"
  | Program_finished
  | Killed_by_SIGFPE cint

text \<open>
  Standard input is the sequence of lines the user types: line \<open>n\<close> is \<open>Some v\<close> when
  \<^verbatim>\<open>scanf("%d")\<close> reads the integer \<open>v\<close> from it and \<open>None\<close> when it does not start with
  an integer. The end of the input is not modelled.
\<close>

record machine =
  registers :: Registers
  flags :: Flags
  memory :: "nat \<Rightarrow> cint"
  console :: "event list"
  stdin_lines :: "nat \<Rightarrow> cint option"
  stdin_pos :: nat

definition get_register_value :: "cint \<Rightarrow> machine \<Rightarrow> cint" where
  "get_register_value reg_code s =
     (if reg_code = 0 then EAX (registers s)
      else if reg_code = 1 then EBX (registers s)
      else if reg_code = 2 then ECX (registers s)
      else if reg_code = 3 then EDX (registers s)
      else if reg_code = 4 then ESI (registers s)
      else if reg_code = 5 then EDI (registers s)
      else if reg_code = 6 then EBP (registers s)
      else if reg_code = 7 then ESP (registers s)
      else 0)"

definition set_register_value :: "cint \<Rightarrow> cint \<Rightarrow> machine \<Rightarrow> machine" where
  "set_register_value reg_code v s =
     (if reg_code = 0 then s\<lparr>registers := (registers s)\<lparr>EAX := v\<rparr>\<rparr>
      else if reg_code = 1 then s\<lparr>registers := (registers s)\<lparr>EBX := v\<rparr>\<rparr>
      else if reg_code = 2 then s\<lparr>registers := (registers s)\<lparr>ECX := v\<rparr>\<rparr>
      else if reg_code = 3 then s\<lparr>registers := (registers s)\<lparr>EDX := v\<rparr>\<rparr>
      else if reg_code = 4 then s\<lparr>registers := (registers s)\<lparr>ESI := v\<rparr>\<rparr>
      else if reg_code = 5 then s\<lparr>registers := (registers s)\<lparr>EDI := v\<rparr>\<rparr>
      else if reg_code = 6 then s\<lparr>registers := (registers s)\<lparr>EBP := v\<rparr>\<rparr>
      else if reg_code = 7 then s\<lparr>registers := (registers s)\<lparr>ESP := v\<rparr>\<rparr>
      else s)"

definition write_memory :: "cint \<Rightarrow> cint \<Rightarrow> machine \<Rightarrow> machine" where
  "write_memory address data s =
     (if 0 \<le>s address \<and> address <s MEMORY_SIZE
      then s\<lparr>memory := (memory s)(unat address := data)\<rparr>
      else s\<lparr>console := console s @ [Invalid_write address]\<rparr>)"

text \<open>\<^verbatim>\<open>read_memory\<close> returns the value read; its message is the second component.\<close>

definition read_memory :: "cint \<Rightarrow> machine \<Rightarrow> cint \<times> machine" where
  "read_memory address s =
     (if 0 \<le>s address \<and> address <s MEMORY_SIZE
      then (memory s (unat address), s)
      else (0, s\<lparr>console := console s @ [Invalid_read address]\<rparr>))"

text \<open>
  C's \<^verbatim>\<open>/\<close> on ints truncates towards zero; it is only called with a divisor other than
  0. The quotient of the smallest int by \<open>-1\<close> does not fit an int: C leaves that division
  undefined, and the division instruction of the x86 traps on it, which kills the process
  with SIGFPE. \<open>None\<close> is that trap.
\<close>

definition c_div :: "cint \<Rightarrow> cint \<Rightarrow> cint option" where
  "c_div a b =
     (if a = 0x80000000 \<and> b = -1 then None
      else Some (word_of_int (sint a sdiv sint b)))"

text \<open>
  The globals before \<^verbatim>\<open>run_program\<close>: \<^verbatim>\<open>registers = { 0 }\<close>, \<^verbatim>\<open>flags = { 0 }\<close>, a
  zeroed memory, nothing printed, and the given input.
\<close>

definition initial_machine :: "(nat \<Rightarrow> cint option) \<Rightarrow> machine" where
  "initial_machine input =
     \<lparr>registers = \<lparr>EAX = 0, EBX = 0, ECX = 0, EDX = 0, ESI = 0, EDI = 0, EBP = 0, ESP = 0\<rparr>,
      flags = \<lparr>ZF = False, SF = False\<rparr>,
      memory = (\<lambda>_. 0), console = [], stdin_lines = input, stdin_pos = 0\<rparr>"

text \<open>The fixed shifts and masks of \<^verbatim>\<open>execute_instruction\<close>.\<close>

definition opcode_of :: "uint16_t \<Rightarrow> uint16_t" where
  "opcode_of instruction = drop_bit 11 instruction"

definition reg1_of :: "uint16_t \<Rightarrow> uint16_t" where
  "reg1_of instruction = drop_bit 8 instruction AND 0x07"

definition reg2_of :: "uint16_t \<Rightarrow> uint16_t" where
  "reg2_of instruction = drop_bit 5 instruction AND 0x07"

definition value_of :: "uint16_t \<Rightarrow> uint16_t" where
  "value_of instruction = instruction AND 0xFF"

definition offset_of :: "uint16_t \<Rightarrow> uint16_t" where
  "offset_of instruction = instruction AND 0x1F"

text \<open>
  \<^verbatim>\<open>execute_instruction\<close> returns the next program counter (\<open>-1\<close> to stop) and changes
  the globals; the model returns the pair. The branches keep the order of the source: the
  base+offset moves first, then the \<^verbatim>\<open>switch\<close>. Where the division traps the process
  ends inside the function: the model records it and stops the fetch loop with \<open>-1\<close>.
\<close>

definition execute_instruction :: "uint16_t \<Rightarrow> cint \<Rightarrow> machine \<Rightarrow> cint \<times> machine" where
  "execute_instruction instruction pc s =
    (let opcode = opcode_of instruction in
     if opcode = 0b01111 \<or> opcode = 0b11111 then
       (let reg_dest_src = reg1_of instruction;
            reg_base = reg2_of instruction;
            offset = offset_of instruction;
            effective_address = get_register_value (ucast reg_base) s + ucast offset
        in if opcode = 0b01111
           then (let (v, s1) = read_memory effective_address s
                 in (pc + 1, set_register_value (ucast reg_dest_src) v s1))
           else (pc + 1, write_memory effective_address (get_register_value (ucast reg_dest_src) s) s))
     else
       (let reg1 = ucast (reg1_of instruction) :: cint;
            reg2 = ucast (reg2_of instruction) :: cint;
            val = ucast (value_of instruction) :: cint;
            addr = ucast (value_of instruction) :: cint
        in
        if opcode = 0b00000 then (-1, s\<lparr>console := console s @ [Hlt_message pc]\<rparr>)
        else if opcode = 0b00001 then
          (pc + 1, set_register_value reg1 (get_register_value reg1 s * get_register_value reg2 s) s)
        else if opcode = 0b00010 then
          (let divisor = get_register_value reg2 s
           in if divisor = 0
              then (-1, s\<lparr>console := console s @ [Division_by_zero pc]\<rparr>)
              else (case c_div (get_register_value reg1 s) divisor of
                      None \<Rightarrow> (-1, s\<lparr>console := console s @ [Killed_by_SIGFPE pc]\<rparr>)
                    | Some result \<Rightarrow> (pc + 1, set_register_value reg1 result s)))
        else if opcode = 0b00011 then
          (pc + 1, set_register_value reg1 (get_register_value reg1 s XOR get_register_value reg2 s) s)
        else if opcode = 0b00100 then
          (let s1 = s\<lparr>console := console s @ [Input_prompt (reg1_of instruction)]\<rparr>;
               line = stdin_lines s1 (stdin_pos s1);
               s2 = s1\<lparr>stdin_pos := stdin_pos s1 + 1\<rparr>
           in case line of
                None \<Rightarrow> (pc + 1, set_register_value reg1 0
                                    (s2\<lparr>console := console s2 @ [Invalid_integer_input]\<rparr>))
              | Some input_val \<Rightarrow> (pc + 1, set_register_value reg1 input_val s2))
        else if opcode = 0b00101 then
          (pc + 1, s\<lparr>console := console s @ [Output_message (reg1_of instruction) (get_register_value reg1 s)]\<rparr>)
        else if opcode = 0b00110 then (pc + 1, set_register_value reg1 val s)
        else if opcode = 0b00111 then
          (let (v, s1) = read_memory addr s in (pc + 1, set_register_value reg1 v s1))
        else if opcode = 0b01000 then (pc + 1, write_memory addr (get_register_value reg1 s) s)
        else if opcode = 0b01001 then (pc + 1, set_register_value reg1 (get_register_value reg1 s + 1) s)
        else if opcode = 0b01010 then (pc + 1, set_register_value reg1 (get_register_value reg1 s - 1) s)
        else if opcode = 0b10000 then
          (pc + 1, set_register_value reg1 (get_register_value reg1 s + get_register_value reg2 s) s)
        else if opcode = 0b10001 then
          (pc + 1, set_register_value reg1 (get_register_value reg1 s - get_register_value reg2 s) s)
        else if opcode = 0b10010 then (pc + 1, set_register_value reg1 (get_register_value reg2 s) s)
        else if opcode = 0b10011 then (pc + 1, set_register_value reg1 (get_register_value reg1 s + val) s)
        else if opcode = 0b10100 then (pc + 1, set_register_value reg1 (get_register_value reg1 s - val) s)
        else if opcode = 0b10101 then
          (let result = get_register_value reg1 s - val
           in (pc + 1, s\<lparr>flags := \<lparr>ZF = (result = 0), SF = (result <s 0)\<rparr>\<rparr>))
        else if opcode = 0b10110 then (pc + 1, set_register_value reg1 (NOT (get_register_value reg1 s)) s)
        else if opcode = 0b10111 then
          (let result = get_register_value reg1 s - get_register_value reg2 s
           in (pc + 1, s\<lparr>flags := \<lparr>ZF = (result = 0), SF = (result <s 0)\<rparr>\<rparr>))
        else if opcode = 0b11000 then (addr, s)
        else if opcode = 0b11001 then (if ZF (flags s) then (addr, s) else (pc + 1, s))
        else if opcode = 0b11010 then (if \<not> ZF (flags s) then (addr, s) else (pc + 1, s))
        else if opcode = 0b11011 then
          (if \<not> ZF (flags s) \<and> \<not> SF (flags s) then (addr, s) else (pc + 1, s))
        else if opcode = 0b11100 then (if SF (flags s) then (addr, s) else (pc + 1, s))
        else if opcode = 0b11101 then (if \<not> SF (flags s) then (addr, s) else (pc + 1, s))
        else if opcode = 0b11110 then
          (if ZF (flags s) \<or> SF (flags s) then (addr, s) else (pc + 1, s))
        else if opcode = 0b01011 then
          (let s1 = s\<lparr>registers := (registers s)\<lparr>ESP := ESP (registers s) - 1\<rparr>\<rparr>
           in (pc + 1, write_memory (ESP (registers s1)) (get_register_value reg1 s1) s1))
        else if opcode = 0b01100 then
          (let (v, s1) = read_memory (ESP (registers s)) s;
               s2 = set_register_value reg1 v s1
           in (pc + 1, s2\<lparr>registers := (registers s2)\<lparr>ESP := ESP (registers s2) + 1\<rparr>\<rparr>))
        else if opcode = 0b01101 then
          (let s1 = s\<lparr>registers := (registers s)\<lparr>ESP := ESP (registers s) - 1\<rparr>\<rparr>
           in (addr, write_memory (ESP (registers s1)) (pc + 1) s1))
        else if opcode = 0b01110 then
          (let (ret_addr, s1) = read_memory (ESP (registers s)) s
           in (ret_addr, s1\<lparr>registers := (registers s1)\<lparr>ESP := ESP (registers s1) + 1\<rparr>\<rparr>))
        else (-1, s\<lparr>console := console s @ [Unknown_opcode opcode pc]\<rparr>)))"

text \<open>
  The fetch loop of \<^verbatim>\<open>run_program\<close>: \<^verbatim>\<open>while (pc >= 0 && pc < program_instruction_count)\<close>.
  A program may loop forever, so the model counts steps: \<open>None\<close> means the loop has not
  left within the given number of steps.
\<close>

fun run_loop :: "nat \<Rightarrow> uint16_t list \<Rightarrow> cint \<Rightarrow> machine \<Rightarrow> (cint \<times> machine) option" where
  "run_loop 0 machine_code pc s = None"
| "run_loop (Suc n) machine_code pc s =
     (if 0 \<le>s pc \<and> pc <s word_of_nat (length machine_code)
      then (let (next_pc, s') = execute_instruction (machine_code ! unat pc) pc s
            in run_loop n machine_code next_pc s')
      else Some (pc, s))"

text \<open>
  \<^verbatim>\<open>run_program\<close> clears the memory and puts the stack pointer one past the top address
  before the loop.
\<close>

definition run_program :: "nat \<Rightarrow> uint16_t list \<Rightarrow> machine \<Rightarrow> (cint \<times> machine) option" where
  "run_program fuel machine_code s =
     (let s1 = s\<lparr>memory := (\<lambda>_. 0)\<rparr>;
          s2 = s1\<lparr>registers := (registers s1)\<lparr>ESP := STACK_TOP + 1\<rparr>\<rparr>;
          s3 = s2\<lparr>registers := (registers s2)\<lparr>EBP := ESP (registers s2)\<rparr>\<rparr>
      in run_loop fuel machine_code 0 s3)"

section \<open>The simple-profile simulator\<close>

text \<open>
  Three registers, 64 words of memory, no flags and no stack. The conditional jumps
  test a register.
\<close>

definition MEMORY_SIZE_simple :: cint where
  "MEMORY_SIZE_simple = 64"

record Registers_simple =
  reg_A :: cint
  reg_B :: cint
  reg_C :: cint

record machine_simple =
  registers_simple :: Registers_simple
  memory_simple :: "nat \<Rightarrow> cint"
  console_simple :: "event list"
  stdin_lines_simple :: "nat \<Rightarrow> cint option"
  stdin_pos_simple :: nat

definition initial_machine_simple :: "(nat \<Rightarrow> cint option) \<Rightarrow> machine_simple" where
  "initial_machine_simple input =
     \<lparr>registers_simple = \<lparr>reg_A = 0, reg_B = 0, reg_C = 0\<rparr>,
      memory_simple = (\<lambda>_. 0), console_simple = [],
      stdin_lines_simple = input, stdin_pos_simple = 0\<rparr>"

definition get_register_value_simple :: "cint \<Rightarrow> machine_simple \<Rightarrow> cint" where
  "get_register_value_simple reg_code s =
     (if reg_code = 0 then reg_A (registers_simple s)
      else if reg_code = 1 then reg_B (registers_simple s)
      else if reg_code = 2 then reg_C (registers_simple s)
      else 0)"

definition set_register_value_simple :: "cint \<Rightarrow> cint \<Rightarrow> machine_simple \<Rightarrow> machine_simple" where
  "set_register_value_simple reg_code v s =
     (if reg_code = 0 then s\<lparr>registers_simple := (registers_simple s)\<lparr>reg_A := v\<rparr>\<rparr>
      else if reg_code = 1 then s\<lparr>registers_simple := (registers_simple s)\<lparr>reg_B := v\<rparr>\<rparr>
      else if reg_code = 2 then s\<lparr>registers_simple := (registers_simple s)\<lparr>reg_C := v\<rparr>\<rparr>
      else s)"

definition write_memory_simple :: "cint \<Rightarrow> cint \<Rightarrow> machine_simple \<Rightarrow> machine_simple" where
  "write_memory_simple address data s =
     (if 0 \<le>s address \<and> address <s MEMORY_SIZE_simple
      then s\<lparr>memory_simple := (memory_simple s)(unat address := data)\<rparr>
      else s\<lparr>console_simple := console_simple s @ [Invalid_write address]\<rparr>)"

definition read_memory_simple :: "cint \<Rightarrow> machine_simple \<Rightarrow> cint \<times> machine_simple" where
  "read_memory_simple address s =
     (if 0 \<le>s address \<and> address <s MEMORY_SIZE_simple
      then (memory_simple s (unat address), s)
      else (0, s\<lparr>console_simple := console_simple s @ [Invalid_read address]\<rparr>))"

definition dump_contents_simple :: "machine_simple \<Rightarrow> machine_simple" where
  "dump_contents_simple s =
     s\<lparr>console_simple := console_simple s @
        [State_dump [reg_A (registers_simple s), reg_B (registers_simple s), reg_C (registers_simple s)]
           (map (memory_simple s) [0..<64])]\<rparr>"

text \<open>The shifts and masks of the simple \<^verbatim>\<open>execute_instruction\<close>.\<close>

definition reg1_of_simple :: "uint16_t \<Rightarrow> uint16_t" where
  "reg1_of_simple instruction = drop_bit 9 instruction AND 0x03"

definition reg2_of_simple :: "uint16_t \<Rightarrow> uint16_t" where
  "reg2_of_simple instruction = drop_bit 7 instruction AND 0x03"

definition value_of_simple :: "uint16_t \<Rightarrow> uint16_t" where
  "value_of_simple instruction = instruction AND 0x1FF"

definition execute_instruction_simple ::
  "uint16_t \<Rightarrow> cint \<Rightarrow> machine_simple \<Rightarrow> cint \<times> machine_simple" where
  "execute_instruction_simple instruction pc s =
     (let opcode = opcode_of instruction;
          reg1 = ucast (reg1_of_simple instruction) :: cint;
          reg2 = ucast (reg2_of_simple instruction) :: cint;
          val = ucast (value_of_simple instruction) :: cint;
          addr = ucast (value_of_simple instruction) :: cint
      in
      if opcode = 0b00000 then (-1, s\<lparr>console_simple := console_simple s @ [Hlt_message pc]\<rparr>)
      else if opcode = 0b00001 then (pc + 1, dump_contents_simple s)
      else if opcode = 0b00010 then (pc + 1, s\<lparr>memory_simple := (\<lambda>_. 0)\<rparr>)
      else if opcode = 0b00011 then
        (pc + 1, s\<lparr>registers_simple := \<lparr>reg_A = 0, reg_B = 0, reg_C = 0\<rparr>\<rparr>)
      else if opcode = 0b00100 then
        (let s1 = s\<lparr>console_simple := console_simple s @ [Input_prompt (reg1_of_simple instruction)]\<rparr>;
             line = stdin_lines_simple s1 (stdin_pos_simple s1);
             s2 = s1\<lparr>stdin_pos_simple := stdin_pos_simple s1 + 1\<rparr>
         in case line of
              None \<Rightarrow> (pc + 1, set_register_value_simple reg1 0
                                  (s2\<lparr>console_simple := console_simple s2 @ [Invalid_integer_input]\<rparr>))
            | Some input_val \<Rightarrow> (pc + 1, set_register_value_simple reg1 input_val s2))
      else if opcode = 0b00101 then
        (pc + 1, s\<lparr>console_simple := console_simple s @
                    [Output_message (reg1_of_simple instruction) (get_register_value_simple reg1 s)]\<rparr>)
      else if opcode = 0b00110 then (pc + 1, set_register_value_simple reg1 val s)
      else if opcode = 0b00111 then
        (let (v, s1) = read_memory_simple addr s in (pc + 1, set_register_value_simple reg1 v s1))
      else if opcode = 0b01000 then
        (pc + 1, write_memory_simple addr (get_register_value_simple reg1 s) s)
      else if opcode = 0b01001 then
        (pc + 1, set_register_value_simple reg1 (get_register_value_simple reg1 s + 1) s)
      else if opcode = 0b01010 then
        (pc + 1, set_register_value_simple reg1 (get_register_value_simple reg1 s - 1) s)
      else if opcode = 0b10000 then
        (pc + 1, set_register_value_simple reg1
                   (get_register_value_simple reg1 s + get_register_value_simple reg2 s) s)
      else if opcode = 0b10001 then
        (pc + 1, set_register_value_simple reg1
                   (get_register_value_simple reg1 s - get_register_value_simple reg2 s) s)
      else if opcode = 0b10010 then
        (pc + 1, set_register_value_simple reg1 (get_register_value_simple reg2 s) s)
      else if opcode = 0b11000 then (addr, s)
      else if opcode = 0b11001 then
        (if get_register_value_simple reg1 s = 0 then (addr, s) else (pc + 1, s))
      else if opcode = 0b11010 then
        (if get_register_value_simple reg1 s \<noteq> 0 then (addr, s) else (pc + 1, s))
      else if opcode = 0b11011 then
        (if 0 <s get_register_value_simple reg1 s then (addr, s) else (pc + 1, s))
      else if opcode = 0b11100 then
        (if get_register_value_simple reg1 s <s 0 then (addr, s) else (pc + 1, s))
      else (-1, s\<lparr>console_simple := console_simple s @ [Unknown_opcode opcode pc]\<rparr>))"

fun run_loop_simple ::
  "nat \<Rightarrow> uint16_t list \<Rightarrow> cint \<Rightarrow> machine_simple \<Rightarrow> (cint \<times> machine_simple) option" where
  "run_loop_simple 0 machine_code pc s = None"
| "run_loop_simple (Suc n) machine_code pc s =
     (if 0 \<le>s pc \<and> pc <s word_of_nat (length machine_code)
      then (let (next_pc, s') = execute_instruction_simple (machine_code ! unat pc) pc s
            in run_loop_simple n machine_code next_pc s')
      else Some (pc, s))"

text \<open>
  The simple \<^verbatim>\<open>run_program\<close> clears the memory, runs the loop and prints a closing line
  when the program counter has run past the last instruction.
\<close>

definition run_program_simple ::
  "nat \<Rightarrow> uint16_t list \<Rightarrow> machine_simple \<Rightarrow> (cint \<times> machine_simple) option" where
  "run_program_simple fuel machine_code s =
     (case run_loop_simple fuel machine_code 0 (s\<lparr>memory_simple := (\<lambda>_. 0)\<rparr>) of
        None \<Rightarrow> None
      | Some (pc, s') \<Rightarrow>
          if word_of_nat (length machine_code) \<le>s pc
          then Some (pc, s'\<lparr>console_simple := console_simple s' @ [Program_finished]\<rparr>)
          else Some (pc, s'))"

section \<open>The C library functions the assemblers use\<close>

text \<open>
  Strings are the characters before the terminating NUL. The character tests are those
  of the C locale on \<^verbatim>\<open>unsigned char\<close>.
\<close>

definition isspace :: "char \<Rightarrow> bool" where
  "isspace c = (c = CHR '' '' \<or> (9 \<le> (of_char c :: nat) \<and> (of_char c :: nat) \<le> 13))"

definition isalpha :: "char \<Rightarrow> bool" where
  "isalpha c = ((65 \<le> (of_char c :: nat) \<and> (of_char c :: nat) \<le> 90)
              \<or> (97 \<le> (of_char c :: nat) \<and> (of_char c :: nat) \<le> 122))"

definition isdigit :: "char \<Rightarrow> bool" where
  "isdigit c = (48 \<le> (of_char c :: nat) \<and> (of_char c :: nat) \<le> 57)"

definition toupper :: "char \<Rightarrow> char" where
  "toupper c = (if 97 \<le> (of_char c :: nat) \<and> (of_char c :: nat) \<le> 122
                then char_of ((of_char c :: nat) - 32) else c)"

text \<open>\<^verbatim>\<open>s[0]\<close>: the first character, the terminating NUL for the empty string.\<close>

definition first_char :: "string \<Rightarrow> char" where
  "first_char s = (case s of [] \<Rightarrow> CHR 0x00 | c # _ \<Rightarrow> c)"

text \<open>
  \<^verbatim>\<open>atoi(s)\<close> is \<^verbatim>\<open>(int) strtol(s, NULL, 10)\<close>. \<^verbatim>\<open>strtol\<close> reads optional white space,
  an optional sign, then the longest run of digits, and returns their value, or
  \<^verbatim>\<open>LONG_MAX\<close> or \<^verbatim>\<open>LONG_MIN\<close> when the value does not fit a \<^verbatim>\<open>long\<close>. C leaves the
  result of \<^verbatim>\<open>atoi\<close> undefined for a value that does not fit an \<^verbatim>\<open>int\<close>; the model follows
  the build the README gives (\<^verbatim>\<open>gcc\<close>) with glibc and a 64-bit \<^verbatim>\<open>long\<close>, where the
  conversion to \<^verbatim>\<open>int\<close> keeps the low 32 bits: \<^verbatim>\<open>atoi("4294967551")\<close> is 255 and
  \<^verbatim>\<open>atoi("2147483648")\<close> is \<open>-2147483648\<close>. The result is always the value of an \<^verbatim>\<open>int\<close>.
\<close>

definition digits_value :: "string \<Rightarrow> int" where
  "digits_value ds = foldl (\<lambda>a c. 10 * a + (of_char c - 48)) 0 ds"

definition LONG_MAX :: int where
  "LONG_MAX = 2 ^ 63 - 1"

definition LONG_MIN :: int where
  "LONG_MIN = - (2 ^ 63)"

definition strtol :: "string \<Rightarrow> int" where
  "strtol s =
     (let s1 = dropWhile isspace s
      in if first_char s1 = CHR ''-''
         then max LONG_MIN (- digits_value (takeWhile isdigit (tl s1)))
         else if first_char s1 = CHR ''+''
         then min LONG_MAX (digits_value (takeWhile isdigit (tl s1)))
         else min LONG_MAX (digits_value (takeWhile isdigit s1)))"

definition atoi :: "string \<Rightarrow> int" where
  "atoi s = sint (word_of_int (strtol s) :: cint)"

text \<open>
  \<^verbatim>\<open>strchr s c\<close> returns a pointer to the first \<open>c\<close> in \<open>s\<close> or NULL. The model returns
  the two strings the pointer splits \<open>s\<close> into: the characters before it and the string
  it points to.
\<close>

definition strchr :: "string \<Rightarrow> char \<Rightarrow> (string \<times> string) option" where
  "strchr s c =
     (if c \<in> set s then Some (takeWhile (\<lambda>x. x \<noteq> c) s, dropWhile (\<lambda>x. x \<noteq> c) s)
      else None)"

text \<open>
  The \<^verbatim>\<open>strtok(line_copy, " \t,")\<close> loop: the maximal runs of characters that are not
  delimiters, in order. \<open>token\<close> is the run being read.
\<close>

definition is_delimiter :: "char \<Rightarrow> bool" where
  "is_delimiter c = (c = CHR '' '' \<or> c = CHR 0x09 \<or> c = CHR '','')"

fun strtok_all :: "string \<Rightarrow> string \<Rightarrow> string list" where
  "strtok_all token [] = (if token = [] then [] else [token])"
| "strtok_all token (c # cs) =
     (if is_delimiter c
      then (if token = [] then strtok_all [] cs else token # strtok_all [] cs)
      else strtok_all (token @ [c]) cs)"

section \<open>The assemblers\<close>

definition MAX_LINE_LENGTH :: nat where
  "MAX_LINE_LENGTH = 100"

definition MAX_LABELS :: nat where
  "MAX_LABELS = 64"

definition MAX_LABEL_LENGTH :: nat where
  "MAX_LABEL_LENGTH = 32"

text \<open>
  A \<^verbatim>\<open>Label\<close> is a name and an address; \<^verbatim>\<open>symbol_table\<close> with \<^verbatim>\<open>label_count\<close> is the list
  of the entries filled so far. The assemblers' ints (addresses, register codes, the
  values \<^verbatim>\<open>atoi\<close> returns) are modelled as integers: the assemblers count the addresses
  up from 0 line by line, compare the values with the bounds of their field and, once
  they are within it, shift and combine them, and none of that leaves the range of
  \<^verbatim>\<open>int\<close>.
\<close>

type_synonym Label = "string \<times> int"

text \<open>
  The parts of \<^verbatim>\<open>line_copy\<close>: at most four tokens of the first
  \<^verbatim>\<open>MAX_LINE_LENGTH - 1\<close> characters.
\<close>

definition split_parts :: "string \<Rightarrow> string list" where
  "split_parts line = take 4 (strtok_all [] (take (MAX_LINE_LENGTH - 1) line))"

text \<open>
  What the assemblers print on \<^verbatim>\<open>stderr\<close> before \<^verbatim>\<open>return 0xFFFF\<close>, by kind of message.
  \<open>Undefined_behaviour\<close> stands for the places where \<^verbatim>\<open>strncpy\<close> is given a length
  that does not fit its 32-byte buffer: C defines no result there, and the model treats
  the line as not encoded.
\<close>

datatype encode_error =
    Wrong_operand_count
  | Invalid_register
  | Immediate_marker_missing
  | Undefined_label
  | Value_out_of_range
  | Immediate_not_supported
  | Memory_to_memory
  | Invalid_operands
  | Unknown_mnemonic
  | Undefined_behaviour

text \<open>The warning of \<^verbatim>\<open>build_symbol_table\<close>, with the label name it prints.\<close>

datatype warning = Maximum_labels_reached string

fun get_address_for_label :: "Label list \<Rightarrow> string \<Rightarrow> int" where
  "get_address_for_label [] name = -1"
| "get_address_for_label ((n, address) # symbol_table) name =
     (if n = name then address else get_address_for_label symbol_table name)"

text \<open>
  The operand expression the encoders repeat:
  \<^verbatim>\<open>isalpha(s[0]) ? get_address_for_label(s) : atoi(s)\<close>.
\<close>

definition label_or_number :: "Label list \<Rightarrow> string \<Rightarrow> int" where
  "label_or_number symbol_table s =
     (if isalpha (first_char s) then get_address_for_label symbol_table s else atoi s)"

text \<open>What the caller of \<^verbatim>\<open>encode_instruction\<close> gets back: \<open>0xFFFF\<close> for an error.\<close>

definition returned_word :: "encode_error + uint16_t \<Rightarrow> uint16_t" where
  "returned_word r = (case r of Inl e \<Rightarrow> 0xFFFF | Inr instruction \<Rightarrow> instruction)"

subsection \<open>The extended profile\<close>

text \<open>
  \<^verbatim>\<open>build_symbol_table\<close> walks \<^verbatim>\<open>program_memory\<close>, strips the label of each line and
  counts the instructions. The model returns the stripped lines, the table and the
  warnings printed.
\<close>

fun build_symbol_table_loop ::
  "string list \<Rightarrow> Label list \<Rightarrow> int \<Rightarrow> string list \<times> Label list \<times> warning list" where
  "build_symbol_table_loop [] symbol_table instruction_address = ([], symbol_table, [])"
| "build_symbol_table_loop (line # rest) symbol_table instruction_address =
     (let (line', symbol_table', printed) =
            (case strchr line CHR '':'' of
               None \<Rightarrow> (line, symbol_table, [])
             | Some (line_copy, colon) \<Rightarrow>
                 (let instruction_start = dropWhile isspace (tl colon)
                  in if length symbol_table < MAX_LABELS
                     then (instruction_start,
                           symbol_table @ [(take (MAX_LABEL_LENGTH - 1) line_copy, instruction_address)],
                           [])
                     else (instruction_start, symbol_table, [Maximum_labels_reached line_copy])));
          instruction_address' =
            (if line' \<noteq> [] then instruction_address + 1 else instruction_address);
          (rest', final_table, warnings) =
            build_symbol_table_loop rest symbol_table' instruction_address'
      in (line' # rest', final_table, printed @ warnings))"

definition build_symbol_table :: "string list \<Rightarrow> string list \<times> Label list \<times> warning list" where
  "build_symbol_table program_memory = build_symbol_table_loop program_memory [] 0"

definition get_register_code :: "string \<Rightarrow> int" where
  "get_register_code reg_name =
     (let upper_name = map toupper (take (MAX_LABEL_LENGTH - 1) reg_name)
      in if upper_name = ''EAX'' then 0
         else if upper_name = ''EBX'' then 1
         else if upper_name = ''ECX'' then 2
         else if upper_name = ''EDX'' then 3
         else if upper_name = ''ESI'' then 4
         else if upper_name = ''EDI'' then 5
         else if upper_name = ''EBP'' then 6
         else if upper_name = ''ESP'' then 7
         else -1)"

text \<open>
  \<^verbatim>\<open>encode_instruction\<close> computes an opcode and operand codes and then packs them with
  one of six expressions. The model names the two halves: \<open>encode_fields\<close> returns the
  opcode and operand codes (or the error), \<open>pack\<close> is the packing expression of that
  layout, evaluated on ints and assigned to a \<^verbatim>\<open>uint16_t\<close>.
\<close>

datatype fields =
    Opcode_only int
  | Opcode_reg int int
  | Opcode_value int int
  | Opcode_reg_value int int int
  | Opcode_reg_reg int int int
  | Opcode_reg_base_offset int int int int

fun pack :: "fields \<Rightarrow> uint16_t" where
  "pack (Opcode_only opcode) = word_of_int (push_bit 11 opcode)"
| "pack (Opcode_reg opcode reg1_code) = word_of_int (push_bit 11 opcode OR push_bit 8 reg1_code)"
| "pack (Opcode_value opcode val) = word_of_int (push_bit 11 opcode OR val)"
| "pack (Opcode_reg_value opcode reg1_code val) =
     word_of_int (push_bit 11 opcode OR push_bit 8 reg1_code OR val)"
| "pack (Opcode_reg_reg opcode reg1_code reg2_code) =
     word_of_int (push_bit 11 opcode OR push_bit 8 reg1_code OR push_bit 5 reg2_code)"
| "pack (Opcode_reg_base_offset opcode reg_code base_reg_code offset) =
     word_of_int (push_bit 11 opcode OR push_bit 8 reg_code OR push_bit 5 base_reg_code OR offset)"

text \<open>
  The ranges of the codes that \<open>pack\<close> keeps apart: five bits of opcode, three bits for
  a register, eight for a value, five for an offset.
\<close>

fun fields_in_range :: "fields \<Rightarrow> bool" where
  "fields_in_range (Opcode_only opcode) = (0 \<le> opcode \<and> opcode < 32)"
| "fields_in_range (Opcode_reg opcode reg1_code) =
     (0 \<le> opcode \<and> opcode < 32 \<and> 0 \<le> reg1_code \<and> reg1_code < 8)"
| "fields_in_range (Opcode_value opcode val) =
     (0 \<le> opcode \<and> opcode < 32 \<and> 0 \<le> val \<and> val < 256)"
| "fields_in_range (Opcode_reg_value opcode reg1_code val) =
     (0 \<le> opcode \<and> opcode < 32 \<and> 0 \<le> reg1_code \<and> reg1_code < 8 \<and> 0 \<le> val \<and> val < 256)"
| "fields_in_range (Opcode_reg_reg opcode reg1_code reg2_code) =
     (0 \<le> opcode \<and> opcode < 32 \<and> 0 \<le> reg1_code \<and> reg1_code < 8
      \<and> 0 \<le> reg2_code \<and> reg2_code < 8)"
| "fields_in_range (Opcode_reg_base_offset opcode reg_code base_reg_code offset) =
     (0 \<le> opcode \<and> opcode < 32 \<and> 0 \<le> reg_code \<and> reg_code < 8
      \<and> 0 \<le> base_reg_code \<and> base_reg_code < 8 \<and> 0 \<le> offset \<and> offset < 32)"

text \<open>
  The opcode tables: each is the run of \<^verbatim>\<open>if (strcmp(opcode_str, ...) == 0) opcode = ...\<close>
  lines of one branch of \<^verbatim>\<open>encode_instruction\<close>, which starts from \<^verbatim>\<open>opcode = 0\<close>.
\<close>

definition register_opcode :: "string \<Rightarrow> int" where
  "register_opcode opcode_str =
     (if opcode_str = ''INP'' then 0b00100
      else if opcode_str = ''OUT'' then 0b00101
      else if opcode_str = ''INC'' then 0b01001
      else if opcode_str = ''DEC'' then 0b01010
      else if opcode_str = ''PUSH'' then 0b01011
      else if opcode_str = ''POP'' then 0b01100
      else if opcode_str = ''NOT'' then 0b10110
      else 0)"

definition address_opcode :: "string \<Rightarrow> int" where
  "address_opcode opcode_str =
     (if opcode_str = ''JMP'' then 0b11000
      else if opcode_str = ''JE'' \<or> opcode_str = ''JZ'' then 0b11001
      else if opcode_str = ''JNE'' \<or> opcode_str = ''JNZ'' then 0b11010
      else if opcode_str = ''JG'' \<or> opcode_str = ''JNLE'' then 0b11011
      else if opcode_str = ''JL'' \<or> opcode_str = ''JNGE'' then 0b11100
      else if opcode_str = ''JGE'' \<or> opcode_str = ''JNL'' then 0b11101
      else if opcode_str = ''JLE'' \<or> opcode_str = ''JNG'' then 0b11110
      else if opcode_str = ''CALL'' then 0b01101
      else 0)"

definition immediate_opcode :: "string \<Rightarrow> int" where
  "immediate_opcode opcode_str =
     (if opcode_str = ''ADD'' then 0b10011
      else if opcode_str = ''SUB'' then 0b10100
      else 0b10101)"

definition two_register_opcode :: "string \<Rightarrow> int" where
  "two_register_opcode opcode_str =
     (if opcode_str = ''ADD'' then 0b10000
      else if opcode_str = ''SUB'' then 0b10001
      else if opcode_str = ''CMP'' then 0b10111
      else if opcode_str = ''MUL'' then 0b00001
      else if opcode_str = ''DIV'' then 0b00010
      else if opcode_str = ''XOR'' then 0b00011
      else 0)"

text \<open>One-operand instructions on a register.\<close>

definition encode_register_instruction :: "string \<Rightarrow> string list \<Rightarrow> encode_error + fields" where
  "encode_register_instruction opcode_str parts =
     (if length parts \<noteq> 2 then Inl Wrong_operand_count
      else
        (let opcode = register_opcode opcode_str;
             reg1_code = get_register_code (parts ! 1)
         in if reg1_code = -1 then Inl Invalid_register
            else Inr (Opcode_reg opcode reg1_code)))"

text \<open>Jumps and \<^verbatim>\<open>CALL\<close>: one address or label.\<close>

definition encode_address_instruction ::
  "Label list \<Rightarrow> string \<Rightarrow> string list \<Rightarrow> encode_error + fields" where
  "encode_address_instruction symbol_table opcode_str parts =
     (if length parts \<noteq> 2 then Inl Wrong_operand_count
      else
        (let opcode = address_opcode opcode_str;
             val = label_or_number symbol_table (parts ! 1)
         in if val = -1 then Inl Undefined_label
            else if val < 0 \<or> val > 0xFF then Inl Value_out_of_range
            else Inr (Opcode_value opcode val)))"

text \<open>Two-operand arithmetic: register and immediate, or two registers.\<close>

definition encode_two_operand_instruction :: "string \<Rightarrow> string list \<Rightarrow> encode_error + fields" where
  "encode_two_operand_instruction opcode_str parts =
     (if length parts \<noteq> 3 then Inl Wrong_operand_count
      else
        (let operand2 = parts ! 2
         in if first_char operand2 = CHR ''#'' then
              (if opcode_str = ''ADD'' \<or> opcode_str = ''SUB'' \<or> opcode_str = ''CMP'' then
                 (let opcode = immediate_opcode opcode_str;
                      reg1_code = get_register_code (parts ! 1);
                      val = atoi (tl operand2)
                  in if reg1_code = -1 then Inl Invalid_register
                     else if val < 0 \<or> val > 0xFF then Inl Value_out_of_range
                     else Inr (Opcode_reg_value opcode reg1_code val))
               else Inl Immediate_not_supported)
            else
              (let opcode = two_register_opcode opcode_str;
                   reg1_code = get_register_code (parts ! 1);
                   reg2_code = get_register_code (parts ! 2)
               in if reg1_code = -1 \<or> reg2_code = -1 then Inl Invalid_register
                  else Inr (Opcode_reg_reg opcode reg1_code reg2_code))))"

text \<open>
  \<^verbatim>\<open>MOV\<close>, by the shape of its operands. \<open>plus\<close> is the \<^verbatim>\<open>strchr\<close> for \<open>+\<close> in the memory
  operand (in the source operand when neither is one). The \<^verbatim>\<open>strncpy\<close> calls that cut
  the text between the brackets write past their 32-byte buffer when that text has 32
  characters or more, and those of the direct forms are given \<open>strlen(s) - 2\<close>, which
  wraps around for a one-character operand.
\<close>

definition encode_mov :: "Label list \<Rightarrow> string list \<Rightarrow> encode_error + fields" where
  "encode_mov symbol_table parts =
     (if length parts \<noteq> 3 then Inl Wrong_operand_count
      else
        (let dest = parts ! 1;
             src = parts ! 2;
             dest_is_mem = (first_char dest = CHR ''['');
             src_is_mem = (first_char src = CHR ''['')
         in if dest_is_mem \<and> src_is_mem then Inl Memory_to_memory
            else
              (let mem_operand = (if dest_is_mem then dest else src);
                   plus = strchr mem_operand CHR ''+''
               in if (dest_is_mem \<or> src_is_mem) \<and> plus \<noteq> None then
                    (let base_reg_str = tl (fst (the plus));
                         offset = atoi (tl (snd (the plus)));
                         base_reg_code = get_register_code base_reg_str
                     in if length base_reg_str \<ge> MAX_LABEL_LENGTH then Inl Undefined_behaviour
                        else if base_reg_code = -1 then Inl Invalid_register
                        else if offset < 0 \<or> offset > 0x1F then Inl Value_out_of_range
                        else if dest_is_mem then
                          (let reg_code = get_register_code src
                           in if reg_code = -1 then Inl Invalid_register
                              else Inr (Opcode_reg_base_offset 0b11111 reg_code base_reg_code offset))
                        else
                          (let reg_code = get_register_code dest
                           in if reg_code = -1 then Inl Invalid_register
                              else Inr (Opcode_reg_base_offset 0b01111 reg_code base_reg_code offset)))
                  else if \<not> dest_is_mem \<and> first_char src = CHR ''#'' then
                    (let reg1_code = get_register_code dest;
                         val = atoi (tl src)
                     in if reg1_code = -1 then Inl Invalid_register
                        else if val < 0 \<or> val > 0xFF then Inl Value_out_of_range
                        else Inr (Opcode_reg_value 0b00110 reg1_code val))
                  else if \<not> dest_is_mem \<and> src_is_mem then
                    (let reg1_code = get_register_code dest;
                         addr_str = butlast (tl src);
                         val = label_or_number symbol_table addr_str
                     in if length src < 2 \<or> length src - 2 \<ge> MAX_LABEL_LENGTH
                        then Inl Undefined_behaviour
                        else if reg1_code = -1 then Inl Invalid_register
                        else if val = -1 then Inl Undefined_label
                        else if val < 0 \<or> val > 0xFF then Inl Value_out_of_range
                        else Inr (Opcode_reg_value 0b00111 reg1_code val))
                  else if dest_is_mem \<and> \<not> src_is_mem then
                    (let reg1_code = get_register_code src;
                         addr_str = butlast (tl dest);
                         val = label_or_number symbol_table addr_str
                     in if length dest < 2 \<or> length dest - 2 \<ge> MAX_LABEL_LENGTH
                        then Inl Undefined_behaviour
                        else if reg1_code = -1 then Inl Invalid_register
                        else if val = -1 then Inl Undefined_label
                        else if val < 0 \<or> val > 0xFF then Inl Value_out_of_range
                        else Inr (Opcode_reg_value 0b01000 reg1_code val))
                  else if \<not> dest_is_mem \<and> \<not> src_is_mem then
                    (let reg1_code = get_register_code dest;
                         reg2_code = get_register_code src
                     in if reg1_code = -1 \<or> reg2_code = -1 then Inl Invalid_register
                        else Inr (Opcode_reg_reg 0b10010 reg1_code reg2_code))
                  else Inl Invalid_operands)))"

text \<open>The dispatch on the mnemonic \<^verbatim>\<open>parts[0]\<close>, upper-cased.\<close>

definition encode_parts :: "Label list \<Rightarrow> string list \<Rightarrow> encode_error + fields" where
  "encode_parts symbol_table parts =
     (let opcode_str = map toupper (parts ! 0)
      in if opcode_str = ''HLT'' then Inr (Opcode_only 0b00000)
         else if opcode_str = ''RET'' then Inr (Opcode_only 0b01110)
         else if opcode_str \<in> set [''INP'', ''OUT'', ''INC'', ''DEC'', ''NOT'', ''PUSH'', ''POP'']
           then encode_register_instruction opcode_str parts
         else if opcode_str \<in> set [''JMP'', ''JE'', ''JZ'', ''JNE'', ''JNZ'', ''JG'', ''JNLE'',
                                     ''JL'', ''JNGE'', ''JGE'', ''JNL'', ''JLE'', ''JNG'', ''CALL'']
           then encode_address_instruction symbol_table opcode_str parts
         else if opcode_str \<in> set [''ADD'', ''SUB'', ''CMP'', ''MUL'', ''DIV'', ''XOR'']
           then encode_two_operand_instruction opcode_str parts
         else if opcode_str = ''MOV'' then encode_mov symbol_table parts
         else Inl Unknown_mnemonic)"

text \<open>
  \<open>None\<close> is the line without a token, for which \<^verbatim>\<open>encode_instruction\<close> returns 0 at
  once.
\<close>

definition encode_fields :: "Label list \<Rightarrow> string \<Rightarrow> encode_error + fields option" where
  "encode_fields symbol_table line =
     (let parts = split_parts line
      in if length parts = 0 then Inr None
         else map_sum id Some (encode_parts symbol_table parts))"

definition encode_instruction :: "Label list \<Rightarrow> string \<Rightarrow> encode_error + uint16_t" where
  "encode_instruction symbol_table line =
     (case encode_fields symbol_table line of
        Inl e \<Rightarrow> Inl e
      | Inr None \<Rightarrow> Inr 0
      | Inr (Some f) \<Rightarrow> Inr (pack f))"

text \<open>
  \<^verbatim>\<open>assemble\<close> returns the instruction count, or \<open>-1\<close> as soon as \<^verbatim>\<open>encode_instruction\<close>
  returns \<open>0xFFFF\<close>. The model returns the words written to \<^verbatim>\<open>machine_code\<close>, or \<open>None\<close>
  for \<open>-1\<close>.
\<close>

fun assemble :: "Label list \<Rightarrow> string list \<Rightarrow> uint16_t list option" where
  "assemble symbol_table [] = Some []"
| "assemble symbol_table (line # rest) =
     (if line = [] then assemble symbol_table rest
      else
        (let instruction = returned_word (encode_instruction symbol_table line)
         in if instruction = 0xFFFF then None
            else map_option (\<lambda>machine_code. instruction # machine_code)
                   (assemble symbol_table rest)))"

text \<open>
  \<^verbatim>\<open>main\<close> after the source file is loaded: the exit code and the binary file written,
  if any. Failures of the file system are not modelled.
\<close>

definition assembler_main :: "string list \<Rightarrow> int \<times> uint16_t list option" where
  "assembler_main program_memory =
     (let (lines, symbol_table, warnings) = build_symbol_table program_memory
      in case assemble symbol_table lines of
           None \<Rightarrow> (1, None)
         | Some machine_code \<Rightarrow> (0, Some machine_code))"

subsection \<open>The simple profile\<close>

text \<open>
  The simple assembler's \<^verbatim>\<open>build_symbol_table\<close>: the address of a label is the index
  \<open>i\<close> of its line, and the \<^verbatim>\<open>fprintf\<close> of the warning stands inside the branch that
  records the label.
\<close>

fun build_symbol_table_loop_simple ::
  "string list \<Rightarrow> Label list \<Rightarrow> int \<Rightarrow> string list \<times> Label list \<times> warning list" where
  "build_symbol_table_loop_simple [] symbol_table i = ([], symbol_table, [])"
| "build_symbol_table_loop_simple (line # rest) symbol_table i =
     (let (line', symbol_table', printed) =
            (case strchr line CHR '':'' of
               None \<Rightarrow> (line, symbol_table, [])
             | Some (line_copy, colon) \<Rightarrow>
                 (let instruction_start = dropWhile isspace (tl colon)
                  in if length symbol_table < MAX_LABELS
                     then (instruction_start,
                           symbol_table @ [(take (MAX_LABEL_LENGTH - 1) line_copy, i)],
                           [Maximum_labels_reached line_copy])
                     else (instruction_start, symbol_table, [])));
          (rest', final_table, warnings) =
            build_symbol_table_loop_simple rest symbol_table' (i + 1)
      in (line' # rest', final_table, printed @ warnings))"

definition build_symbol_table_simple ::
  "string list \<Rightarrow> string list \<times> Label list \<times> warning list" where
  "build_symbol_table_simple program_memory = build_symbol_table_loop_simple program_memory [] 0"

definition get_register_code_simple :: "string \<Rightarrow> int" where
  "get_register_code_simple reg_name =
     (if reg_name = ''A'' then 0
      else if reg_name = ''B'' then 1
      else if reg_name = ''C'' then 2
      else -1)"

definition encode_parts_simple :: "Label list \<Rightarrow> string list \<Rightarrow> encode_error + uint16_t" where
  "encode_parts_simple symbol_table parts =
     (let opcode_str = map toupper (parts ! 0)
      in if opcode_str = ''HLT'' then Inr (word_of_int (push_bit 11 0b00000))
         else if opcode_str = ''DMP'' then Inr (word_of_int (push_bit 11 0b00001))
         else if opcode_str = ''CLRM'' then Inr (word_of_int (push_bit 11 0b00010))
         else if opcode_str = ''CLRR'' then Inr (word_of_int (push_bit 11 0b00011))
         else if opcode_str = ''ADD'' \<or> opcode_str = ''SUB'' \<or> opcode_str = ''MOV'' then
           (if length parts \<noteq> 3 then Inl Wrong_operand_count
            else
              (let opcode = (if opcode_str = ''ADD'' then 0b10000
                             else if opcode_str = ''SUB'' then 0b10001
                             else 0b10010);
                   reg1_code = get_register_code_simple (parts ! 1);
                   reg2_code = get_register_code_simple (parts ! 2)
               in if reg1_code = -1 \<or> reg2_code = -1 then Inl Invalid_register
                  else Inr (word_of_int
                         (push_bit 11 opcode OR push_bit 9 reg1_code OR push_bit 7 reg2_code))))
         else if opcode_str = ''INP'' \<or> opcode_str = ''OUT'' \<or> opcode_str = ''INC''
                 \<or> opcode_str = ''DEC'' then
           (if length parts \<noteq> 2 then Inl Wrong_operand_count
            else
              (let opcode = (if opcode_str = ''INP'' then 0b00100
                             else if opcode_str = ''OUT'' then 0b00101
                             else if opcode_str = ''INC'' then 0b01001
                             else 0b01010);
                   reg1_code = get_register_code_simple (parts ! 1)
               in if reg1_code = -1 then Inl Invalid_register
                  else Inr (word_of_int (push_bit 11 opcode OR push_bit 9 reg1_code))))
         else if opcode_str = ''SET'' then
           (if length parts \<noteq> 3 then Inl Wrong_operand_count
            else
              (let opcode = 0b00110;
                   reg1_code = get_register_code_simple (parts ! 1)
               in if first_char (parts ! 2) \<noteq> CHR ''#'' then Inl Immediate_marker_missing
                  else
                    (let val = atoi (tl (parts ! 2))
                     in if reg1_code = -1 then Inl Invalid_register
                        else if val < 0 \<or> val > 0x1FF then Inl Value_out_of_range
                        else Inr (word_of_int
                               (push_bit 11 opcode OR push_bit 9 reg1_code OR val)))))
         else if opcode_str = ''LDA'' \<or> opcode_str = ''STA'' then
           (if length parts \<noteq> 3 then Inl Wrong_operand_count
            else
              (let opcode = (if opcode_str = ''LDA'' then 0b00111 else 0b01000);
                   reg1_code = get_register_code_simple (parts ! 1);
                   val = label_or_number symbol_table (parts ! 2)
               in if reg1_code = -1 then Inl Invalid_register
                  else if val = -1 then Inl Undefined_label
                  else if val < 0 \<or> val > 0x1FF then Inl Value_out_of_range
                  else Inr (word_of_int (push_bit 11 opcode OR push_bit 9 reg1_code OR val))))
         else if opcode_str = ''JMP'' then
           (if length parts \<noteq> 2 then Inl Wrong_operand_count
            else
              (let opcode = 0b11000;
                   val = label_or_number symbol_table (parts ! 1)
               in if val = -1 then Inl Undefined_label
                  else if val < 0 \<or> val > 0x1FF then Inl Value_out_of_range
                  else Inr (word_of_int (push_bit 11 opcode OR val))))
         else if opcode_str = ''JZ'' \<or> opcode_str = ''JNZ'' \<or> opcode_str = ''JP''
                 \<or> opcode_str = ''JN'' then
           (if length parts \<noteq> 3 then Inl Wrong_operand_count
            else
              (let opcode = (if opcode_str = ''JZ'' then 0b11001
                             else if opcode_str = ''JNZ'' then 0b11010
                             else if opcode_str = ''JP'' then 0b11011
                             else 0b11100);
                   reg1_code = get_register_code_simple (parts ! 1);
                   val = label_or_number symbol_table (parts ! 2)
               in if reg1_code = -1 then Inl Invalid_register
                  else if val = -1 then Inl Undefined_label
                  else if val < 0 \<or> val > 0x1FF then Inl Value_out_of_range
                  else Inr (word_of_int (push_bit 11 opcode OR push_bit 9 reg1_code OR val))))
         else Inl Unknown_mnemonic)"

definition encode_instruction_simple :: "Label list \<Rightarrow> string \<Rightarrow> encode_error + uint16_t" where
  "encode_instruction_simple symbol_table line =
     (let parts = split_parts line
      in if length parts = 0 then Inr 0
         else encode_parts_simple symbol_table parts)"

text \<open>The simple \<^verbatim>\<open>assemble\<close> encodes every line, the empty ones too.\<close>

fun assemble_simple :: "Label list \<Rightarrow> string list \<Rightarrow> uint16_t list option" where
  "assemble_simple symbol_table [] = Some []"
| "assemble_simple symbol_table (line # rest) =
     (let instruction = returned_word (encode_instruction_simple symbol_table line)
      in if instruction = 0xFFFF then None
         else map_option (\<lambda>machine_code. instruction # machine_code)
                (assemble_simple symbol_table rest))"

definition assembler_main_simple :: "string list \<Rightarrow> int \<times> uint16_t list option" where
  "assembler_main_simple program_memory =
     (let (lines, symbol_table, warnings) = build_symbol_table_simple program_memory
      in case assemble_simple symbol_table lines of
           None \<Rightarrow> (1, None)
         | Some machine_code \<Rightarrow> (0, Some machine_code))"

section \<open>The instruction word between the assembler and the simulator\<close>

text \<open>
  What \<^verbatim>\<open>execute_instruction\<close> reads from a word. The opcode selects the masks: under
  the opcodes \<open>01111\<close> and \<open>11111\<close> the word is read as two register fields and a 5-bit
  offset, under every other opcode as \<^verbatim>\<open>reg1\<close>, \<^verbatim>\<open>reg2\<close> and an 8-bit \<^verbatim>\<open>value\<close>, of which
  the \<^verbatim>\<open>case\<close> of the opcode uses none, \<^verbatim>\<open>reg1\<close>, \<^verbatim>\<open>reg1\<close> and \<^verbatim>\<open>value\<close>, \<^verbatim>\<open>reg1\<close> and
  \<^verbatim>\<open>reg2\<close>, or \<^verbatim>\<open>value\<close> alone. \<open>decode\<close> returns the opcode and the operands that are used,
  in the shape of the assembler's \<open>fields\<close>; the last line is the \<^verbatim>\<open>default\<close> of the
  \<^verbatim>\<open>switch\<close>, which prints the opcode.
\<close>

definition decode :: "uint16_t \<Rightarrow> fields" where
  "decode instruction =
     (let opcode = opcode_of instruction in
      if opcode = 0b01111 \<or> opcode = 0b11111 then
        Opcode_reg_base_offset (uint opcode) (uint (reg1_of instruction))
          (uint (reg2_of instruction)) (uint (offset_of instruction))
      else
        (let reg1 = uint (reg1_of instruction);
             reg2 = uint (reg2_of instruction);
             val = uint (value_of instruction)
         in
         if opcode = 0b00000 \<or> opcode = 0b01110 then Opcode_only (uint opcode)
         else if opcode = 0b00100 \<or> opcode = 0b00101 \<or> opcode = 0b01001 \<or> opcode = 0b01010
                 \<or> opcode = 0b10110 \<or> opcode = 0b01011 \<or> opcode = 0b01100
           then Opcode_reg (uint opcode) reg1
         else if opcode = 0b00110 \<or> opcode = 0b00111 \<or> opcode = 0b01000 \<or> opcode = 0b10011
                 \<or> opcode = 0b10100 \<or> opcode = 0b10101
           then Opcode_reg_value (uint opcode) reg1 val
         else if opcode = 0b00001 \<or> opcode = 0b00010 \<or> opcode = 0b00011 \<or> opcode = 0b10000
                 \<or> opcode = 0b10001 \<or> opcode = 0b10010 \<or> opcode = 0b10111
           then Opcode_reg_reg (uint opcode) reg1 reg2
         else if opcode = 0b11000 \<or> opcode = 0b11001 \<or> opcode = 0b11010 \<or> opcode = 0b11011
                 \<or> opcode = 0b11100 \<or> opcode = 0b11101 \<or> opcode = 0b11110 \<or> opcode = 0b01101
           then Opcode_value (uint opcode) val
         else Opcode_only (uint opcode)))"

text \<open>
  The code under which the simulator's \<^verbatim>\<open>register_names\<close> holds a register name, the case
  of the letters apart; 8 for a name that is not in the table.
\<close>

definition register_number :: "string \<Rightarrow> int" where
  "register_number reg_name =
     int (length (takeWhile (\<lambda>name. name \<noteq> map toupper reg_name) register_names))"

text \<open>
  The two texts of a memory operand \<^verbatim>\<open>[base+offset]\<close>: what stands between the bracket and
  the first plus sign, and what follows that plus sign.
\<close>

definition base_text :: "string \<Rightarrow> string" where
  "base_text mem_operand = takeWhile (\<lambda>c. c \<noteq> CHR ''+'') (tl mem_operand)"

definition offset_text :: "string \<Rightarrow> string" where
  "offset_text mem_operand = tl (dropWhile (\<lambda>c. c \<noteq> CHR ''+'') mem_operand)"

section \<open>Facts about the simulator\<close>

lemmas decode_defs = opcode_of_def reg1_of_def reg2_of_def value_of_def offset_of_def

lemmas machine_defs = get_register_value_def set_register_value_def write_memory_def
  read_memory_def MEMORY_SIZE_def initial_machine_def

lemma sint_diff_no_overflow:
  fixes a b :: cint
  assumes "- (2 ^ 31) \<le> sint a - sint b" "sint a - sint b < 2 ^ 31"
  shows "sint (a - b) = sint a - sint b"
  using assms by (simp add: sint_word_ariths signed_take_bit_int_eq_self)

lemma sint_dec:
  fixes x :: cint
  assumes "- (2 ^ 31) < sint x"
  shows "sint (x - 1) = sint x - 1"
proof -
  have "sint x < 2 ^ 31" using sint_lt [of x] by simp
  then show ?thesis using assms sint_diff_no_overflow [of x 1] by simp
qed

text \<open>The slot below a stack pointer in \<open>1..256\<close> is a memory address.\<close>

lemma stack_slot_valid:
  fixes x :: cint
  assumes "1 \<le>s x" "x \<le>s MEMORY_SIZE"
  shows "0 \<le>s x - 1 \<and> x - 1 <s MEMORY_SIZE"
proof -
  have "1 \<le> sint x" "sint x \<le> 256"
    using assms by (simp_all add: word_sle_eq MEMORY_SIZE_def)
  moreover from this have "sint (x - 1) = sint x - 1" by (intro sint_dec) simp
  ultimately show ?thesis by (simp add: word_sle_eq word_sless_alt MEMORY_SIZE_def)
qed

text \<open>
  The slot below a stack pointer that is 0 or negative is not: it is negative, or, when
  the decrement wraps around at the smallest int, the largest int.
\<close>

lemma stack_slot_invalid:
  fixes x :: cint
  assumes "x \<le>s 0"
  shows "\<not> (0 \<le>s x - 1 \<and> x - 1 <s MEMORY_SIZE)"
proof (cases "- (2 ^ 31) < sint x")
  case True
  then have "sint (x - 1) = sint x - 1" by (rule sint_dec)
  moreover have "sint x \<le> 0" using assms by (simp add: word_sle_eq)
  ultimately show ?thesis by (simp add: word_sle_eq)
next
  case False
  moreover have "- (2 ^ 31) \<le> sint x" using sint_ge [of x] by simp
  ultimately have "sint x = - (2 ^ 31)" by simp
  then have "sint x = sint (0x80000000 :: cint)" by simp
  then have "x = 0x80000000" by (rule signed_word_eqI)
  then have "x - 1 = 0x7FFFFFFF" by simp
  then show ?thesis by (simp add: word_sless_alt MEMORY_SIZE_def)
qed

lemma write_memory_invalid:
  assumes "\<not> (0 \<le>s address \<and> address <s MEMORY_SIZE)"
  shows "write_memory address data s = s\<lparr>console := console s @ [Invalid_write address]\<rparr>"
  using assms by (auto simp add: write_memory_def)

text \<open>The four stack instructions, as their \<^verbatim>\<open>case\<close> of the \<^verbatim>\<open>switch\<close> reads.\<close>

lemma execute_push:
  assumes "opcode_of push = 0b01011"
  shows "execute_instruction push pc s =
           (let s1 = s\<lparr>registers := (registers s)\<lparr>ESP := ESP (registers s) - 1\<rparr>\<rparr>
            in (pc + 1, write_memory (ESP (registers s1))
                          (get_register_value (ucast (reg1_of push)) s1) s1))"
  using assms by (simp add: execute_instruction_def Let_def)

lemma execute_pop:
  assumes "opcode_of pop = 0b01100"
  shows "execute_instruction pop pc s =
          (let (v, s1) = read_memory (ESP (registers s)) s;
               s2 = set_register_value (ucast (reg1_of pop)) v s1
           in (pc + 1, s2\<lparr>registers := (registers s2)\<lparr>ESP := ESP (registers s2) + 1\<rparr>\<rparr>))"
  using assms by (simp add: execute_instruction_def Let_def)

lemma execute_call:
  assumes "opcode_of call = 0b01101"
  shows "execute_instruction call pc s =
          (let s1 = s\<lparr>registers := (registers s)\<lparr>ESP := ESP (registers s) - 1\<rparr>\<rparr>
           in (ucast (value_of call), write_memory (ESP (registers s1)) (pc + 1) s1))"
  using assms by (simp add: execute_instruction_def Let_def)

lemma execute_ret:
  assumes "opcode_of ret = 0b01110"
  shows "execute_instruction ret pc s =
          (let (ret_addr, s1) = read_memory (ESP (registers s)) s
           in (ret_addr, s1\<lparr>registers := (registers s1)\<lparr>ESP := ESP (registers s1) + 1\<rparr>\<rparr>))"
  using assms by (simp add: execute_instruction_def Let_def)

lemma push_discarded_step:
  fixes s :: machine
  assumes "opcode_of push = 0b01011" "ESP (registers s) \<le>s 0"
  shows "execute_instruction push pc s =
           (pc + 1, s\<lparr>registers := (registers s)\<lparr>ESP := ESP (registers s) - 1\<rparr>,
                      console := console s @ [Invalid_write (ESP (registers s) - 1)]\<rparr>)"
  by (simp add: execute_push [OF assms(1)] Let_def
      write_memory_invalid [OF stack_slot_invalid [OF assms(2)]])

lemma call_discarded_step:
  fixes s :: machine
  assumes "opcode_of call = 0b01101" "ESP (registers s) \<le>s 0"
  shows "execute_instruction call pc s =
           (ucast (value_of call),
            s\<lparr>registers := (registers s)\<lparr>ESP := ESP (registers s) - 1\<rparr>,
              console := console s @ [Invalid_write (ESP (registers s) - 1)]\<rparr>)"
  by (simp add: execute_call [OF assms(1)] Let_def
      write_memory_invalid [OF stack_slot_invalid [OF assms(2)]])

lemma push_discarded_iterated:
  fixes s :: machine
  assumes "opcode_of push = 0b01011"
  shows "ESP (registers s) \<le>s 0 \<Longrightarrow> - (2 ^ 31) \<le> sint (ESP (registers s)) - int n \<Longrightarrow>
         memory (((\<lambda>s. snd (execute_instruction push pc s)) ^^ n) s) = memory s
       \<and> ESP (registers (((\<lambda>s. snd (execute_instruction push pc s)) ^^ n) s))
           = ESP (registers s) - of_nat n"
proof (induction n arbitrary: s)
  case 0
  then show ?case by simp
next
  case (Suc n)
  let ?f = "\<lambda>s. snd (execute_instruction push pc s)"
  have step: "?f s = s\<lparr>registers := (registers s)\<lparr>ESP := ESP (registers s) - 1\<rparr>,
                      console := console s @ [Invalid_write (ESP (registers s) - 1)]\<rparr>"
    using push_discarded_step [OF assms Suc.prems(1)] by simp
  have lb: "- (2 ^ 31) < sint (ESP (registers s))" using Suc.prems(2) by simp
  have dec: "sint (ESP (registers s) - 1) = sint (ESP (registers s)) - 1"
    using lb by (rule sint_dec)
  have le: "sint (ESP (registers s)) \<le> 0" using Suc.prems(1) by (simp add: word_sle_eq)
  have 1: "ESP (registers (?f s)) \<le>s 0" using dec le by (simp add: step word_sle_eq)
  have 2: "- (2 ^ 31) \<le> sint (ESP (registers (?f s))) - int n"
    using dec Suc.prems(2) by (simp add: step)
  have "(?f ^^ Suc n) s = (?f ^^ n) (?f s)" by (simp only: funpow_Suc_right o_apply)
  then show ?case using Suc.IH [OF 1 2] by (simp add: step)
qed

subsection \<open>Division by zero\<close>

text \<open>
  C4. Executing \<^verbatim>\<open>DIV\<close> (opcode \<open>00010\<close>) when the divisor register holds zero stops the
  machine with an error: \<^verbatim>\<open>execute_instruction\<close> returns \<open>-1\<close>, reports the division by
  zero, and changes nothing else, so every register, the destination included, keeps its
  value; the fetch loop then leaves at once.
\<close>

theorem div_by_zero_faults:
  assumes "opcode_of instruction = 0b00010"
      and "get_register_value (ucast (reg2_of instruction)) s = 0"
  shows "execute_instruction instruction pc s
           = (-1, s\<lparr>console := console s @ [Division_by_zero pc]\<rparr>)
       \<and> registers (snd (execute_instruction instruction pc s)) = registers s
       \<and> (\<forall>machine_code n.
            0 \<le>s pc \<and> pc <s word_of_nat (length machine_code)
            \<and> machine_code ! unat pc = instruction \<longrightarrow>
            run_loop (Suc (Suc n)) machine_code pc s
              = Some (-1, s\<lparr>console := console s @ [Division_by_zero pc]\<rparr>))"
proof -
  have ex: "execute_instruction instruction pc s
              = (-1, s\<lparr>console := console s @ [Division_by_zero pc]\<rparr>)"
    using assms by (simp add: execute_instruction_def Let_def)
  have stop: "\<not> (0 :: cint) \<le>s -1" by (simp add: word_sle_eq)
  show ?thesis using stop by (simp add: ex)
qed

theorem div_by_zero_faults_witness:
  "opcode_of 0x1020 = 0b00010
   \<and> get_register_value (ucast (reg2_of 0x1020))
       ((initial_machine (\<lambda>_. None))\<lparr>registers := (registers (initial_machine (\<lambda>_. None)))\<lparr>EAX := 7\<rparr>\<rparr>) = 0
   \<and> fst (execute_instruction 0x1020 0
       ((initial_machine (\<lambda>_. None))\<lparr>registers := (registers (initial_machine (\<lambda>_. None)))\<lparr>EAX := 7\<rparr>\<rparr>)) = -1
   \<and> EAX (registers (snd (execute_instruction 0x1020 0
       ((initial_machine (\<lambda>_. None))\<lparr>registers := (registers (initial_machine (\<lambda>_. None)))\<lparr>EAX := 7\<rparr>\<rparr>)))) = 7
   \<and> console (snd (execute_instruction 0x1020 0
       ((initial_machine (\<lambda>_. None))\<lparr>registers := (registers (initial_machine (\<lambda>_. None)))\<lparr>EAX := 7\<rparr>\<rparr>)))
       = [Division_by_zero 0]
   \<and> map_option fst (run_loop (Suc (Suc 0)) [0x1020] 0
       ((initial_machine (\<lambda>_. None))\<lparr>registers := (registers (initial_machine (\<lambda>_. None)))\<lparr>EAX := 7\<rparr>\<rparr>))
       = Some (-1)"
proof -
  let ?s = "(initial_machine (\<lambda>_. None))\<lparr>registers := (registers (initial_machine (\<lambda>_. None)))\<lparr>EAX := 7\<rparr>\<rparr>"
  have h1: "opcode_of 0x1020 = 0b00010" by (simp add: opcode_of_def)
  have h2: "get_register_value (ucast (reg2_of 0x1020)) ?s = 0"
    by (simp add: reg2_of_def machine_defs)
  have h3: "(0 :: cint) \<le>s 0 \<and> (0 :: cint) <s word_of_nat (length [0x1020 :: uint16_t])
            \<and> [0x1020 :: uint16_t] ! unat (0 :: cint) = 0x1020"
    by (simp add: word_sless_alt)
  note t = div_by_zero_faults [OF h1 h2, of 0]
  from t have a: "execute_instruction 0x1020 0 ?s = (-1, ?s\<lparr>console := console ?s @ [Division_by_zero 0]\<rparr>)"
    by (rule conjunct1)
  from t h3 have b: "run_loop (Suc (Suc 0)) [0x1020] 0 ?s
      = Some (-1, ?s\<lparr>console := console ?s @ [Division_by_zero 0]\<rparr>)"
    by blast
  have c1: "fst (execute_instruction 0x1020 0 ?s) = -1" by (simp only: a fst_conv)
  have c2: "EAX (registers (snd (execute_instruction 0x1020 0 ?s))) = 7"
    by (simp only: a snd_conv) (simp add: initial_machine_def)
  have c3: "console (snd (execute_instruction 0x1020 0 ?s)) = [Division_by_zero 0]"
    by (simp only: a snd_conv) (simp add: initial_machine_def)
  have c4: "map_option fst (run_loop (Suc (Suc 0)) [0x1020] 0 ?s) = Some (-1)"
    by (simp only: b option.map fst_conv)
  show ?thesis using h1 h2 c1 c2 c3 c4 by blast
qed

subsection \<open>Comparison\<close>

text \<open>
  C6, as the claim states it, fails: the flags come from the wrapped 32-bit difference,
  so comparing the smallest int with 1 (a smaller first operand against a larger second
  one) leaves the sign flag clear.
\<close>

theorem cmp_sign_flag_counterexample:
  "EAX (registers ((initial_machine (\<lambda>_. None))
        \<lparr>registers := (registers (initial_machine (\<lambda>_. None)))\<lparr>EAX := 0x80000000, EBX := 1\<rparr>\<rparr>))
     <s EBX (registers ((initial_machine (\<lambda>_. None))
        \<lparr>registers := (registers (initial_machine (\<lambda>_. None)))\<lparr>EAX := 0x80000000, EBX := 1\<rparr>\<rparr>))
   \<and> opcode_of 0xB820 = 0b10111 \<and> reg1_of 0xB820 = 0 \<and> reg2_of 0xB820 = 1
   \<and> \<not> SF (flags (snd (execute_instruction 0xB820 0
        ((initial_machine (\<lambda>_. None))
          \<lparr>registers := (registers (initial_machine (\<lambda>_. None)))\<lparr>EAX := 0x80000000, EBX := 1\<rparr>\<rparr>))))"
  by (simp add: execute_instruction_def decode_defs machine_defs word_sless_alt)

text \<open>
  C6, amended. \<^verbatim>\<open>CMP\<close> (register with register, opcode \<open>10111\<close>, or register with
  immediate, opcode \<open>10101\<close>) computes the wrapped difference \<open>a - b\<close> of its operands
  and stores it nowhere: the state changes in the flags only, to \<open>ZF = (a - b = 0)\<close> and
  \<open>SF = (a - b < 0)\<close>. So equal operands give \<open>ZF\<close> set and \<open>SF\<close> clear, and a smaller
  first operand gives \<open>SF\<close> set whenever the difference does not overflow 32 bits.
\<close>

theorem cmp_sets_flags:
  fixes s :: machine
  assumes "opcode_of instruction = 0b10111 \<or> opcode_of instruction = 0b10101"
      and "a = get_register_value (ucast (reg1_of instruction)) s"
      and "b = (if opcode_of instruction = 0b10111
                then get_register_value (ucast (reg2_of instruction)) s
                else ucast (value_of instruction))"
  shows "execute_instruction instruction pc s
           = (pc + 1, s\<lparr>flags := \<lparr>ZF = (a - b = 0), SF = (a - b <s 0)\<rparr>\<rparr>)
       \<and> (a = b \<longrightarrow> ZF (flags (snd (execute_instruction instruction pc s)))
                   \<and> \<not> SF (flags (snd (execute_instruction instruction pc s))))
       \<and> (sint a < sint b \<and> - (2 ^ 31) \<le> sint a - sint b \<longrightarrow>
             SF (flags (snd (execute_instruction instruction pc s))))"
proof -
  have ex: "execute_instruction instruction pc s =
           (pc + 1, s\<lparr>flags := \<lparr>ZF = (a - b = 0), SF = (a - b <s 0)\<rparr>\<rparr>)"
    using assms(1) by (auto simp add: execute_instruction_def Let_def assms(2,3))
  have "a - b <s 0" if "sint a < sint b" "- (2 ^ 31) \<le> sint a - sint b"
  proof -
    have "sint (a - b) = sint a - sint b"
      using that by (intro sint_diff_no_overflow) auto
    then show ?thesis using that by (simp add: word_sless_alt)
  qed
  then show ?thesis by (simp add: ex)
qed

theorem cmp_sets_flags_witness:
  "(opcode_of 0xB820 = 0b10111 \<or> opcode_of 0xB820 = 0b10101)
   \<and> sint (3 :: cint) < sint (5 :: cint) \<and> - (2 ^ 31) \<le> sint (3 :: cint) - sint (5 :: cint)
   \<and> execute_instruction 0xB820 0
        ((initial_machine (\<lambda>_. None))
          \<lparr>registers := (registers (initial_machine (\<lambda>_. None)))\<lparr>EAX := 3, EBX := 5\<rparr>\<rparr>)
      = (1, (initial_machine (\<lambda>_. None))
          \<lparr>registers := (registers (initial_machine (\<lambda>_. None)))\<lparr>EAX := 3, EBX := 5\<rparr>,
            flags := \<lparr>ZF = False, SF = True\<rparr>\<rparr>)
   \<and> SF (flags (snd (execute_instruction 0xB820 0
        ((initial_machine (\<lambda>_. None))
          \<lparr>registers := (registers (initial_machine (\<lambda>_. None)))\<lparr>EAX := 3, EBX := 5\<rparr>\<rparr>))))"
proof -
  let ?s = "(initial_machine (\<lambda>_. None))
          \<lparr>registers := (registers (initial_machine (\<lambda>_. None)))\<lparr>EAX := 3, EBX := 5\<rparr>\<rparr>"
  have h1: "opcode_of 0xB820 = 0b10111 \<or> opcode_of 0xB820 = 0b10101"
    by (simp add: opcode_of_def)
  have h2: "(3 :: cint) = get_register_value (ucast (reg1_of 0xB820)) ?s"
    by (simp add: reg1_of_def machine_defs)
  have h3: "(5 :: cint) = (if opcode_of 0xB820 = 0b10111
                then get_register_value (ucast (reg2_of 0xB820)) ?s
                else ucast (value_of 0xB820))"
    by (simp add: reg2_of_def opcode_of_def machine_defs)
  have h4: "sint (3 :: cint) < sint (5 :: cint) \<and> - (2 ^ 31) \<le> sint (3 :: cint) - sint (5 :: cint)"
    by simp
  note t = cmp_sets_flags [OF h1 h2 h3, of 0]
  from t have a: "execute_instruction 0xB820 0 ?s
           = (0 + 1, ?s\<lparr>flags := \<lparr>ZF = ((3 :: cint) - 5 = 0), SF = ((3 :: cint) - 5 <s 0)\<rparr>\<rparr>)"
    by (rule conjunct1)
  from t h4 have b: "SF (flags (snd (execute_instruction 0xB820 0 ?s)))" by blast
  have c: "((3 :: cint) - 5 <s 0) = True" "((3 :: cint) - 5 = 0) = False"
    by (simp_all add: word_sless_alt)
  show ?thesis using h1 h4 b unfolding a c by simp
qed

subsection \<open>The stack\<close>

text \<open>
  C8, as the claim states it for every machine state, fails: with the stack pointer at 0
  the pushed value is dropped, and \<^verbatim>\<open>POP\<close> reads 0 back. Here \<^verbatim>\<open>PUSH EAX\<close> and
  \<^verbatim>\<open>POP EAX\<close> turn 7 into 0.
\<close>

theorem push_pop_counterexample:
  "opcode_of 0x5800 = 0b01011 \<and> opcode_of 0x6000 = 0b01100
   \<and> reg1_of 0x5800 = 0 \<and> reg1_of 0x6000 = 0
   \<and> EAX (registers ((initial_machine (\<lambda>_. None))
        \<lparr>registers := (registers (initial_machine (\<lambda>_. None)))\<lparr>EAX := 7\<rparr>\<rparr>)) = 7
   \<and> EAX (registers (snd (execute_instruction 0x6000 1
        (snd (execute_instruction 0x5800 0
          ((initial_machine (\<lambda>_. None))
            \<lparr>registers := (registers (initial_machine (\<lambda>_. None)))\<lparr>EAX := 7\<rparr>\<rparr>)))))) = 0"
  by (simp add: execute_instruction_def decode_defs machine_defs word_sle_eq word_sless_alt)

text \<open>
  C8, amended. For every register \<open>r\<close> and every machine state whose stack pointer is in
  \<open>1..256\<close> (so that the slot below it is a memory address), \<^verbatim>\<open>PUSH r\<close> followed by
  \<^verbatim>\<open>POP r\<close> leaves the value of \<open>r\<close> unchanged and restores the stack pointer. Push
  decrements the stack pointer and then stores at it; pop loads from it and then
  increments it.
\<close>

theorem push_pop_roundtrip:
  fixes s :: machine
  assumes "opcode_of push = 0b01011" "opcode_of pop = 0b01100" "reg1_of pop = reg1_of push"
      and "1 \<le>s ESP (registers s)" "ESP (registers s) \<le>s MEMORY_SIZE"
  shows "case execute_instruction push pc s of (pc1, s1) \<Rightarrow>
           case execute_instruction pop pc1 s1 of (pc2, s2) \<Rightarrow>
             pc1 = pc + 1 \<and> pc2 = pc + 2
           \<and> ESP (registers s1) = ESP (registers s) - 1
           \<and> memory s1 = (memory s)(unat (ESP (registers s) - 1) :=
                                      get_register_value (ucast (reg1_of push)) s1)
           \<and> get_register_value (ucast (reg1_of push)) s2
               = get_register_value (ucast (reg1_of push)) s
           \<and> ESP (registers s2) = ESP (registers s)"
proof -
  have r: "0 \<le>s ESP (registers s) - 1 \<and> ESP (registers s) - 1 <s MEMORY_SIZE"
    using assms(4,5) by (rule stack_slot_valid)
  show ?thesis using assms(3) r
    by (simp add: execute_push [OF assms(1)] execute_pop [OF assms(2)] Let_def
        write_memory_def read_memory_def get_register_value_def set_register_value_def)
qed

theorem push_pop_roundtrip_witness:
  "opcode_of 0x5800 = 0b01011 \<and> opcode_of 0x6000 = 0b01100 \<and> reg1_of 0x6000 = reg1_of 0x5800
   \<and> (1 :: cint) \<le>s 256 \<and> (256 :: cint) \<le>s MEMORY_SIZE
   \<and> EAX (registers (snd (execute_instruction 0x6000 1
        (snd (execute_instruction 0x5800 0
          ((initial_machine (\<lambda>_. None))
            \<lparr>registers := (registers (initial_machine (\<lambda>_. None)))\<lparr>EAX := 7, ESP := 256\<rparr>\<rparr>)))))) = 7
   \<and> ESP (registers (snd (execute_instruction 0x6000 1
        (snd (execute_instruction 0x5800 0
          ((initial_machine (\<lambda>_. None))
            \<lparr>registers := (registers (initial_machine (\<lambda>_. None)))\<lparr>EAX := 7, ESP := 256\<rparr>\<rparr>)))))) = 256"
proof -
  let ?s = "(initial_machine (\<lambda>_. None))
            \<lparr>registers := (registers (initial_machine (\<lambda>_. None)))\<lparr>EAX := 7, ESP := 256\<rparr>\<rparr>"
  have h1: "opcode_of 0x5800 = 0b01011" by (simp add: opcode_of_def)
  have h2: "opcode_of 0x6000 = 0b01100" by (simp add: opcode_of_def)
  have h3: "reg1_of 0x6000 = reg1_of 0x5800" by (simp add: reg1_of_def)
  have e: "ESP (registers ?s) = 256" by (simp add: initial_machine_def)
  have h4: "1 \<le>s ESP (registers ?s)" by (simp add: e word_sle_eq)
  have h5: "ESP (registers ?s) \<le>s MEMORY_SIZE" by (simp add: e MEMORY_SIZE_def)
  have r: "get_register_value (ucast (reg1_of 0x5800)) = (\<lambda>s. EAX (registers s))"
    by (rule ext) (simp add: reg1_of_def get_register_value_def)
  have v: "EAX (registers ?s) = 7" by (simp add: initial_machine_def)
  have p: "execute_instruction 0x5800 0 ?s = (1, snd (execute_instruction 0x5800 0 ?s))"
    by (simp add: execute_push [OF h1] Let_def)
  have q: "execute_instruction 0x6000 1 (snd (execute_instruction 0x5800 0 ?s))
           = (2, snd (execute_instruction 0x6000 1 (snd (execute_instruction 0x5800 0 ?s))))"
    by (simp add: execute_pop [OF h2] Let_def split: prod.splits)
  have "EAX (registers (snd (execute_instruction 0x6000 1 (snd (execute_instruction 0x5800 0 ?s))))) = 7
      \<and> ESP (registers (snd (execute_instruction 0x6000 1 (snd (execute_instruction 0x5800 0 ?s))))) = 256"
    using push_pop_roundtrip [OF h1 h2 h3 h4 h5, of 0]
    by (simp add: r v e split: prod.splits)
  moreover have "(1 :: cint) \<le>s 256 \<and> (256 :: cint) \<le>s MEMORY_SIZE"
    by (simp add: MEMORY_SIZE_def word_sle_eq)
  ultimately show ?thesis using h1 h2 h3 by blast
qed

subsection \<open>Call and return\<close>

text \<open>
  C7, as the claim states it, fails when the slot below the stack pointer is not a
  memory address: \<^verbatim>\<open>CALL 5\<close> at PC 3 with the stack pointer at 0 drops the return
  address, and the matching \<^verbatim>\<open>RET\<close> goes to 0 instead of 4.
\<close>

theorem call_ret_counterexample:
  "opcode_of 0x6805 = 0b01101 \<and> opcode_of 0x7000 = 0b01110
   \<and> fst (execute_instruction 0x6805 3 (initial_machine (\<lambda>_. None))) = 5
   \<and> fst (execute_instruction 0x7000 5
            (snd (execute_instruction 0x6805 3 (initial_machine (\<lambda>_. None))))) = 0
   \<and> fst (execute_instruction 0x7000 5
            (snd (execute_instruction 0x6805 3 (initial_machine (\<lambda>_. None))))) \<noteq> 3 + 1"
  by (simp add: execute_instruction_def decode_defs machine_defs word_sle_eq word_sless_alt)

text \<open>
  C7, amended. When the stack pointer is in \<open>1..256\<close>, \<^verbatim>\<open>CALL\<close> at program counter
  \<open>pc\<close> stores \<open>pc + 1\<close> in the slot below the stack pointer, moves the stack pointer to
  that slot and sets the program counter to the target address. A \<^verbatim>\<open>RET\<close> executed in
  any state that has the stack pointer where \<^verbatim>\<open>CALL\<close> left it and that slot unchanged
  sets the program counter to \<open>pc + 1\<close> and restores the stack pointer to its value
  before the \<^verbatim>\<open>CALL\<close>.
\<close>

theorem call_ret_roundtrip:
  fixes s :: machine
  assumes "opcode_of call = 0b01101" "opcode_of ret = 0b01110"
      and "1 \<le>s ESP (registers s)" "ESP (registers s) \<le>s MEMORY_SIZE"
  shows "case execute_instruction call pc s of (pc1, s1) \<Rightarrow>
            pc1 = ucast (value_of call)
          \<and> ESP (registers s1) = ESP (registers s) - 1
          \<and> memory s1 = (memory s)(unat (ESP (registers s) - 1) := pc + 1)
          \<and> (\<forall>t pc'. ESP (registers t) = ESP (registers s1)
                     \<and> memory t (unat (ESP (registers s1))) = pc + 1 \<longrightarrow>
               (case execute_instruction ret pc' t of (pc2, t2) \<Rightarrow>
                  pc2 = pc + 1 \<and> ESP (registers t2) = ESP (registers s)))"
proof -
  have r: "0 \<le>s ESP (registers s) - 1 \<and> ESP (registers s) - 1 <s MEMORY_SIZE"
    using assms(3,4) by (rule stack_slot_valid)
  show ?thesis using r
    by (simp add: execute_call [OF assms(1)] execute_ret [OF assms(2)] Let_def
        write_memory_def read_memory_def)
qed

theorem call_ret_roundtrip_witness:
  "opcode_of 0x6805 = 0b01101 \<and> opcode_of 0x7000 = 0b01110
   \<and> (1 :: cint) \<le>s 256 \<and> (256 :: cint) \<le>s MEMORY_SIZE
   \<and> fst (execute_instruction 0x6805 3
        ((initial_machine (\<lambda>_. None))
           \<lparr>registers := (registers (initial_machine (\<lambda>_. None)))\<lparr>ESP := 256\<rparr>\<rparr>)) = 5
   \<and> fst (execute_instruction 0x7000 5 (snd (execute_instruction 0x6805 3
        ((initial_machine (\<lambda>_. None))
           \<lparr>registers := (registers (initial_machine (\<lambda>_. None)))\<lparr>ESP := 256\<rparr>\<rparr>)))) = 4
   \<and> ESP (registers (snd (execute_instruction 0x7000 5 (snd (execute_instruction 0x6805 3
        ((initial_machine (\<lambda>_. None))
           \<lparr>registers := (registers (initial_machine (\<lambda>_. None)))\<lparr>ESP := 256\<rparr>\<rparr>)))))) = 256"
proof -
  let ?s = "(initial_machine (\<lambda>_. None))
           \<lparr>registers := (registers (initial_machine (\<lambda>_. None)))\<lparr>ESP := 256\<rparr>\<rparr>"
  let ?s1 = "snd (execute_instruction 0x6805 3 ?s)"
  have h1: "opcode_of 0x6805 = 0b01101" by (simp add: opcode_of_def)
  have h2: "opcode_of 0x7000 = 0b01110" by (simp add: opcode_of_def)
  have e: "ESP (registers ?s) = 256" by (simp add: initial_machine_def)
  have h3: "1 \<le>s ESP (registers ?s)" by (simp add: e word_sle_eq)
  have h4: "ESP (registers ?s) \<le>s MEMORY_SIZE" by (simp add: e MEMORY_SIZE_def)
  have v: "(ucast (value_of 0x6805) :: cint) = 5" by (simp add: value_of_def)
  obtain pc1 s1 where ex: "execute_instruction 0x6805 3 ?s = (pc1, s1)"
    by (cases "execute_instruction 0x6805 3 ?s")
  obtain pc2 s2 where ex2: "execute_instruction 0x7000 5 s1 = (pc2, s2)"
    by (cases "execute_instruction 0x7000 5 s1")
  note t = call_ret_roundtrip [OF h1 h2 h3 h4, of 3, unfolded ex prod.case]
  from t have a1: "pc1 = ucast (value_of 0x6805)"
    by (rule conjunct1)
  from t have a2: "ESP (registers s1) = ESP (registers ?s) - 1"
    by (rule conjunct2 [THEN conjunct1])
  from t have a3: "memory s1 = (memory ?s)(unat (ESP (registers ?s) - 1) := 3 + 1)"
    by (rule conjunct2 [THEN conjunct2, THEN conjunct1])
  from t have a4: "\<forall>t pc'. ESP (registers t) = ESP (registers s1)
                     \<and> memory t (unat (ESP (registers s1))) = 3 + 1 \<longrightarrow>
               (case execute_instruction 0x7000 pc' t of (pc2, t2) \<Rightarrow>
                  pc2 = 3 + 1 \<and> ESP (registers t2) = ESP (registers ?s))"
    by (rule conjunct2 [THEN conjunct2, THEN conjunct2])
  have m: "memory s1 (unat (ESP (registers s1))) = 3 + 1"
    by (simp only: a2 a3 fun_upd_same)
  from a4 [rule_format, of s1 5] m
  have b: "pc2 = 3 + 1 \<and> ESP (registers s2) = ESP (registers ?s)"
    by (simp add: ex2)
  have c1: "fst (execute_instruction 0x6805 3 ?s) = 5"
    by (simp add: ex a1 v)
  have c2: "fst (execute_instruction 0x7000 5 (snd (execute_instruction 0x6805 3 ?s))) = 4"
    using b by (simp add: ex ex2)
  have c3: "ESP (registers (snd (execute_instruction 0x7000 5
               (snd (execute_instruction 0x6805 3 ?s))))) = 256"
    using b by (simp add: ex ex2 e)
  have "(1 :: cint) \<le>s 256 \<and> (256 :: cint) \<le>s MEMORY_SIZE"
    by (simp add: MEMORY_SIZE_def word_sle_eq)
  then show ?thesis using h1 h2 c1 c2 c3 by blast
qed

subsection \<open>Pushing below the bottom of memory\<close>

text \<open>
  C10, as the claim states it, fails in two places. The store is not silent: with the
  stack pointer at 0, \<^verbatim>\<open>PUSH EAX\<close> leaves the memory as it was, decrements the stack
  pointer and continues at the next instruction, but \<^verbatim>\<open>write_memory\<close> reports the
  invalid address \<open>-1\<close>. And the stack pointer does not decrease without bound: at the
  smallest int the decrement wraps around to the largest.
\<close>

theorem push_not_silent_counterexample:
  "opcode_of 0x5800 = 0b01011
   \<and> ESP (registers (initial_machine (\<lambda>_. None))) \<le>s 0
   \<and> console (initial_machine (\<lambda>_. None)) = []
   \<and> console (snd (execute_instruction 0x5800 0 (initial_machine (\<lambda>_. None))))
       = [Invalid_write (-1)]
   \<and> console (snd (execute_instruction 0x5800 0 (initial_machine (\<lambda>_. None))))
       \<noteq> console (initial_machine (\<lambda>_. None))
   \<and> (0x80000000 :: cint) \<le>s 0
   \<and> ESP (registers (snd (execute_instruction 0x5800 0
        ((initial_machine (\<lambda>_. None))
           \<lparr>registers := (registers (initial_machine (\<lambda>_. None)))\<lparr>ESP := 0x80000000\<rparr>\<rparr>))))
       = 0x7FFFFFFF
   \<and> (0x80000000 :: cint) <s 0x7FFFFFFF"
  by (simp add: execute_instruction_def decode_defs machine_defs word_sle_eq word_sless_alt)

text \<open>
  C10, amended. If \<^verbatim>\<open>PUSH\<close> or \<^verbatim>\<open>CALL\<close> executes when the stack pointer is 0 or negative,
  the value to be stored is discarded with a memory-error message (the memory is
  unchanged), the stack pointer is still decremented, and execution continues without a
  fault: at the next instruction after \<^verbatim>\<open>PUSH\<close>, at the target after \<^verbatim>\<open>CALL\<close>. Nothing
  detects the overflow of the stack: \<open>n\<close> pushes in a row leave the memory unchanged and
  the stack pointer \<open>n\<close> lower, as far down as the smallest 32-bit int.
\<close>

theorem push_below_memory_discards:
  fixes s :: machine
  assumes "ESP (registers s) \<le>s 0"
  shows "(opcode_of instruction = 0b01011 \<longrightarrow>
            execute_instruction instruction pc s =
              (pc + 1, s\<lparr>registers := (registers s)\<lparr>ESP := ESP (registers s) - 1\<rparr>,
                         console := console s @ [Invalid_write (ESP (registers s) - 1)]\<rparr>))
       \<and> (opcode_of instruction = 0b01101 \<longrightarrow>
            execute_instruction instruction pc s =
              (ucast (value_of instruction),
               s\<lparr>registers := (registers s)\<lparr>ESP := ESP (registers s) - 1\<rparr>,
                 console := console s @ [Invalid_write (ESP (registers s) - 1)]\<rparr>))
       \<and> (opcode_of instruction = 0b01011 \<or> opcode_of instruction = 0b01101 \<longrightarrow>
            memory (snd (execute_instruction instruction pc s)) = memory s
          \<and> ESP (registers (snd (execute_instruction instruction pc s))) = ESP (registers s) - 1)
       \<and> (opcode_of instruction = 0b01011 \<and> - (2 ^ 31) \<le> sint (ESP (registers s)) - int n \<longrightarrow>
            memory (((\<lambda>s. snd (execute_instruction instruction pc s)) ^^ n) s) = memory s
          \<and> ESP (registers (((\<lambda>s. snd (execute_instruction instruction pc s)) ^^ n) s))
              = ESP (registers s) - of_nat n)"
proof -
  have 1: "execute_instruction instruction pc s =
              (pc + 1, s\<lparr>registers := (registers s)\<lparr>ESP := ESP (registers s) - 1\<rparr>,
                         console := console s @ [Invalid_write (ESP (registers s) - 1)]\<rparr>)"
    if "opcode_of instruction = 0b01011"
    using that assms by (rule push_discarded_step)
  have 2: "execute_instruction instruction pc s =
              (ucast (value_of instruction),
               s\<lparr>registers := (registers s)\<lparr>ESP := ESP (registers s) - 1\<rparr>,
                 console := console s @ [Invalid_write (ESP (registers s) - 1)]\<rparr>)"
    if "opcode_of instruction = 0b01101"
    using that assms by (rule call_discarded_step)
  have 3: "memory (snd (execute_instruction instruction pc s)) = memory s
          \<and> ESP (registers (snd (execute_instruction instruction pc s))) = ESP (registers s) - 1"
    if "opcode_of instruction = 0b01011 \<or> opcode_of instruction = 0b01101"
    using that 1 2 by auto
  have 4: "memory (((\<lambda>s. snd (execute_instruction instruction pc s)) ^^ n) s) = memory s
          \<and> ESP (registers (((\<lambda>s. snd (execute_instruction instruction pc s)) ^^ n) s))
              = ESP (registers s) - of_nat n"
    if "opcode_of instruction = 0b01011" "- (2 ^ 31) \<le> sint (ESP (registers s)) - int n"
    using that(1) assms that(2) by (rule push_discarded_iterated)
  show ?thesis using 1 2 3 4 by blast
qed

theorem push_below_memory_discards_witness:
  "ESP (registers (initial_machine (\<lambda>_. None))) \<le>s 0
   \<and> opcode_of 0x5800 = 0b01011
   \<and> - (2 ^ 31) \<le> sint (ESP (registers (initial_machine (\<lambda>_. None)))) - int 3
   \<and> execute_instruction 0x5800 0 (initial_machine (\<lambda>_. None))
       = (1, (initial_machine (\<lambda>_. None))
               \<lparr>registers := (registers (initial_machine (\<lambda>_. None)))\<lparr>ESP := -1\<rparr>,
                 console := [Invalid_write (-1)]\<rparr>)
   \<and> memory (((\<lambda>s. snd (execute_instruction 0x5800 0 s)) ^^ 3) (initial_machine (\<lambda>_. None)))
       = memory (initial_machine (\<lambda>_. None))
   \<and> ESP (registers (((\<lambda>s. snd (execute_instruction 0x5800 0 s)) ^^ 3)
                         (initial_machine (\<lambda>_. None)))) = -3"
proof -
  let ?s = "initial_machine (\<lambda>_. None)"
  have e: "ESP (registers ?s) = 0" by (simp add: initial_machine_def)
  have h0: "ESP (registers ?s) \<le>s 0" by (simp add: e)
  have h1: "opcode_of 0x5800 = 0b01011" by (simp add: opcode_of_def)
  have h2: "- (2 ^ 31) \<le> sint (ESP (registers ?s)) - int 3" by (simp add: e)
  note t = push_below_memory_discards [OF h0, of "0x5800" 0 3]
  from t h1 have a: "execute_instruction 0x5800 0 ?s =
              (0 + 1, ?s\<lparr>registers := (registers ?s)\<lparr>ESP := ESP (registers ?s) - 1\<rparr>,
                         console := console ?s @ [Invalid_write (ESP (registers ?s) - 1)]\<rparr>)"
    by blast
  from t h1 h2 have b: "memory (((\<lambda>s. snd (execute_instruction 0x5800 0 s)) ^^ 3) ?s) = memory ?s
          \<and> ESP (registers (((\<lambda>s. snd (execute_instruction 0x5800 0 s)) ^^ 3) ?s))
              = ESP (registers ?s) - of_nat 3"
    by blast
  have c: "console ?s = []" by (simp add: initial_machine_def)
  have a': "execute_instruction 0x5800 0 ?s
       = (1, ?s\<lparr>registers := (registers ?s)\<lparr>ESP := -1\<rparr>, console := [Invalid_write (-1)]\<rparr>)"
    by (simp only: a e c) simp
  have b': "ESP (registers (((\<lambda>s. snd (execute_instruction 0x5800 0 s)) ^^ 3) ?s)) = -3"
    using b by (simp only: e) simp
  show ?thesis using h0 h1 h2 a' b b' by blast
qed

section \<open>Facts about the extended assembler\<close>

lemma bit_bounded:
  fixes a :: int
  assumes "0 \<le> a" "a < 2 ^ n" "bit a k"
  shows "k < n"
proof -
  have "take_bit n a = a" using assms(1,2) by (simp add: take_bit_int_eq_self)
  then have "bit (take_bit n a) k" using assms(3) by simp
  then show ?thesis by (simp add: bit_take_bit_iff)
qed

lemma mask_constants:
  "(0x07 :: uint16_t) = mask 3" "(0x1F :: uint16_t) = mask 5" "(0xFF :: uint16_t) = mask 8"
  by (simp_all add: mask_eq_exp_minus_1)

text \<open>The layout with two register fields and an offset, decoded field by field.\<close>

lemma unpack_base_offset:
  fixes opcode reg base offset :: int
  assumes "0 \<le> opcode" "opcode < 2 ^ 5" "0 \<le> reg" "reg < 2 ^ 3" "0 \<le> base" "base < 2 ^ 3"
     "0 \<le> offset" "offset < 2 ^ 5"
  defines "w \<equiv> (word_of_int (push_bit 11 opcode OR push_bit 8 reg OR push_bit 5 base OR offset)
                   :: uint16_t)"
  shows "uint (opcode_of w) = opcode" "uint (reg1_of w) = reg" "uint (reg2_of w) = base"
    "uint (offset_of w) = offset"
proof -
  note b = bit_bounded [OF assms(1,2)] bit_bounded [OF assms(3,4)] bit_bounded [OF assms(5,6)]
    bit_bounded [OF assms(7,8)]
  show "uint (opcode_of w) = opcode"
    unfolding opcode_of_def w_def
    by (rule bit_eqI) (auto simp add: bit_simps dest: b)
  show "uint (reg1_of w) = reg"
    unfolding reg1_of_def w_def mask_constants
    by (rule bit_eqI) (auto simp add: bit_simps dest: b)
  show "uint (reg2_of w) = base"
    unfolding reg2_of_def w_def mask_constants
    by (rule bit_eqI) (auto simp add: bit_simps dest: b)
  show "uint (offset_of w) = offset"
    unfolding offset_of_def w_def mask_constants
    by (rule bit_eqI) (auto simp add: bit_simps dest: b)
qed

text \<open>The layout with one register field and an 8-bit value.\<close>

lemma unpack_reg_value:
  fixes opcode reg val :: int
  assumes "0 \<le> opcode" "opcode < 2 ^ 5" "0 \<le> reg" "reg < 2 ^ 3" "0 \<le> val" "val < 2 ^ 8"
  defines "w \<equiv> (word_of_int (push_bit 11 opcode OR push_bit 8 reg OR val) :: uint16_t)"
  shows "uint (opcode_of w) = opcode" "uint (reg1_of w) = reg" "uint (value_of w) = val"
proof -
  note b = bit_bounded [OF assms(1,2)] bit_bounded [OF assms(3,4)] bit_bounded [OF assms(5,6)]
  show "uint (opcode_of w) = opcode"
    unfolding opcode_of_def w_def
    by (rule bit_eqI) (auto simp add: bit_simps dest: b)
  show "uint (reg1_of w) = reg"
    unfolding reg1_of_def w_def mask_constants
    by (rule bit_eqI) (auto simp add: bit_simps dest: b)
  show "uint (value_of w) = val"
    unfolding value_of_def w_def mask_constants
    by (rule bit_eqI) (auto simp add: bit_simps dest: b)
qed

lemma pack_roundtrip:
  assumes "fields_in_range f"
  shows "case f of
           Opcode_only opcode \<Rightarrow> uint (opcode_of (pack f)) = opcode
         | Opcode_reg opcode reg1_code \<Rightarrow>
             uint (opcode_of (pack f)) = opcode \<and> uint (reg1_of (pack f)) = reg1_code
         | Opcode_value opcode val \<Rightarrow>
             uint (opcode_of (pack f)) = opcode \<and> uint (value_of (pack f)) = val
         | Opcode_reg_value opcode reg1_code val \<Rightarrow>
             uint (opcode_of (pack f)) = opcode \<and> uint (reg1_of (pack f)) = reg1_code
             \<and> uint (value_of (pack f)) = val
         | Opcode_reg_reg opcode reg1_code reg2_code \<Rightarrow>
             uint (opcode_of (pack f)) = opcode \<and> uint (reg1_of (pack f)) = reg1_code
             \<and> uint (reg2_of (pack f)) = reg2_code
         | Opcode_reg_base_offset opcode reg_code base_reg_code offset \<Rightarrow>
             uint (opcode_of (pack f)) = opcode \<and> uint (reg1_of (pack f)) = reg_code
             \<and> uint (reg2_of (pack f)) = base_reg_code \<and> uint (offset_of (pack f)) = offset"
proof (cases f)
  case (Opcode_only opcode)
  then show ?thesis
    using assms unpack_base_offset(1) [of opcode 0 0 0] by simp
next
  case (Opcode_reg opcode r)
  then show ?thesis
    using assms unpack_base_offset(1,2) [of opcode r 0 0] by simp
next
  case (Opcode_value opcode v)
  then show ?thesis
    using assms unpack_reg_value(1,3) [of opcode 0 v] by simp
next
  case (Opcode_reg_value opcode r v)
  then show ?thesis
    using assms unpack_reg_value [of opcode r v] by simp
next
  case (Opcode_reg_reg opcode r1 r2)
  then show ?thesis
    using assms unpack_base_offset(1,2,3) [of opcode r1 r2 0] by simp
next
  case (Opcode_reg_base_offset opcode r b off)
  then show ?thesis
    using assms unpack_base_offset [of opcode r b off] by simp
qed

lemma get_register_code_range:
  "get_register_code reg_name = -1
   \<or> (0 \<le> get_register_code reg_name \<and> get_register_code reg_name < 8)"
  by (simp add: get_register_code_def Let_def)

lemma opcode_ranges:
  "0 \<le> register_opcode opcode_str \<and> register_opcode opcode_str < 32"
  "0 \<le> address_opcode opcode_str \<and> address_opcode opcode_str < 32"
  "0 \<le> immediate_opcode opcode_str \<and> immediate_opcode opcode_str < 32"
  "0 \<le> two_register_opcode opcode_str \<and> two_register_opcode opcode_str < 32"
  by (simp_all add: register_opcode_def address_opcode_def immediate_opcode_def
      two_register_opcode_def)

lemma encode_register_instruction_range:
  assumes "encode_register_instruction opcode_str parts = Inr f"
  shows "fields_in_range f"
  using assms get_register_code_range [of "parts ! 1"] opcode_ranges(1) [of opcode_str]
  by (auto simp add: encode_register_instruction_def Let_def split: if_splits)

lemma encode_address_instruction_range:
  assumes "encode_address_instruction symbol_table opcode_str parts = Inr f"
  shows "fields_in_range f"
  using assms opcode_ranges(2) [of opcode_str]
  by (auto simp add: encode_address_instruction_def Let_def split: if_splits)

lemma encode_two_operand_instruction_range:
  assumes "encode_two_operand_instruction opcode_str parts = Inr f"
  shows "fields_in_range f"
  using assms get_register_code_range [of "parts ! 1"] get_register_code_range [of "parts ! 2"]
    opcode_ranges(3,4) [of opcode_str]
  by (auto simp add: encode_two_operand_instruction_def Let_def split: if_splits)

lemma encode_mov_range:
  assumes "encode_mov symbol_table parts = Inr f"
  shows "fields_in_range f"
  using assms get_register_code_range [of "parts ! 1"] get_register_code_range [of "parts ! 2"]
    get_register_code_range [of "tl (fst (the (strchr (parts ! 1) CHR ''+'')))"]
    get_register_code_range [of "tl (fst (the (strchr (parts ! 2) CHR ''+'')))"]
  by (auto simp add: encode_mov_def Let_def split: if_splits)

lemma encode_parts_range:
  assumes "encode_parts symbol_table parts = Inr f"
  shows "fields_in_range f"
proof -
  let ?m = "map toupper (parts ! 0)"
  from assms have
    "Inr (Opcode_only 0b00000) = (Inr f :: encode_error + fields)
     \<or> Inr (Opcode_only 0b01110) = (Inr f :: encode_error + fields)
     \<or> encode_register_instruction ?m parts = Inr f
     \<or> encode_address_instruction symbol_table ?m parts = Inr f
     \<or> encode_two_operand_instruction ?m parts = Inr f
     \<or> encode_mov symbol_table parts = Inr f"
    unfolding encode_parts_def Let_def
    by (auto split: if_splits)
  then show ?thesis
    using encode_register_instruction_range encode_address_instruction_range
      encode_two_operand_instruction_range encode_mov_range
    by auto
qed

lemma encode_fields_range:
  assumes "encode_fields symbol_table line = Inr (Some f)"
  shows "fields_in_range f"
proof -
  from assms have "encode_parts symbol_table (split_parts line) = Inr f"
    by (auto simp add: encode_fields_def Let_def map_sum_def split: if_splits sum.splits)
  then show ?thesis by (rule encode_parts_range)
qed

subsection \<open>Encoding and decoding\<close>

text \<open>
  An accepted line either has no token, and then the word is 0, or it has an opcode and
  operand codes, and then the word packs them.
\<close>

lemma encode_instruction_accepted:
  assumes "encode_instruction symbol_table line = Inr w"
  shows "(encode_fields symbol_table line = Inr None \<and> split_parts line = [] \<and> w = 0)
       \<or> (\<exists>f. encode_fields symbol_table line = Inr (Some f) \<and> w = pack f)"
proof (cases "encode_fields symbol_table line")
  case (Inl e)
  then show ?thesis using assms by (simp add: encode_instruction_def)
next
  case (Inr r)
  show ?thesis
  proof (cases r)
    case None
    then have "split_parts line = []"
      using Inr by (auto simp add: encode_fields_def Let_def map_sum_def split: if_splits sum.splits)
    then show ?thesis using assms Inr None by (simp add: encode_instruction_def)
  next
    case (Some f)
    then show ?thesis using assms Inr by (simp add: encode_instruction_def)
  qed
qed

text \<open>
  A line without a token names no instruction; the word 0 that \<^verbatim>\<open>encode_instruction\<close>
  returns for it reads as \<^verbatim>\<open>HLT\<close>.
\<close>

lemma encode_instruction_no_token:
  assumes "split_parts line = []"
  shows "encode_instruction symbol_table line = Inr 0" "decode 0 = Opcode_only 0b00000"
  using assms by (simp_all add: encode_instruction_def encode_fields_def decode_def decode_defs)

text \<open>
  \<open>decode\<close> is what the simulator reads from a word: two words with the same \<open>decode\<close>
  execute alike, from every state and at every program counter. The opcode has five
  bits, so it is one of 32 values, and each has its \<^verbatim>\<open>case\<close>.
\<close>

lemma uint_equal:
  fixes a b :: uint16_t
  shows "(uint a = uint b) = (a = b)"
  by (metis word_of_int_uint)

lemma opcode_of_bound: "unat (opcode_of w) < 32"
proof -
  have "unat w < 2 ^ 16" using unsigned_less [of w] by simp
  then have "unat w div 2 ^ 11 < 32" by simp
  then show ?thesis by (simp add: opcode_of_def drop_bit_eq_div unat_div)
qed

lemma small_nat_cases:
  fixes n :: nat
  assumes "n < 32"
  shows "n \<in> set [0, 1, 2, 3, 4, 5, 6, 7, 8, 9, 10, 11, 12, 13, 14, 15, 16, 17, 18, 19, 20, 21,
           22, 23, 24, 25, 26, 27, 28, 29, 30, 31]"
  using assms by simp presburger

lemma opcode_of_cases:
  "opcode_of w \<in> set [0, 1, 2, 3, 4, 5, 6, 7, 8, 9, 10, 11, 12, 13, 14, 15, 16, 17, 18, 19, 20,
     21, 22, 23, 24, 25, 26, 27, 28, 29, 30, 31]"
proof -
  have "word_of_nat (unat (opcode_of w)) \<in> (word_of_nat ` set [0, 1, 2, 3, 4, 5, 6, 7, 8, 9, 10, 11, 12, 13, 14, 15, 16, 17, 18, 19, 20, 21,
           22, 23, 24, 25, 26, 27, 28, 29, 30, 31] :: uint16_t set)"
    using small_nat_cases [OF opcode_of_bound [of w]] by (rule imageI)
  then show ?thesis by simp
qed

lemma decode_opcode:
  "(case decode w of Opcode_only a \<Rightarrow> a | Opcode_reg a _ \<Rightarrow> a | Opcode_value a _ \<Rightarrow> a
     | Opcode_reg_value a _ _ \<Rightarrow> a | Opcode_reg_reg a _ _ \<Rightarrow> a
     | Opcode_reg_base_offset a _ _ _ \<Rightarrow> a) = uint (opcode_of w)"
  by (simp add: decode_def Let_def)

lemma decode_determines_execution:
  assumes "decode i = decode j"
  shows "execute_instruction i pc s = execute_instruction j pc s"
proof -
  have "uint (opcode_of i) = uint (opcode_of j)"
    using decode_opcode [of i] decode_opcode [of j] assms by simp
  then have op: "opcode_of i = opcode_of j" by (simp add: uint_equal)
  have "opcode_of j = 0 \<or> opcode_of j = 1 \<or> opcode_of j = 2 \<or> opcode_of j = 3
      \<or> opcode_of j = 4 \<or> opcode_of j = 5 \<or> opcode_of j = 6 \<or> opcode_of j = 7
      \<or> opcode_of j = 8 \<or> opcode_of j = 9 \<or> opcode_of j = 10 \<or> opcode_of j = 11
      \<or> opcode_of j = 12 \<or> opcode_of j = 13 \<or> opcode_of j = 14 \<or> opcode_of j = 15
      \<or> opcode_of j = 16 \<or> opcode_of j = 17 \<or> opcode_of j = 18 \<or> opcode_of j = 19
      \<or> opcode_of j = 20 \<or> opcode_of j = 21 \<or> opcode_of j = 22 \<or> opcode_of j = 23
      \<or> opcode_of j = 24 \<or> opcode_of j = 25 \<or> opcode_of j = 26 \<or> opcode_of j = 27
      \<or> opcode_of j = 28 \<or> opcode_of j = 29 \<or> opcode_of j = 30 \<or> opcode_of j = 31"
    using opcode_of_cases [of j] by simp
  then show ?thesis
    using assms op
    by (elim disjE; simp add: decode_def execute_instruction_def Let_def uint_equal)
qed

text \<open>
  Packing and decoding, layout by layout. The masks \<open>decode\<close> applies are those of the
  opcode, so each layout is read back only under the opcodes whose \<^verbatim>\<open>case\<close> reads it.
\<close>

lemma opcode_word:
  assumes "uint (opcode_of w) = opcode"
  shows "opcode_of w = word_of_int opcode"
  using assms by (metis word_of_int_uint)

lemma decode_pack_only:
  assumes "opcode = 0b00000 \<or> opcode = 0b01110"
  shows "decode (pack (Opcode_only opcode)) = Opcode_only opcode"
proof -
  have r: "fields_in_range (Opcode_only opcode)" using assms by auto
  have u: "uint (opcode_of (pack (Opcode_only opcode))) = opcode"
    using pack_roundtrip [OF r] by simp
  show ?thesis using assms u opcode_word [OF u]
    by (auto simp add: decode_def Let_def)
qed

lemma decode_pack_reg:
  assumes "opcode = 0b00100 \<or> opcode = 0b00101 \<or> opcode = 0b01001 \<or> opcode = 0b01010
           \<or> opcode = 0b10110 \<or> opcode = 0b01011 \<or> opcode = 0b01100"
    and "0 \<le> reg1_code" "reg1_code < 8"
  shows "decode (pack (Opcode_reg opcode reg1_code)) = Opcode_reg opcode reg1_code"
proof -
  let ?f = "Opcode_reg opcode reg1_code"
  have r: "fields_in_range ?f" using assms by auto
  have u: "uint (opcode_of (pack ?f)) = opcode" "uint (reg1_of (pack ?f)) = reg1_code"
    using pack_roundtrip [OF r] by simp_all
  show ?thesis using assms(1) u opcode_word [OF u(1)]
    by (auto simp add: decode_def Let_def)
qed

lemma decode_pack_value:
  assumes "opcode = 0b11000 \<or> opcode = 0b11001 \<or> opcode = 0b11010 \<or> opcode = 0b11011
           \<or> opcode = 0b11100 \<or> opcode = 0b11101 \<or> opcode = 0b11110 \<or> opcode = 0b01101"
    and "0 \<le> val" "val < 256"
  shows "decode (pack (Opcode_value opcode val)) = Opcode_value opcode val"
proof -
  let ?f = "Opcode_value opcode val"
  have r: "fields_in_range ?f" using assms by auto
  have u: "uint (opcode_of (pack ?f)) = opcode" "uint (value_of (pack ?f)) = val"
    using pack_roundtrip [OF r] by simp_all
  show ?thesis using assms(1) u opcode_word [OF u(1)]
    by (auto simp add: decode_def Let_def)
qed

lemma decode_pack_reg_value:
  assumes "opcode = 0b00110 \<or> opcode = 0b00111 \<or> opcode = 0b01000 \<or> opcode = 0b10011
           \<or> opcode = 0b10100 \<or> opcode = 0b10101"
    and "0 \<le> reg1_code" "reg1_code < 8" "0 \<le> val" "val < 256"
  shows "decode (pack (Opcode_reg_value opcode reg1_code val)) = Opcode_reg_value opcode reg1_code val"
proof -
  let ?f = "Opcode_reg_value opcode reg1_code val"
  have r: "fields_in_range ?f" using assms by auto
  have u: "uint (opcode_of (pack ?f)) = opcode" "uint (reg1_of (pack ?f)) = reg1_code"
    "uint (value_of (pack ?f)) = val"
    using pack_roundtrip [OF r] by simp_all
  show ?thesis using assms(1) u opcode_word [OF u(1)]
    by (auto simp add: decode_def Let_def)
qed

lemma decode_pack_reg_reg:
  assumes "opcode = 0b00001 \<or> opcode = 0b00010 \<or> opcode = 0b00011 \<or> opcode = 0b10000
           \<or> opcode = 0b10001 \<or> opcode = 0b10010 \<or> opcode = 0b10111"
    and "0 \<le> reg1_code" "reg1_code < 8" "0 \<le> reg2_code" "reg2_code < 8"
  shows "decode (pack (Opcode_reg_reg opcode reg1_code reg2_code))
         = Opcode_reg_reg opcode reg1_code reg2_code"
proof -
  let ?f = "Opcode_reg_reg opcode reg1_code reg2_code"
  have r: "fields_in_range ?f" using assms by auto
  have u: "uint (opcode_of (pack ?f)) = opcode" "uint (reg1_of (pack ?f)) = reg1_code"
    "uint (reg2_of (pack ?f)) = reg2_code"
    using pack_roundtrip [OF r] by simp_all
  show ?thesis using assms(1) u opcode_word [OF u(1)]
    by (auto simp add: decode_def Let_def)
qed

lemma decode_pack_reg_base_offset:
  assumes "opcode = 0b01111 \<or> opcode = 0b11111"
    and "0 \<le> reg_code" "reg_code < 8" "0 \<le> base_reg_code" "base_reg_code < 8"
    and "0 \<le> offset" "offset < 32"
  shows "decode (pack (Opcode_reg_base_offset opcode reg_code base_reg_code offset))
         = Opcode_reg_base_offset opcode reg_code base_reg_code offset"
proof -
  let ?f = "Opcode_reg_base_offset opcode reg_code base_reg_code offset"
  have r: "fields_in_range ?f" using assms by auto
  have u: "uint (opcode_of (pack ?f)) = opcode" "uint (reg1_of (pack ?f)) = reg_code"
    "uint (reg2_of (pack ?f)) = base_reg_code" "uint (offset_of (pack ?f)) = offset"
    using pack_roundtrip [OF r] by simp_all
  show ?thesis using assms(1) u opcode_word [OF u(1)]
    by (auto simp add: decode_def Let_def)
qed

text \<open>
  The opcodes of each table lie among those under which the simulator reads the layout
  the table is packed in.
\<close>

lemma opcode_classes:
  "\<forall>m \<in> set [''INP'', ''OUT'', ''INC'', ''DEC'', ''NOT'', ''PUSH'', ''POP''].
     register_opcode m \<in> set [0b00100, 0b00101, 0b01001, 0b01010, 0b10110, 0b01011, 0b01100]"
  "\<forall>m \<in> set [''JMP'', ''JE'', ''JZ'', ''JNE'', ''JNZ'', ''JG'', ''JNLE'',
                             ''JL'', ''JNGE'', ''JGE'', ''JNL'', ''JLE'', ''JNG'', ''CALL''].
     address_opcode m \<in> set [0b11000, 0b11001, 0b11010, 0b11011, 0b11100, 0b11101, 0b11110,
                                0b01101]"
  "\<forall>m \<in> set [''ADD'', ''SUB'', ''CMP'', ''MUL'', ''DIV'', ''XOR''].
     two_register_opcode m \<in> set [0b00001, 0b00010, 0b00011, 0b10000, 0b10001, 0b10010, 0b10111]"
  by code_simp+

lemma immediate_opcode_class:
  "immediate_opcode m \<in> set [0b00110, 0b00111, 0b01000, 0b10011, 0b10100, 0b10101]"
  by (simp add: immediate_opcode_def)

text \<open>
  A register name that \<^verbatim>\<open>get_register_code\<close> accepts gets the code under which the
  simulator's \<^verbatim>\<open>register_names\<close> holds that name.
\<close>

lemma register_table:
  fixes u :: string
  defines "c \<equiv> (if u = ''EAX'' then 0
         else if u = ''EBX'' then 1
         else if u = ''ECX'' then 2
         else if u = ''EDX'' then 3
         else if u = ''ESI'' then 4
         else if u = ''EDI'' then 5
         else if u = ''EBP'' then 6
         else if u = ''ESP'' then 7
         else -1 :: int)"
  shows "c = -1 \<or> c = int (length (takeWhile (\<lambda>name. name \<noteq> u) register_names))"
  unfolding c_def register_names_def
  by (cases "u = ''EAX''"; cases "u = ''EBX''"; cases "u = ''ECX''"; cases "u = ''EDX''";
      cases "u = ''ESI''"; cases "u = ''EDI''"; cases "u = ''EBP''"; cases "u = ''ESP''"; simp)

lemma get_register_code_number:
  assumes "get_register_code reg_name \<noteq> -1"
  shows "get_register_code reg_name = register_number reg_name"
    "0 \<le> register_number reg_name" "register_number reg_name < 8"
proof -
  let ?u = "map toupper (take (MAX_LABEL_LENGTH - 1) reg_name)"
  from assms have u: "?u \<in> set [''EAX'', ''EBX'', ''ECX'', ''EDX'', ''ESI'', ''EDI'', ''EBP'', ''ESP'']"
    by (simp add: get_register_code_def Let_def split: if_splits)
  moreover have "\<forall>n \<in> set [''EAX'', ''EBX'', ''ECX'', ''EDX'', ''ESI'', ''EDI'', ''EBP'', ''ESP''].
                   length n = 3"
    by simp
  ultimately have "length ?u = 3" by blast
  then have "min (length reg_name) 31 = 3" by (simp add: MAX_LABEL_LENGTH_def)
  then have "length reg_name = 3" by (simp add: min_def split: if_splits)
  then have t: "take (MAX_LABEL_LENGTH - 1) reg_name = reg_name"
    by (simp add: MAX_LABEL_LENGTH_def)
  have "get_register_code reg_name = -1
        \<or> get_register_code reg_name = int (length (takeWhile (\<lambda>name. name \<noteq> ?u) register_names))"
    unfolding get_register_code_def Let_def by (rule register_table)
  then show c: "get_register_code reg_name = register_number reg_name"
    using assms unfolding t register_number_def by blast
  show "0 \<le> register_number reg_name" "register_number reg_name < 8"
    using assms get_register_code_range [of reg_name] unfolding c by auto
qed

text \<open>
  \<^verbatim>\<open>atoi\<close> of a run of digits whose value fits an \<^verbatim>\<open>int\<close> is that value.
\<close>

lemma digits_value_nonnegative:
  fixes a :: int
  assumes "\<forall>c \<in> set ds. isdigit c" "0 \<le> a"
  shows "0 \<le> foldl (\<lambda>a c. 10 * a + (of_char c - 48)) a ds"
  using assms
proof (induction ds arbitrary: a)
  case Nil
  then show ?case by simp
next
  case (Cons d ds)
  from Cons.prems have "48 \<le> (of_char d :: nat)" by (simp add: isdigit_def)
  moreover have "(of_char d :: int) = int (of_char d)" by (simp add: of_nat_of_char)
  ultimately have "(48 :: int) \<le> of_char d" by linarith
  then have "0 \<le> 10 * a + (of_char d - 48)" using Cons.prems(2) by simp
  then show ?case using Cons by simp
qed

lemma atoi_decimal:
  assumes "\<forall>c \<in> set ds. isdigit c" "digits_value ds < 2 ^ 31"
  shows "atoi ds = digits_value ds"
proof -
  have d: "\<not> isspace c \<and> c \<noteq> CHR ''-'' \<and> c \<noteq> CHR ''+''" if "isdigit c" for c
    using that by (auto simp add: isdigit_def isspace_def)
  have s: "dropWhile isspace ds = ds"
    using assms(1) d by (cases ds) auto
  have f: "first_char ds \<noteq> CHR ''-''" "first_char ds \<noteq> CHR ''+''"
    using assms(1) d by (cases ds; auto simp add: first_char_def)+
  have t: "takeWhile isdigit ds = ds"
    using assms(1) by (simp add: takeWhile_eq_all_conv)
  have n: "0 \<le> digits_value ds"
    unfolding digits_value_def using assms(1) by (rule digits_value_nonnegative) simp
  have "strtol ds = digits_value ds"
    using assms(2) n by (simp add: strtol_def Let_def s f t LONG_MAX_def)
  then show ?thesis
    using assms(2) n by (simp add: atoi_def signed_of_int signed_take_bit_int_eq_self)
qed

text \<open>The branches of \<^verbatim>\<open>encode_instruction\<close>, each decoded from the word it returns.\<close>

lemma register_instruction_decoded:
  assumes "encode_register_instruction opcode_str parts = Inr f"
    and "opcode_str \<in> set [''INP'', ''OUT'', ''INC'', ''DEC'', ''NOT'', ''PUSH'', ''POP'']"
  shows "decode (pack f) = Opcode_reg (register_opcode opcode_str) (register_number (parts ! 1))"
proof -
  from assms(1) have r: "get_register_code (parts ! 1) \<noteq> -1"
    and f: "f = Opcode_reg (register_opcode opcode_str) (get_register_code (parts ! 1))"
    by (auto simp add: encode_register_instruction_def Let_def split: if_splits)
  note n = get_register_code_number [OF r]
  have "register_opcode opcode_str
        \<in> set [0b00100, 0b00101, 0b01001, 0b01010, 0b10110, 0b01011, 0b01100]"
    using opcode_classes(1) assms(2) by blast
  then have "register_opcode opcode_str = 0b00100 \<or> register_opcode opcode_str = 0b00101
      \<or> register_opcode opcode_str = 0b01001 \<or> register_opcode opcode_str = 0b01010
      \<or> register_opcode opcode_str = 0b10110 \<or> register_opcode opcode_str = 0b01011
      \<or> register_opcode opcode_str = 0b01100"
    by simp
  then show ?thesis
    unfolding f n(1) using n(2,3) by (rule decode_pack_reg)
qed

lemma address_instruction_decoded:
  assumes "encode_address_instruction symbol_table opcode_str parts = Inr f"
    and "opcode_str \<in> set [''JMP'', ''JE'', ''JZ'', ''JNE'', ''JNZ'', ''JG'', ''JNLE'',
                             ''JL'', ''JNGE'', ''JGE'', ''JNL'', ''JLE'', ''JNG'', ''CALL'']"
  shows "decode (pack f)
         = Opcode_value (address_opcode opcode_str) (label_or_number symbol_table (parts ! 1))"
proof -
  let ?v = "label_or_number symbol_table (parts ! 1)"
  from assms(1) have v: "0 \<le> ?v" "?v < 256"
    and f: "f = Opcode_value (address_opcode opcode_str) ?v"
    by (auto simp add: encode_address_instruction_def Let_def split: if_splits)
  have "address_opcode opcode_str
        \<in> set [0b11000, 0b11001, 0b11010, 0b11011, 0b11100, 0b11101, 0b11110, 0b01101]"
    using opcode_classes(2) assms(2) by blast
  then have "address_opcode opcode_str = 0b11000 \<or> address_opcode opcode_str = 0b11001
      \<or> address_opcode opcode_str = 0b11010 \<or> address_opcode opcode_str = 0b11011
      \<or> address_opcode opcode_str = 0b11100 \<or> address_opcode opcode_str = 0b11101
      \<or> address_opcode opcode_str = 0b11110 \<or> address_opcode opcode_str = 0b01101"
    by simp
  then show ?thesis
    unfolding f using v by (rule decode_pack_value)
qed

lemma immediate_instruction_mnemonic:
  assumes "encode_two_operand_instruction opcode_str parts = Inr f"
    and "first_char (parts ! 2) = CHR ''#''"
  shows "opcode_str \<in> set [''ADD'', ''SUB'', ''CMP'']"
  using assms
  by (auto simp add: encode_two_operand_instruction_def Let_def split: if_splits)

lemma immediate_instruction_decoded:
  assumes "encode_two_operand_instruction opcode_str parts = Inr f"
    and "first_char (parts ! 2) = CHR ''#''"
  shows "decode (pack f)
         = Opcode_reg_value (immediate_opcode opcode_str) (register_number (parts ! 1))
             (atoi (tl (parts ! 2)))"
proof -
  let ?v = "atoi (tl (parts ! 2))"
  from assms have r: "get_register_code (parts ! 1) \<noteq> -1"
    and v: "0 \<le> ?v" "?v < 256"
    and f: "f = Opcode_reg_value (immediate_opcode opcode_str) (get_register_code (parts ! 1)) ?v"
    by (auto simp add: encode_two_operand_instruction_def Let_def split: if_splits)
  note n = get_register_code_number [OF r]
  have "immediate_opcode opcode_str = 0b00110 \<or> immediate_opcode opcode_str = 0b00111
      \<or> immediate_opcode opcode_str = 0b01000 \<or> immediate_opcode opcode_str = 0b10011
      \<or> immediate_opcode opcode_str = 0b10100 \<or> immediate_opcode opcode_str = 0b10101"
    using immediate_opcode_class [of opcode_str] by simp
  then show ?thesis
    unfolding f n(1) using n(2,3) v by (rule decode_pack_reg_value)
qed

lemma two_register_instruction_decoded:
  assumes "encode_two_operand_instruction opcode_str parts = Inr f"
    and "first_char (parts ! 2) \<noteq> CHR ''#''"
    and "opcode_str \<in> set [''ADD'', ''SUB'', ''CMP'', ''MUL'', ''DIV'', ''XOR'']"
  shows "decode (pack f)
         = Opcode_reg_reg (two_register_opcode opcode_str) (register_number (parts ! 1))
             (register_number (parts ! 2))"
proof -
  from assms(1,2) have r: "get_register_code (parts ! 1) \<noteq> -1" "get_register_code (parts ! 2) \<noteq> -1"
    and f: "f = Opcode_reg_reg (two_register_opcode opcode_str) (get_register_code (parts ! 1))
                  (get_register_code (parts ! 2))"
    by (auto simp add: encode_two_operand_instruction_def Let_def split: if_splits)
  note n1 = get_register_code_number [OF r(1)]
  note n2 = get_register_code_number [OF r(2)]
  have "two_register_opcode opcode_str
        \<in> set [0b00001, 0b00010, 0b00011, 0b10000, 0b10001, 0b10010, 0b10111]"
    using opcode_classes(3) assms(3) by blast
  then have "two_register_opcode opcode_str = 0b00001 \<or> two_register_opcode opcode_str = 0b00010
      \<or> two_register_opcode opcode_str = 0b00011 \<or> two_register_opcode opcode_str = 0b10000
      \<or> two_register_opcode opcode_str = 0b10001 \<or> two_register_opcode opcode_str = 0b10010
      \<or> two_register_opcode opcode_str = 0b10111"
    by simp
  then show ?thesis
    unfolding f n1(1) n2(1) using n1(2,3) n2(2,3) by (rule decode_pack_reg_reg)
qed

text \<open>
  The pointer arithmetic that cuts a memory operand at its plus sign yields the two texts
  of the operand.
\<close>

lemma memory_operand_texts:
  assumes "first_char mem_operand = CHR ''[''" "CHR ''+'' \<in> set mem_operand"
  shows "tl (fst (the (strchr mem_operand CHR ''+''))) = base_text mem_operand"
    and "tl (snd (the (strchr mem_operand CHR ''+''))) = offset_text mem_operand"
  using assms
  by (cases mem_operand; simp add: strchr_def base_text_def offset_text_def first_char_def)+

lemma mov_store_base_offset_decoded:
  assumes "encode_mov symbol_table parts = Inr f"
    and "first_char (parts ! 1) = CHR ''[''" "CHR ''+'' \<in> set (parts ! 1)"
  shows "decode (pack f)
         = Opcode_reg_base_offset 0b11111 (register_number (parts ! 2))
             (register_number (base_text (parts ! 1))) (atoi (offset_text (parts ! 1)))"
proof -
  let ?b = "tl (fst (the (strchr (parts ! 1) CHR ''+'')))"
  let ?o = "atoi (tl (snd (the (strchr (parts ! 1) CHR ''+''))))"
  have p: "strchr (parts ! 1) CHR ''+'' \<noteq> None" using assms(3) by (simp add: strchr_def)
  from assms(1,2) p have r: "get_register_code (parts ! 2) \<noteq> -1" "get_register_code ?b \<noteq> -1"
    and v: "0 \<le> ?o" "?o < 32"
    and f: "f = Opcode_reg_base_offset 0b11111 (get_register_code (parts ! 2))
                  (get_register_code ?b) ?o"
    by (auto simp add: encode_mov_def Let_def split: if_splits)
  note n1 = get_register_code_number [OF r(1)]
  note n2 = get_register_code_number [OF r(2)]
  have "(0b11111 :: int) = 0b01111 \<or> (0b11111 :: int) = 0b11111" by simp
  then have "decode (pack f)
         = Opcode_reg_base_offset 0b11111 (register_number (parts ! 2)) (register_number ?b) ?o"
    unfolding f n1(1) n2(1) using n1(2,3) n2(2,3) v by (rule decode_pack_reg_base_offset)
  then show ?thesis
    unfolding memory_operand_texts [OF assms(2,3)] .
qed

lemma mov_load_base_offset_decoded:
  assumes "encode_mov symbol_table parts = Inr f"
    and "first_char (parts ! 1) \<noteq> CHR ''[''"
    and "first_char (parts ! 2) = CHR ''[''" "CHR ''+'' \<in> set (parts ! 2)"
  shows "decode (pack f)
         = Opcode_reg_base_offset 0b01111 (register_number (parts ! 1))
             (register_number (base_text (parts ! 2))) (atoi (offset_text (parts ! 2)))"
proof -
  let ?b = "tl (fst (the (strchr (parts ! 2) CHR ''+'')))"
  let ?o = "atoi (tl (snd (the (strchr (parts ! 2) CHR ''+''))))"
  have p: "strchr (parts ! 2) CHR ''+'' \<noteq> None" using assms(4) by (simp add: strchr_def)
  from assms(1,2,3) p have r: "get_register_code (parts ! 1) \<noteq> -1" "get_register_code ?b \<noteq> -1"
    and v: "0 \<le> ?o" "?o < 32"
    and f: "f = Opcode_reg_base_offset 0b01111 (get_register_code (parts ! 1))
                  (get_register_code ?b) ?o"
    by (auto simp add: encode_mov_def Let_def split: if_splits)
  note n1 = get_register_code_number [OF r(1)]
  note n2 = get_register_code_number [OF r(2)]
  have "(0b01111 :: int) = 0b01111 \<or> (0b01111 :: int) = 0b11111" by simp
  then have "decode (pack f)
         = Opcode_reg_base_offset 0b01111 (register_number (parts ! 1)) (register_number ?b) ?o"
    unfolding f n1(1) n2(1) using n1(2,3) n2(2,3) v by (rule decode_pack_reg_base_offset)
  then show ?thesis
    unfolding memory_operand_texts [OF assms(3,4)] .
qed

lemma mov_store_decoded:
  assumes "encode_mov symbol_table parts = Inr f"
    and "first_char (parts ! 1) = CHR ''[''" "CHR ''+'' \<notin> set (parts ! 1)"
  shows "decode (pack f)
         = Opcode_reg_value 0b01000 (register_number (parts ! 2))
             (label_or_number symbol_table (butlast (tl (parts ! 1))))"
proof -
  let ?v = "label_or_number symbol_table (butlast (tl (parts ! 1)))"
  have p: "strchr (parts ! 1) CHR ''+'' = None" using assms(3) by (simp add: strchr_def)
  from assms(1,2) p have r: "get_register_code (parts ! 2) \<noteq> -1"
    and v: "0 \<le> ?v" "?v < 256"
    and f: "f = Opcode_reg_value 0b01000 (get_register_code (parts ! 2)) ?v"
    by (auto simp add: encode_mov_def Let_def split: if_splits)
  note n = get_register_code_number [OF r]
  have "(0b01000 :: int) = 0b00110 \<or> (0b01000 :: int) = 0b00111
      \<or> (0b01000 :: int) = 0b01000 \<or> (0b01000 :: int) = 0b10011
      \<or> (0b01000 :: int) = 0b10100 \<or> (0b01000 :: int) = 0b10101" by simp
  then show ?thesis
    unfolding f n(1) using n(2,3) v by (rule decode_pack_reg_value)
qed

lemma mov_load_decoded:
  assumes "encode_mov symbol_table parts = Inr f"
    and "first_char (parts ! 1) \<noteq> CHR ''[''"
    and "first_char (parts ! 2) = CHR ''[''" "CHR ''+'' \<notin> set (parts ! 2)"
  shows "decode (pack f)
         = Opcode_reg_value 0b00111 (register_number (parts ! 1))
             (label_or_number symbol_table (butlast (tl (parts ! 2))))"
proof -
  let ?v = "label_or_number symbol_table (butlast (tl (parts ! 2)))"
  have p: "strchr (parts ! 2) CHR ''+'' = None" using assms(4) by (simp add: strchr_def)
  from assms(1,2,3) p have r: "get_register_code (parts ! 1) \<noteq> -1"
    and v: "0 \<le> ?v" "?v < 256"
    and f: "f = Opcode_reg_value 0b00111 (get_register_code (parts ! 1)) ?v"
    by (auto simp add: encode_mov_def Let_def split: if_splits)
  note n = get_register_code_number [OF r]
  have "(0b00111 :: int) = 0b00110 \<or> (0b00111 :: int) = 0b00111
      \<or> (0b00111 :: int) = 0b01000 \<or> (0b00111 :: int) = 0b10011
      \<or> (0b00111 :: int) = 0b10100 \<or> (0b00111 :: int) = 0b10101" by simp
  then show ?thesis
    unfolding f n(1) using n(2,3) v by (rule decode_pack_reg_value)
qed

lemma mov_immediate_decoded:
  assumes "encode_mov symbol_table parts = Inr f"
    and "first_char (parts ! 1) \<noteq> CHR ''[''"
    and "first_char (parts ! 2) = CHR ''#''"
  shows "decode (pack f)
         = Opcode_reg_value 0b00110 (register_number (parts ! 1)) (atoi (tl (parts ! 2)))"
proof -
  let ?v = "atoi (tl (parts ! 2))"
  from assms have r: "get_register_code (parts ! 1) \<noteq> -1"
    and v: "0 \<le> ?v" "?v < 256"
    and f: "f = Opcode_reg_value 0b00110 (get_register_code (parts ! 1)) ?v"
    by (auto simp add: encode_mov_def Let_def split: if_splits)
  note n = get_register_code_number [OF r]
  have "(0b00110 :: int) = 0b00110 \<or> (0b00110 :: int) = 0b00111
      \<or> (0b00110 :: int) = 0b01000 \<or> (0b00110 :: int) = 0b10011
      \<or> (0b00110 :: int) = 0b10100 \<or> (0b00110 :: int) = 0b10101" by simp
  then show ?thesis
    unfolding f n(1) using n(2,3) v by (rule decode_pack_reg_value)
qed

lemma mov_register_decoded:
  assumes "encode_mov symbol_table parts = Inr f"
    and "first_char (parts ! 1) \<noteq> CHR ''[''"
    and "first_char (parts ! 2) \<noteq> CHR ''[''" "first_char (parts ! 2) \<noteq> CHR ''#''"
  shows "decode (pack f)
         = Opcode_reg_reg 0b10010 (register_number (parts ! 1)) (register_number (parts ! 2))"
proof -
  from assms have r: "get_register_code (parts ! 1) \<noteq> -1" "get_register_code (parts ! 2) \<noteq> -1"
    and f: "f = Opcode_reg_reg 0b10010 (get_register_code (parts ! 1))
                  (get_register_code (parts ! 2))"
    by (auto simp add: encode_mov_def Let_def split: if_splits)
  note n1 = get_register_code_number [OF r(1)]
  note n2 = get_register_code_number [OF r(2)]
  have "(0b10010 :: int) = 0b00001 \<or> (0b10010 :: int) = 0b00010
      \<or> (0b10010 :: int) = 0b00011 \<or> (0b10010 :: int) = 0b10000
      \<or> (0b10010 :: int) = 0b10001 \<or> (0b10010 :: int) = 0b10010
      \<or> (0b10010 :: int) = 0b10111" by simp
  then show ?thesis
    unfolding f n1(1) n2(1) using n1(2,3) n2(2,3) by (rule decode_pack_reg_reg)
qed

text \<open>The dispatch on the mnemonic.\<close>

lemma dispatch_fixed:
  assumes "opcode_str = map toupper (parts ! 0)"
  shows "opcode_str = ''HLT'' \<Longrightarrow> encode_parts symbol_table parts = Inr (Opcode_only 0b00000)"
    and "opcode_str = ''RET'' \<Longrightarrow> encode_parts symbol_table parts = Inr (Opcode_only 0b01110)"
    and "opcode_str = ''MOV'' \<Longrightarrow> encode_parts symbol_table parts = encode_mov symbol_table parts"
  unfolding encode_parts_def Let_def assms [symmetric]
  by simp_all

lemma dispatch_register:
  assumes "opcode_str = map toupper (parts ! 0)"
    and "opcode_str \<in> set [''INP'', ''OUT'', ''INC'', ''DEC'', ''NOT'', ''PUSH'', ''POP'']"
  shows "encode_parts symbol_table parts = encode_register_instruction opcode_str parts"
  using assms(2)
  unfolding encode_parts_def Let_def assms(1) [symmetric] list.set insert_iff empty_iff
  by (elim disjE; simp)

lemma dispatch_address:
  assumes "opcode_str = map toupper (parts ! 0)"
    and "opcode_str \<in> set [''JMP'', ''JE'', ''JZ'', ''JNE'', ''JNZ'', ''JG'', ''JNLE'',
                             ''JL'', ''JNGE'', ''JGE'', ''JNL'', ''JLE'', ''JNG'', ''CALL'']"
  shows "encode_parts symbol_table parts = encode_address_instruction symbol_table opcode_str parts"
  using assms(2)
  unfolding encode_parts_def Let_def assms(1) [symmetric] list.set insert_iff empty_iff
  by (elim disjE; simp)

lemma dispatch_two_operand:
  assumes "opcode_str = map toupper (parts ! 0)"
    and "opcode_str \<in> set [''ADD'', ''SUB'', ''CMP'', ''MUL'', ''DIV'', ''XOR'']"
  shows "encode_parts symbol_table parts = encode_two_operand_instruction opcode_str parts"
  using assms(2)
  unfolding encode_parts_def Let_def assms(1) [symmetric] list.set insert_iff empty_iff
  by (elim disjE; simp)

lemma dispatch_unknown:
  assumes "opcode_str = map toupper (parts ! 0)"
    and "opcode_str \<notin> set [''HLT'', ''RET'', ''INP'', ''OUT'', ''INC'', ''DEC'', ''NOT'', ''PUSH'',
                ''POP'', ''JMP'', ''JE'', ''JZ'', ''JNE'', ''JNZ'', ''JG'', ''JNLE'', ''JL'', ''JNGE'',
                ''JGE'', ''JNL'', ''JLE'', ''JNG'', ''CALL'', ''ADD'', ''SUB'', ''CMP'', ''MUL'',
                ''DIV'', ''XOR'', ''MOV'']"
  shows "encode_parts symbol_table parts = Inl Unknown_mnemonic"
  using assms(2)
  unfolding encode_parts_def Let_def assms(1) [symmetric]
  by simp

text \<open>
  C1. Take a line that \<^verbatim>\<open>encode_instruction\<close> of the extended profile accepts, with its
  tokens: the mnemonic \<open>opcode_str\<close> (upper-cased, as the assembler compares it) and the
  operands. The mnemonic is one of the thirty of the instruction set, and decoding the
  returned word as the simulator does, with the masks that the decoded opcode selects,
  gives back what the line says, form by form: the opcode of the mnemonic in that form;
  for every register operand the code the simulator knows the written name by; for an
  immediate the value of the literal after \<open>#\<close>; for an address operand the address of
  the label when it begins with a letter and the value of the literal otherwise; for a
  memory operand \<^verbatim>\<open>[base+offset]\<close> the base register and the offset. The value of a
  literal is what \<^verbatim>\<open>atoi\<close> reads in it: the number written, for a run of digits that
  fits an \<^verbatim>\<open>int\<close>. A line that runs into the undefined behaviour of \<^verbatim>\<open>strncpy\<close> does not
  count as accepted.
\<close>

theorem encode_decode_roundtrip:
  assumes "encode_instruction symbol_table line = Inr instruction"
    and "parts = split_parts line" "parts \<noteq> []"
    and "opcode_str = map toupper (parts ! 0)" "operand1 = parts ! 1" "operand2 = parts ! 2"
  shows "opcode_str \<in> set [''HLT'', ''RET'', ''INP'', ''OUT'', ''INC'', ''DEC'', ''NOT'', ''PUSH'',
           ''POP'', ''JMP'', ''JE'', ''JZ'', ''JNE'', ''JNZ'', ''JG'', ''JNLE'', ''JL'', ''JNGE'',
           ''JGE'', ''JNL'', ''JLE'', ''JNG'', ''CALL'', ''ADD'', ''SUB'', ''CMP'', ''MUL'',
           ''DIV'', ''XOR'', ''MOV'']
    \<and> (opcode_str = ''HLT'' \<longrightarrow> decode instruction = Opcode_only 0b00000)
    \<and> (opcode_str = ''RET'' \<longrightarrow> decode instruction = Opcode_only 0b01110)
    \<and> (opcode_str \<in> set [''INP'', ''OUT'', ''INC'', ''DEC'', ''NOT'', ''PUSH'', ''POP'']
         \<longrightarrow> decode instruction
             = Opcode_reg (register_opcode opcode_str) (register_number operand1))
    \<and> (opcode_str \<in> set [''JMP'', ''JE'', ''JZ'', ''JNE'', ''JNZ'', ''JG'', ''JNLE'',
                           ''JL'', ''JNGE'', ''JGE'', ''JNL'', ''JLE'', ''JNG'', ''CALL'']
         \<longrightarrow> decode instruction
             = Opcode_value (address_opcode opcode_str) (label_or_number symbol_table operand1))
    \<and> (opcode_str \<in> set [''ADD'', ''SUB'', ''CMP'', ''MUL'', ''DIV'', ''XOR'']
           \<and> first_char operand2 = CHR ''#''
         \<longrightarrow> opcode_str \<in> set [''ADD'', ''SUB'', ''CMP'']
           \<and> decode instruction
               = Opcode_reg_value (immediate_opcode opcode_str) (register_number operand1)
                   (atoi (tl operand2)))
    \<and> (opcode_str \<in> set [''ADD'', ''SUB'', ''CMP'', ''MUL'', ''DIV'', ''XOR'']
           \<and> first_char operand2 \<noteq> CHR ''#''
         \<longrightarrow> decode instruction
             = Opcode_reg_reg (two_register_opcode opcode_str) (register_number operand1)
                 (register_number operand2))
    \<and> (opcode_str = ''MOV'' \<and> first_char operand1 = CHR ''['' \<and> CHR ''+'' \<in> set operand1
         \<longrightarrow> decode instruction
             = Opcode_reg_base_offset 0b11111 (register_number operand2)
                 (register_number (base_text operand1)) (atoi (offset_text operand1)))
    \<and> (opcode_str = ''MOV'' \<and> first_char operand1 = CHR ''['' \<and> CHR ''+'' \<notin> set operand1
         \<longrightarrow> decode instruction
             = Opcode_reg_value 0b01000 (register_number operand2)
                 (label_or_number symbol_table (butlast (tl operand1))))
    \<and> (opcode_str = ''MOV'' \<and> first_char operand1 \<noteq> CHR ''['' \<and> first_char operand2 = CHR ''[''
           \<and> CHR ''+'' \<in> set operand2
         \<longrightarrow> decode instruction
             = Opcode_reg_base_offset 0b01111 (register_number operand1)
                 (register_number (base_text operand2)) (atoi (offset_text operand2)))
    \<and> (opcode_str = ''MOV'' \<and> first_char operand1 \<noteq> CHR ''['' \<and> first_char operand2 = CHR ''[''
           \<and> CHR ''+'' \<notin> set operand2
         \<longrightarrow> decode instruction
             = Opcode_reg_value 0b00111 (register_number operand1)
                 (label_or_number symbol_table (butlast (tl operand2))))
    \<and> (opcode_str = ''MOV'' \<and> first_char operand1 \<noteq> CHR ''['' \<and> first_char operand2 = CHR ''#''
         \<longrightarrow> decode instruction
             = Opcode_reg_value 0b00110 (register_number operand1) (atoi (tl operand2)))
    \<and> (opcode_str = ''MOV'' \<and> first_char operand1 \<noteq> CHR ''['' \<and> first_char operand2 \<noteq> CHR ''[''
           \<and> first_char operand2 \<noteq> CHR ''#''
         \<longrightarrow> decode instruction
             = Opcode_reg_reg 0b10010 (register_number operand1) (register_number operand2))"
proof -
  from assms(1,3) obtain f where f: "encode_fields symbol_table line = Inr (Some f)"
    and w: "instruction = pack f"
    using encode_instruction_accepted [OF assms(1)] unfolding assms(2) by blast
  from f have e: "encode_parts symbol_table parts = Inr f"
    unfolding assms(2)
    by (auto simp add: encode_fields_def Let_def map_sum_def split: if_splits sum.splits)
  note m = assms(4)
  note o = assms(5,6)
  have known: "opcode_str \<in> set [''HLT'', ''RET'', ''INP'', ''OUT'', ''INC'', ''DEC'', ''NOT'', ''PUSH'',
           ''POP'', ''JMP'', ''JE'', ''JZ'', ''JNE'', ''JNZ'', ''JG'', ''JNLE'', ''JL'', ''JNGE'',
           ''JGE'', ''JNL'', ''JLE'', ''JNG'', ''CALL'', ''ADD'', ''SUB'', ''CMP'', ''MUL'',
           ''DIV'', ''XOR'', ''MOV'']"
  proof (rule ccontr)
    assume "\<not> ?thesis"
    then have "encode_parts symbol_table parts = Inl Unknown_mnemonic"
      by (rule dispatch_unknown [OF m])
    then show False using e by simp
  qed
  have hlt: "opcode_str = ''HLT'' \<longrightarrow> decode instruction = Opcode_only 0b00000"
  proof
    assume "opcode_str = ''HLT''"
    then have "f = Opcode_only 0b00000" using dispatch_fixed(1) [OF m] e by simp
    then show "decode instruction = Opcode_only 0b00000"
      unfolding w using decode_pack_only [of "0b00000"] by simp
  qed
  have ret: "opcode_str = ''RET'' \<longrightarrow> decode instruction = Opcode_only 0b01110"
  proof
    assume "opcode_str = ''RET''"
    then have "f = Opcode_only 0b01110" using dispatch_fixed(2) [OF m] e by simp
    then show "decode instruction = Opcode_only 0b01110"
      unfolding w using decode_pack_only [of "0b01110"] by simp
  qed
  have reg: "opcode_str \<in> set [''INP'', ''OUT'', ''INC'', ''DEC'', ''NOT'', ''PUSH'', ''POP'']
         \<longrightarrow> decode instruction
             = Opcode_reg (register_opcode opcode_str) (register_number operand1)"
  proof
    assume c: "opcode_str \<in> set [''INP'', ''OUT'', ''INC'', ''DEC'', ''NOT'', ''PUSH'', ''POP'']"
    have "encode_register_instruction opcode_str parts = Inr f"
      using dispatch_register [OF m c] e by simp
    then show "decode instruction
             = Opcode_reg (register_opcode opcode_str) (register_number operand1)"
      unfolding w o using c by (rule register_instruction_decoded)
  qed
  have adr: "opcode_str \<in> set [''JMP'', ''JE'', ''JZ'', ''JNE'', ''JNZ'', ''JG'', ''JNLE'',
                           ''JL'', ''JNGE'', ''JGE'', ''JNL'', ''JLE'', ''JNG'', ''CALL'']
         \<longrightarrow> decode instruction
             = Opcode_value (address_opcode opcode_str) (label_or_number symbol_table operand1)"
  proof
    assume c: "opcode_str \<in> set [''JMP'', ''JE'', ''JZ'', ''JNE'', ''JNZ'', ''JG'', ''JNLE'',
                           ''JL'', ''JNGE'', ''JGE'', ''JNL'', ''JLE'', ''JNG'', ''CALL'']"
    have "encode_address_instruction symbol_table opcode_str parts = Inr f"
      using dispatch_address [OF m c] e by simp
    then show "decode instruction
             = Opcode_value (address_opcode opcode_str) (label_or_number symbol_table operand1)"
      unfolding w o using c by (rule address_instruction_decoded)
  qed
  have imm: "opcode_str \<in> set [''ADD'', ''SUB'', ''CMP'', ''MUL'', ''DIV'', ''XOR'']
           \<and> first_char operand2 = CHR ''#''
         \<longrightarrow> opcode_str \<in> set [''ADD'', ''SUB'', ''CMP'']
           \<and> decode instruction
               = Opcode_reg_value (immediate_opcode opcode_str) (register_number operand1)
                   (atoi (tl operand2))"
  proof (intro impI, elim conjE)
    assume c: "opcode_str \<in> set [''ADD'', ''SUB'', ''CMP'', ''MUL'', ''DIV'', ''XOR'']"
      and h: "first_char operand2 = CHR ''#''"
    have t: "encode_two_operand_instruction opcode_str parts = Inr f"
      using dispatch_two_operand [OF m c] e by simp
    show "opcode_str \<in> set [''ADD'', ''SUB'', ''CMP'']
           \<and> decode instruction
               = Opcode_reg_value (immediate_opcode opcode_str) (register_number operand1)
                   (atoi (tl operand2))"
      unfolding w o
      using immediate_instruction_mnemonic [OF t h [unfolded o]]
        immediate_instruction_decoded [OF t h [unfolded o]]
      by (rule conjI)
  qed
  have rr: "opcode_str \<in> set [''ADD'', ''SUB'', ''CMP'', ''MUL'', ''DIV'', ''XOR'']
           \<and> first_char operand2 \<noteq> CHR ''#''
         \<longrightarrow> decode instruction
             = Opcode_reg_reg (two_register_opcode opcode_str) (register_number operand1)
                 (register_number operand2)"
  proof (intro impI, elim conjE)
    assume c: "opcode_str \<in> set [''ADD'', ''SUB'', ''CMP'', ''MUL'', ''DIV'', ''XOR'']"
      and h: "first_char operand2 \<noteq> CHR ''#''"
    have t: "encode_two_operand_instruction opcode_str parts = Inr f"
      using dispatch_two_operand [OF m c] e by simp
    show "decode instruction
             = Opcode_reg_reg (two_register_opcode opcode_str) (register_number operand1)
                 (register_number operand2)"
      unfolding w o
      using t h [unfolded o] c by (rule two_register_instruction_decoded)
  qed
  have mov: "encode_mov symbol_table parts = Inr f" if "opcode_str = ''MOV''"
    using dispatch_fixed(3) [OF m that] e by simp
  have m1: "opcode_str = ''MOV'' \<and> first_char operand1 = CHR ''['' \<and> CHR ''+'' \<in> set operand1
         \<longrightarrow> decode instruction
             = Opcode_reg_base_offset 0b11111 (register_number operand2)
                 (register_number (base_text operand1)) (atoi (offset_text operand1))"
    unfolding w o using mov mov_store_base_offset_decoded by blast
  have m2: "opcode_str = ''MOV'' \<and> first_char operand1 = CHR ''['' \<and> CHR ''+'' \<notin> set operand1
         \<longrightarrow> decode instruction
             = Opcode_reg_value 0b01000 (register_number operand2)
                 (label_or_number symbol_table (butlast (tl operand1)))"
    unfolding w o using mov mov_store_decoded by blast
  have m3: "opcode_str = ''MOV'' \<and> first_char operand1 \<noteq> CHR ''['' \<and> first_char operand2 = CHR ''[''
           \<and> CHR ''+'' \<in> set operand2
         \<longrightarrow> decode instruction
             = Opcode_reg_base_offset 0b01111 (register_number operand1)
                 (register_number (base_text operand2)) (atoi (offset_text operand2))"
    unfolding w o using mov mov_load_base_offset_decoded by blast
  have m4: "opcode_str = ''MOV'' \<and> first_char operand1 \<noteq> CHR ''['' \<and> first_char operand2 = CHR ''[''
           \<and> CHR ''+'' \<notin> set operand2
         \<longrightarrow> decode instruction
             = Opcode_reg_value 0b00111 (register_number operand1)
                 (label_or_number symbol_table (butlast (tl operand2)))"
    unfolding w o using mov mov_load_decoded by blast
  have m5: "opcode_str = ''MOV'' \<and> first_char operand1 \<noteq> CHR ''['' \<and> first_char operand2 = CHR ''#''
         \<longrightarrow> decode instruction
             = Opcode_reg_value 0b00110 (register_number operand1) (atoi (tl operand2))"
    unfolding w o using mov mov_immediate_decoded by blast
  have m6: "opcode_str = ''MOV'' \<and> first_char operand1 \<noteq> CHR ''['' \<and> first_char operand2 \<noteq> CHR ''[''
           \<and> first_char operand2 \<noteq> CHR ''#''
         \<longrightarrow> decode instruction
             = Opcode_reg_reg 0b10010 (register_number operand1) (register_number operand2)"
    unfolding w o using mov mov_register_decoded by blast
  show ?thesis
    by (intro conjI) (fact known hlt ret reg adr imm rr m1 m2 m3 m4 m5 m6)+
qed

theorem encode_decode_roundtrip_witness:
  "encode_instruction [] ''PUSH EBX'' = Inr 0x5900
   \<and> decode 0x5900 = Opcode_reg 0b01011 1
   \<and> encode_instruction [] ''MOV EAX, [EBP+4]'' = Inr 0x78C4
   \<and> decode 0x78C4 = Opcode_reg_base_offset 0b01111 0 6 4
   \<and> encode_instruction [(''loop'', 3)] ''jne loop'' = Inr 0xD003
   \<and> decode 0xD003 = Opcode_value 0b11010 3
   \<and> encode_instruction [] ''MOV EAX, #4294967551'' = Inr 0x30FF
   \<and> decode 0x30FF = Opcode_reg_value 0b00110 0 255"
proof -
  have a: "encode_instruction [] ''PUSH EBX'' = Inr 0x5900" by code_simp
  have pa: "[''PUSH'', ''EBX''] = split_parts ''PUSH EBX''" by code_simp
  have ma: "''PUSH'' = map toupper ([''PUSH'', ''EBX''] ! 0)" by code_simp
  have va: "Opcode_reg (register_opcode ''PUSH'') (register_number ''EBX'') = Opcode_reg 0b01011 1"
    by code_simp
  have da: "decode 0x5900 = Opcode_reg 0b01011 1"
    using encode_decode_roundtrip [OF a pa _ ma refl refl]
    by (simp add: va)
  have b: "encode_instruction [] ''MOV EAX, [EBP+4]'' = Inr 0x78C4" by code_simp
  have pb: "[''MOV'', ''EAX'', ''[EBP+4]''] = split_parts ''MOV EAX, [EBP+4]''" by code_simp
  have mb: "''MOV'' = map toupper ([''MOV'', ''EAX'', ''[EBP+4]''] ! 0)" by code_simp
  have vb: "Opcode_reg_base_offset 0b01111 (register_number ''EAX'')
              (register_number (base_text ''[EBP+4]'')) (atoi (offset_text ''[EBP+4]''))
            = Opcode_reg_base_offset 0b01111 0 6 4"
    by code_simp
  have db: "decode 0x78C4 = Opcode_reg_base_offset 0b01111 0 6 4"
    using encode_decode_roundtrip [OF b pb _ mb refl refl]
    by (simp add: vb first_char_def)
  have c: "encode_instruction [(''loop'', 3)] ''jne loop'' = Inr 0xD003" by code_simp
  have pc: "[''jne'', ''loop''] = split_parts ''jne loop''" by code_simp
  have mc: "''JNE'' = map toupper ([''jne'', ''loop''] ! 0)" by code_simp
  have vc: "Opcode_value (address_opcode ''JNE'') (label_or_number [(''loop'', 3)] ''loop'')
            = Opcode_value 0b11010 3"
    by code_simp
  have dc: "decode 0xD003 = Opcode_value 0b11010 3"
    using encode_decode_roundtrip [OF c pc _ mc refl refl]
    by (simp add: vc)
  have d: "encode_instruction [] ''MOV EAX, #4294967551'' = Inr 0x30FF" by code_simp
  have pd: "[''MOV'', ''EAX'', ''#4294967551''] = split_parts ''MOV EAX, #4294967551''"
    by code_simp
  have md: "''MOV'' = map toupper ([''MOV'', ''EAX'', ''#4294967551''] ! 0)" by code_simp
  have vd: "Opcode_reg_value 0b00110 (register_number ''EAX'') (atoi ''4294967551'')
            = Opcode_reg_value 0b00110 0 255"
    by code_simp
  have dd: "decode 0x30FF = Opcode_reg_value 0b00110 0 255"
    using encode_decode_roundtrip [OF d pd _ md refl refl]
    by (simp add: vd first_char_def)
  show ?thesis
    using a da b db c dc d dd by blast
qed

subsection \<open>The error sentinel\<close>

text \<open>A line that \<^verbatim>\<open>encode_instruction\<close> rejects stops \<^verbatim>\<open>assemble\<close>: it returns \<open>-1\<close>.\<close>

lemma assemble_aborts_on_error:
  assumes "line \<in> set lines" "line \<noteq> []" "encode_instruction symbol_table line = Inl e"
  shows "assemble symbol_table lines = None"
  using assms
proof (induction lines)
  case Nil
  then show ?case by simp
next
  case (Cons l ls)
  show ?case
  proof (cases "l = line")
    case True
    then show ?thesis using Cons.prems by (simp add: returned_word_def)
  next
    case False
    then have "assemble symbol_table ls = None" using Cons by simp
    then show ?thesis by (simp add: Let_def)
  qed
qed

text \<open>
  C3. The claim holds of the lines that fail to encode: assembly stops and \<^verbatim>\<open>main\<close>
  writes no file. Its converse does not hold of the code: \<^verbatim>\<open>MOV [ESP+31], ESP\<close> is
  encoded without any error, as opcode \<open>11111\<close> with both register fields 7 and offset
  31, and that word is \<open>0xFFFF\<close>, the value \<^verbatim>\<open>assemble\<close> takes for the error.
\<close>

theorem sentinel_collision:
  "encode_fields [] ''MOV [ESP+31], ESP'' = Inr (Some (Opcode_reg_base_offset 0b11111 7 7 31))
   \<and> encode_instruction [] ''MOV [ESP+31], ESP'' = Inr 0xFFFF
   \<and> returned_word (encode_instruction [] ''MOV [ESP+31], ESP'') = 0xFFFF
   \<and> assemble [] [''MOV [ESP+31], ESP''] = None
   \<and> assembler_main [''MOV [ESP+31], ESP''] = (1, None)"
  by code_simp

subsection \<open>The symbol table of the extended profile\<close>

text \<open>
  One step of the loop of \<^verbatim>\<open>build_symbol_table\<close>, on a line without a colon and on a
  line with one.
\<close>

lemma build_symbol_table_loop_plain:
  assumes "strchr line CHR '':'' = None"
  shows "build_symbol_table_loop (line # rest) symbol_table instruction_address =
     (case build_symbol_table_loop rest symbol_table
             (if line \<noteq> [] then instruction_address + 1 else instruction_address) of
        (rest', final_table, warnings) \<Rightarrow> (line # rest', final_table, warnings))"
  using assms by (simp add: Let_def split: prod.splits)

lemma build_symbol_table_loop_label:
  assumes "strchr line CHR '':'' = Some (line_copy, colon)"
  shows "build_symbol_table_loop (line # rest) symbol_table instruction_address =
     (case build_symbol_table_loop rest
             (if length symbol_table < MAX_LABELS
              then symbol_table @ [(take (MAX_LABEL_LENGTH - 1) line_copy, instruction_address)]
              else symbol_table)
             (if dropWhile isspace (tl colon) \<noteq> [] then instruction_address + 1
              else instruction_address) of
        (rest', final_table, warnings) \<Rightarrow>
          (dropWhile isspace (tl colon) # rest', final_table,
           (if length symbol_table < MAX_LABELS then []
            else [Maximum_labels_reached line_copy]) @ warnings))"
  using assms by (simp add: Let_def split: prod.splits)

text \<open>The loop only appends to the table, and never beyond \<^verbatim>\<open>MAX_LABELS\<close> entries.\<close>

lemma build_symbol_table_loop_appends:
  assumes "build_symbol_table_loop program_memory symbol_table a = (lines, final_table, warnings)"
  shows "\<exists>added. final_table = symbol_table @ added"
  using assms
proof (induction program_memory arbitrary: symbol_table a lines final_table warnings)
  case Nil
  then show ?case by simp
next
  case (Cons line rest)
  show ?case
  proof (cases "strchr line CHR '':''")
    case None
    then show ?thesis
      using Cons.prems Cons.IH
      by (auto simp add: build_symbol_table_loop_plain simp del: build_symbol_table_loop.simps
          split: prod.splits)
  next
    case (Some p)
    obtain line_copy colon where p: "p = (line_copy, colon)" by (cases p)
    obtain rest' ws where r: "build_symbol_table_loop rest
             (if length symbol_table < MAX_LABELS
              then symbol_table @ [(take (MAX_LABEL_LENGTH - 1) line_copy, a)]
              else symbol_table)
             (if dropWhile isspace (tl colon) \<noteq> [] then a + 1 else a)
           = (rest', final_table, ws)"
      using Cons.prems Some p
      by (auto simp add: build_symbol_table_loop_label simp del: build_symbol_table_loop.simps
          split: prod.splits)
    from Cons.IH [OF r] show ?thesis by (auto split: if_splits)
  qed
qed

text \<open>
  The behaviour C9 asks for, in the extended profile: with \<open>n\<close> label definitions in the
  program and a table that starts with room, the loop runs over every line, records
  labels up to the capacity and prints one warning for each label beyond it and none
  for the others.
\<close>

lemma build_symbol_table_loop_capacity:
  assumes "build_symbol_table_loop program_memory symbol_table a = (lines, final_table, warnings)"
      and "length symbol_table \<le> MAX_LABELS"
  shows "length lines = length program_memory
       \<and> length final_table
           = min MAX_LABELS (length symbol_table
               + length (filter (\<lambda>l. CHR '':'' \<in> set l) program_memory))
       \<and> length warnings
           = length symbol_table + length (filter (\<lambda>l. CHR '':'' \<in> set l) program_memory)
             - length final_table"
  using assms
proof (induction program_memory arbitrary: symbol_table a lines final_table warnings)
  case Nil
  then show ?case by simp
next
  case (Cons line rest)
  show ?case
  proof (cases "strchr line CHR '':''")
    case None
    then have no: "CHR '':'' \<notin> set line" by (simp add: strchr_def split: if_splits)
    obtain rest' where "lines = line # rest'"
      and "build_symbol_table_loop rest symbol_table (if line \<noteq> [] then a + 1 else a)
             = (rest', final_table, warnings)"
      using Cons.prems(1) None
      by (auto simp add: build_symbol_table_loop_plain simp del: build_symbol_table_loop.simps
          split: prod.splits)
    then show ?thesis using Cons.IH Cons.prems(2) no by fastforce
  next
    case (Some p)
    then have yes: "CHR '':'' \<in> set line" by (simp add: strchr_def split: if_splits)
    obtain line_copy colon where p: "p = (line_copy, colon)" by (cases p)
    let ?table = "if length symbol_table < MAX_LABELS
              then symbol_table @ [(take (MAX_LABEL_LENGTH - 1) line_copy, a)]
              else symbol_table"
    let ?printed = "if length symbol_table < MAX_LABELS then []
            else [Maximum_labels_reached line_copy]"
    obtain rest' ws where l: "lines = dropWhile isspace (tl colon) # rest'"
      and w: "warnings = ?printed @ ws"
      and r: "build_symbol_table_loop rest ?table
                (if dropWhile isspace (tl colon) \<noteq> [] then a + 1 else a)
              = (rest', final_table, ws)"
      using Cons.prems(1) Some p
      by (auto simp add: build_symbol_table_loop_label simp del: build_symbol_table_loop.simps
          split: prod.splits)
    have "length ?table \<le> MAX_LABELS" using Cons.prems(2) by simp
    from Cons.IH [OF r this] show ?thesis
      using l w yes Cons.prems(2) by (auto simp add: min_def split: if_splits)
  qed
qed

text \<open>
  The behaviour C2 asks for, in the extended profile. The label defined on line \<open>i\<close> is
  entry number \<open>k\<close> of the table, \<open>k\<close> being the number of label definitions before
  line \<open>i\<close>, and its address is the starting address plus the number of lines before
  \<open>i\<close> that still hold an instruction after their label is stripped.
\<close>

lemma build_symbol_table_loop_address:
  assumes "build_symbol_table_loop program_memory symbol_table a = (lines, final_table, warnings)"
      and "i < length program_memory"
      and "strchr (program_memory ! i) CHR '':'' = Some (name, colon)"
      and "length symbol_table
             + length (filter (\<lambda>l. CHR '':'' \<in> set l) (take i program_memory)) < MAX_LABELS"
  shows "final_table ! (length symbol_table
             + length (filter (\<lambda>l. CHR '':'' \<in> set l) (take i program_memory)))
         = (take (MAX_LABEL_LENGTH - 1) name,
            a + int (length (filter (\<lambda>l. l \<noteq> []) (take i lines))))"
  using assms
proof (induction program_memory arbitrary: symbol_table a lines final_table warnings i)
  case Nil
  then show ?case by simp
next
  case (Cons line rest)
  show ?case
  proof (cases "strchr line CHR '':''")
    case None
    then have no: "CHR '':'' \<notin> set line" by (simp add: strchr_def split: if_splits)
    obtain rest' where l: "lines = line # rest'"
      and r: "build_symbol_table_loop rest symbol_table (if line \<noteq> [] then a + 1 else a)
             = (rest', final_table, warnings)"
      using Cons.prems(1) None
      by (auto simp add: build_symbol_table_loop_plain simp del: build_symbol_table_loop.simps
          split: prod.splits)
    from Cons.prems(3) None obtain j where i: "i = Suc j" by (cases i) auto
    have "final_table ! (length symbol_table
             + length (filter (\<lambda>l. CHR '':'' \<in> set l) (take j rest)))
         = (take (MAX_LABEL_LENGTH - 1) name,
            (if line \<noteq> [] then a + 1 else a)
              + int (length (filter (\<lambda>l. l \<noteq> []) (take j rest'))))"
      using Cons.prems(2,3,4) no i by (intro Cons.IH [OF r]) auto
    then show ?thesis using no i l by auto
  next
    case (Some p)
    then have yes: "CHR '':'' \<in> set line" by (simp add: strchr_def split: if_splits)
    obtain line_copy colon' where p: "p = (line_copy, colon')" by (cases p)
    have room: "length symbol_table < MAX_LABELS" using Cons.prems(4) by simp
    let ?table = "symbol_table @ [(take (MAX_LABEL_LENGTH - 1) line_copy, a)]"
    let ?a = "if dropWhile isspace (tl colon') \<noteq> [] then a + 1 else a"
    obtain rest' ws where l: "lines = dropWhile isspace (tl colon') # rest'"
      and r: "build_symbol_table_loop rest ?table ?a = (rest', final_table, ws)"
      using Cons.prems(1) Some p room
      by (auto simp add: build_symbol_table_loop_label simp del: build_symbol_table_loop.simps
          split: prod.splits)
    show ?thesis
    proof (cases i)
      case 0
      then have "name = line_copy" using Cons.prems(3) Some p by simp
      moreover obtain added where "final_table = ?table @ added"
        using build_symbol_table_loop_appends [OF r] by blast
      ultimately show ?thesis using 0 by (simp add: nth_append)
    next
      case (Suc j)
      have "final_table ! (length ?table
               + length (filter (\<lambda>l. CHR '':'' \<in> set l) (take j rest)))
           = (take (MAX_LABEL_LENGTH - 1) name,
              ?a + int (length (filter (\<lambda>l. l \<noteq> []) (take j rest'))))"
        using Cons.prems(2,3,4) yes Suc by (intro Cons.IH [OF r]) auto
      then show ?thesis using yes Suc l by auto
    qed
  qed
qed

text \<open>\<^verbatim>\<open>assemble\<close> emits one word for each line that holds an instruction.\<close>

lemma assemble_length:
  assumes "assemble symbol_table lines = Some machine_code"
  shows "length machine_code = length (filter (\<lambda>l. l \<noteq> []) lines)"
  using assms
proof (induction lines arbitrary: machine_code)
  case Nil
  then show ?case by simp
next
  case (Cons line rest)
  then show ?case
    by (cases "line = []") (auto simp add: Let_def split: if_splits)
qed

text \<open>\<^verbatim>\<open>get_address_for_label\<close> returns the address of the first entry with the name.\<close>

lemma get_address_for_label_first:
  assumes "k < length symbol_table" "fst (symbol_table ! k) = name"
      and "\<forall>j < k. fst (symbol_table ! j) \<noteq> name"
  shows "get_address_for_label symbol_table name = snd (symbol_table ! k)"
  using assms
proof (induction symbol_table arbitrary: k)
  case Nil
  then show ?case by simp
next
  case (Cons entry rest)
  obtain n address where e: "entry = (n, address)" by (cases entry)
  show ?case
  proof (cases k)
    case 0
    then show ?thesis using Cons.prems e by simp
  next
    case (Suc j)
    have "n \<noteq> name" using Cons.prems(3) Suc e by auto
    moreover have "get_address_for_label rest name = snd (rest ! j)"
      using Cons.prems Suc by (intro Cons.IH) auto
    ultimately show ?thesis using e Suc by simp
  qed
qed

text \<open>
  Together: in the extended profile the address recorded for the label of line \<open>i\<close> is
  the number of words \<^verbatim>\<open>assemble\<close> emits for the lines before \<open>i\<close>, and a reference to
  the label, wherever it stands, resolves to it unless the same name was defined before.
\<close>

lemma label_address_extended:
  assumes "build_symbol_table program_memory = (lines, symbol_table, warnings)"
      and "i < length program_memory"
      and "strchr (program_memory ! i) CHR '':'' = Some (name, colon)"
      and "k = length (filter (\<lambda>l. CHR '':'' \<in> set l) (take i program_memory))"
      and "k < MAX_LABELS"
      and "assemble symbol_table (take i lines) = Some machine_code"
  shows "symbol_table ! k = (take (MAX_LABEL_LENGTH - 1) name, int (length machine_code))"
    and "\<forall>j < k. fst (symbol_table ! j) \<noteq> take (MAX_LABEL_LENGTH - 1) name \<Longrightarrow>
           get_address_for_label symbol_table (take (MAX_LABEL_LENGTH - 1) name)
             = int (length machine_code)"
proof -
  have loop: "build_symbol_table_loop program_memory [] 0 = (lines, symbol_table, warnings)"
    using assms(1) by (simp add: build_symbol_table_def)
  have "symbol_table ! (length ([] :: Label list) + k)
          = (take (MAX_LABEL_LENGTH - 1) name,
             0 + int (length (filter (\<lambda>l. l \<noteq> []) (take i lines))))"
    unfolding assms(4) using assms(2,3,5)
    by (intro build_symbol_table_loop_address [OF loop]) (simp_all add: assms(4))
  then show entry: "symbol_table ! k = (take (MAX_LABEL_LENGTH - 1) name, int (length machine_code))"
    using assemble_length [OF assms(6)] by simp
  have "CHR '':'' \<in> set (program_memory ! i)"
    using assms(3) by (simp add: strchr_def split: if_splits)
  then have "length (filter (\<lambda>l. CHR '':'' \<in> set l) (take (Suc i) program_memory)) = Suc k"
    using assms(2,4) by (simp add: take_Suc_conv_app_nth)
  moreover have "length (filter (\<lambda>l. CHR '':'' \<in> set l) (take (Suc i) program_memory))
                 \<le> length (filter (\<lambda>l. CHR '':'' \<in> set l) program_memory)"
  proof -
    have "program_memory = take (Suc i) program_memory @ drop (Suc i) program_memory" by simp
    then have "filter (\<lambda>l. CHR '':'' \<in> set l) program_memory
        = filter (\<lambda>l. CHR '':'' \<in> set l) (take (Suc i) program_memory)
          @ filter (\<lambda>l. CHR '':'' \<in> set l) (drop (Suc i) program_memory)"
      by (metis filter_append)
    then show ?thesis by simp
  qed
  ultimately have "k < length (filter (\<lambda>l. CHR '':'' \<in> set l) program_memory)" by simp
  moreover have "length symbol_table
      = min MAX_LABELS (length (filter (\<lambda>l. CHR '':'' \<in> set l) program_memory))"
    using build_symbol_table_loop_capacity [OF loop] by simp
  ultimately have k: "k < length symbol_table" using assms(5) by simp
  show "get_address_for_label symbol_table (take (MAX_LABEL_LENGTH - 1) name)
             = int (length machine_code)"
    if "\<forall>j < k. fst (symbol_table ! j) \<noteq> take (MAX_LABEL_LENGTH - 1) name"
    using get_address_for_label_first [OF k _ that] entry by simp
qed

subsection \<open>Labels in the simple profile\<close>

text \<open>
  C2. The extended assembler does what the claim says (\<open>label_address_extended\<close>); the
  simple assembler does not. It gives a label the index of its line, and a line that
  holds only a label is still encoded, as the word 0, and counted. In the countdown loop
  of the simple profile's own example program the line \<^verbatim>\<open>countdown_loop:\<close> takes address
  1 for itself: the label names the word 0, which the simulator executes as \<^verbatim>\<open>HLT\<close>, and
  the program stops there without printing anything. With the label at the address of
  the \<^verbatim>\<open>OUT\<close> that follows it, and no word for its line, the same program prints 3, 2,
  1, 0. In the second program one instruction stands before \<^verbatim>\<open>end:\<close>, yet \<^verbatim>\<open>end\<close>
  resolves to 2, the index of its line; the extended assembler resolves it to 1.
\<close>

theorem label_address_simple_profile:
  "build_symbol_table_simple
      [''SET C, #3'', ''countdown_loop:'', ''OUT C'', ''DEC C'', ''JNZ C, countdown_loop'', ''OUT C'']
     = ([''SET C, #3'', [], ''OUT C'', ''DEC C'', ''JNZ C, countdown_loop'', ''OUT C''],
        [(''countdown_loop'', 1)], [Maximum_labels_reached ''countdown_loop''])
   \<and> assembler_main_simple
      [''SET C, #3'', ''countdown_loop:'', ''OUT C'', ''DEC C'', ''JNZ C, countdown_loop'', ''OUT C'']
     = (0, Some [0x3403, 0x0000, 0x2C00, 0x5400, 0xD401, 0x2C00])
   \<and> map_option (\<lambda>(pc, s). (pc, console_simple s, reg_C (registers_simple s)))
       (run_program_simple 10 [0x3403, 0x0000, 0x2C00, 0x5400, 0xD401, 0x2C00]
          (initial_machine_simple (\<lambda>_. None)))
     = Some (-1, [Hlt_message 1], 3)
   \<and> map_option (\<lambda>(pc, s). (pc, console_simple s))
       (run_program_simple 20 [0x3403, 0x2C00, 0x5400, 0xD401, 0x2C00]
          (initial_machine_simple (\<lambda>_. None)))
     = Some (5, [Output_message 2 3, Output_message 2 2, Output_message 2 1, Output_message 2 0,
                 Program_finished])
   \<and> build_symbol_table_simple [''JMP end'', ''skip:'', ''end:'', ''HLT'']
     = ([''JMP end'', [], [], ''HLT''], [(''skip'', 1), (''end'', 2)],
        [Maximum_labels_reached ''skip'', Maximum_labels_reached ''end''])
   \<and> assembler_main_simple [''JMP end'', ''skip:'', ''end:'', ''HLT'']
     = (0, Some [0xC002, 0, 0, 0])
   \<and> build_symbol_table [''JMP end'', ''skip:'', ''end:'', ''HLT'']
     = ([''JMP end'', [], [], ''HLT''], [(''skip'', 1), (''end'', 1)], [])
   \<and> assembler_main [''JMP end'', ''skip:'', ''end:'', ''HLT''] = (0, Some [0xC001, 0])"
  by code_simp

text \<open>
  C9. The extended assembler does what the claim says
  (\<open>build_symbol_table_loop_capacity\<close>); the simple assembler prints the warning for
  every label it records and none for a label it drops. One label is recorded with the
  warning; of 65 labels the first 64 are recorded, each with the warning, and the 65th
  is dropped without one.
\<close>

theorem label_warning_simple_profile:
  "build_symbol_table_simple [''loop: HLT'']
     = ([''HLT''], [(''loop'', 0)], [Maximum_labels_reached ''loop''])
   \<and> build_symbol_table [''loop: HLT''] = ([''HLT''], [(''loop'', 0)], [])
   \<and> build_symbol_table_simple (replicate 65 ''x:'')
     = (replicate 65 [], map (\<lambda>i. (''x'', int i)) [0..<64],
        replicate 64 (Maximum_labels_reached ''x''))
   \<and> build_symbol_table (replicate 65 ''x:'')
     = (replicate 65 [], replicate 64 (''x'', 0), [Maximum_labels_reached ''x''])"
  by code_simp

subsection \<open>Field limits\<close>

lemma atoi_literals:
  "atoi ''511'' = 511" "atoi ''512'' = 512" "atoi ''255'' = 255" "atoi ''256'' = 256"
  "atoi ''31]'' = 31" "atoi ''32]'' = 32"
  by code_simp+

lemma label_or_number_literals:
  "label_or_number symbol_table ''511'' = 511" "label_or_number symbol_table ''512'' = 512"
  "label_or_number symbol_table ''255'' = 255" "label_or_number symbol_table ''256'' = 256"
  by (simp_all add: label_or_number_def first_char_def isalpha_def atoi_literals)

text \<open>A register name of the extended profile has three letters.\<close>

lemma toupper_keeps:
  "c = CHR ''['' \<or> c = CHR ''+'' \<or> c = CHR ''#'' \<Longrightarrow> toupper c = c"
  by (auto simp add: toupper_def)

lemma register_name_shape:
  assumes "get_register_code r \<noteq> -1"
  shows "length r = 3" "CHR ''['' \<notin> set r" "CHR ''+'' \<notin> set r" "CHR ''#'' \<notin> set r"
proof -
  let ?u = "map toupper (take (MAX_LABEL_LENGTH - 1) r)"
  from assms have u: "?u \<in> set [''EAX'', ''EBX'', ''ECX'', ''EDX'', ''ESI'', ''EDI'', ''EBP'', ''ESP'']"
    by (simp add: get_register_code_def Let_def split: if_splits)
  moreover have "\<forall>n \<in> set [''EAX'', ''EBX'', ''ECX'', ''EDX'', ''ESI'', ''EDI'', ''EBP'', ''ESP''].
                   length n = 3"
    by simp
  ultimately have "length ?u = 3" by blast
  then have "min (length r) 31 = 3" by (simp add: MAX_LABEL_LENGTH_def)
  then show len: "length r = 3" by (simp add: min_def split: if_splits)
  then have ur: "?u = map toupper r" by (simp add: MAX_LABEL_LENGTH_def)
  have "c \<notin> set r" if "c = CHR ''['' \<or> c = CHR ''+'' \<or> c = CHR ''#''" for c
  proof
    assume "c \<in> set r"
    then have "toupper c \<in> set (map toupper r)" by simp
    then have "c \<in> set ?u" using toupper_keeps [OF that] ur by simp
    then show False using u that by auto
  qed
  then show "CHR ''['' \<notin> set r" "CHR ''+'' \<notin> set r" "CHR ''#'' \<notin> set r" by auto
qed

lemma register_first_char:
  assumes "get_register_code r \<noteq> -1"
  shows "first_char r \<noteq> CHR ''[''" "first_char r \<noteq> CHR ''#''"
proof -
  show "first_char r \<noteq> CHR ''[''"
    using register_name_shape(1,2) [OF assms] by (cases r) (auto simp add: first_char_def)
  show "first_char r \<noteq> CHR ''#''"
    using register_name_shape(1,4) [OF assms] by (cases r) (auto simp add: first_char_def)
qed

text \<open>The memory operand \<^verbatim>\<open>[b+off]\<close> splits at its \<open>+\<close> into the base register and the offset.\<close>

lemma strchr_plus:
  assumes "CHR ''+'' \<notin> set b"
  shows "strchr (CHR ''['' # b @ CHR ''+'' # rest) CHR ''+'' = Some (CHR ''['' # b, CHR ''+'' # rest)"
proof -
  have "takeWhile (\<lambda>x. x \<noteq> CHR ''+'') (b @ CHR ''+'' # rest) = b
      \<and> dropWhile (\<lambda>x. x \<noteq> CHR ''+'') (b @ CHR ''+'' # rest) = CHR ''+'' # rest"
    using assms by (induction b) auto
  then show ?thesis by (simp add: strchr_def)
qed

lemma strchr_none:
  assumes "CHR ''+'' \<notin> set r"
  shows "strchr r CHR ''+'' = None"
  using assms by (simp add: strchr_def)

lemma encode_mov_immediate_limit:
  assumes "get_register_code r \<noteq> -1"
  shows "encode_mov symbol_table [m, r, ''#255''] = Inr (Opcode_reg_value 0b00110 (get_register_code r) 255)"
    and "encode_mov symbol_table [m, r, ''#256''] = Inl Value_out_of_range"
  using assms register_first_char [OF assms]
  by (simp_all add: encode_mov_def Let_def first_char_def strchr_def atoi_literals)

lemma encode_mov_load_limit:
  assumes "get_register_code r \<noteq> -1"
  shows "encode_mov symbol_table [m, r, ''[255]''] = Inr (Opcode_reg_value 0b00111 (get_register_code r) 255)"
    and "encode_mov symbol_table [m, r, ''[256]''] = Inl Value_out_of_range"
  using assms register_first_char [OF assms]
  by (simp_all add: encode_mov_def Let_def first_char_def strchr_def label_or_number_literals
      MAX_LABEL_LENGTH_def)

lemma encode_mov_store_limit:
  assumes "get_register_code r \<noteq> -1"
  shows "encode_mov symbol_table [m, ''[255]'', r] = Inr (Opcode_reg_value 0b01000 (get_register_code r) 255)"
    and "encode_mov symbol_table [m, ''[256]'', r] = Inl Value_out_of_range"
  using assms register_first_char [OF assms]
  by (simp_all add: encode_mov_def Let_def first_char_def strchr_def label_or_number_literals
      MAX_LABEL_LENGTH_def)

lemma encode_mov_offset_limit:
  assumes "get_register_code r \<noteq> -1" "get_register_code b \<noteq> -1"
  shows "encode_mov symbol_table [m, r, CHR ''['' # b @ ''+31]'']
           = Inr (Opcode_reg_base_offset 0b01111 (get_register_code r) (get_register_code b) 31)"
    and "encode_mov symbol_table [m, r, CHR ''['' # b @ ''+32]''] = Inl Value_out_of_range"
    and "encode_mov symbol_table [m, CHR ''['' # b @ ''+31]'', r]
           = Inr (Opcode_reg_base_offset 0b11111 (get_register_code r) (get_register_code b) 31)"
    and "encode_mov symbol_table [m, CHR ''['' # b @ ''+32]'', r] = Inl Value_out_of_range"
  using assms register_first_char [OF assms(1)] register_name_shape [OF assms(2)]
  by (simp_all add: encode_mov_def Let_def first_char_def strchr_plus atoi_literals
      MAX_LABEL_LENGTH_def)

lemma encode_immediate_limit:
  assumes "get_register_code r \<noteq> -1" "m = ''ADD'' \<or> m = ''SUB'' \<or> m = ''CMP''"
  shows "encode_two_operand_instruction m [x, r, ''#255'']
           = Inr (Opcode_reg_value (immediate_opcode m) (get_register_code r) 255)"
    and "encode_two_operand_instruction m [x, r, ''#256''] = Inl Value_out_of_range"
  using assms
  by (simp_all add: encode_two_operand_instruction_def Let_def first_char_def atoi_literals)

lemma encode_address_limit:
  shows "encode_address_instruction symbol_table m [x, ''255'']
           = Inr (Opcode_value (address_opcode m) 255)"
    and "encode_address_instruction symbol_table m [x, ''256''] = Inl Value_out_of_range"
  by (simp_all add: encode_address_instruction_def Let_def label_or_number_literals)

lemma encode_parts_mov:
  "encode_parts symbol_table (''MOV'' # operands) = encode_mov symbol_table (''MOV'' # operands)"
  by (simp add: encode_parts_def toupper_def Let_def)

lemma encode_parts_immediate:
  assumes "m = ''ADD'' \<or> m = ''SUB'' \<or> m = ''CMP''"
  shows "encode_parts symbol_table (m # operands) = encode_two_operand_instruction m (m # operands)"
  using assms by (auto simp add: encode_parts_def toupper_def Let_def)

lemma encode_parts_address:
  assumes "m \<in> set [''JMP'', ''JE'', ''JZ'', ''JNE'', ''JNZ'', ''JG'', ''JNLE'',
                      ''JL'', ''JNGE'', ''JGE'', ''JNL'', ''JLE'', ''JNG'', ''CALL'']"
  shows "encode_parts symbol_table (m # operands)
           = encode_address_instruction symbol_table m (m # operands)"
  using assms by (auto simp add: encode_parts_def toupper_def Let_def)

lemma simple_immediate_limit:
  assumes "get_register_code_simple a \<noteq> -1"
  shows "encode_parts_simple symbol_table [''SET'', a, ''#511'']
           = Inr (word_of_int (push_bit 11 0b00110 OR push_bit 9 (get_register_code_simple a) OR 511))"
    and "encode_parts_simple symbol_table [''SET'', a, ''#512''] = Inl Value_out_of_range"
  using assms
  by (simp_all add: encode_parts_simple_def Let_def toupper_def first_char_def atoi_literals)

lemma simple_address_limit:
  assumes "get_register_code_simple a \<noteq> -1"
  shows "encode_parts_simple symbol_table [''LDA'', a, ''511'']
           = Inr (word_of_int (push_bit 11 0b00111 OR push_bit 9 (get_register_code_simple a) OR 511))"
    and "encode_parts_simple symbol_table [''LDA'', a, ''512''] = Inl Value_out_of_range"
    and "encode_parts_simple symbol_table [''STA'', a, ''511'']
           = Inr (word_of_int (push_bit 11 0b01000 OR push_bit 9 (get_register_code_simple a) OR 511))"
    and "encode_parts_simple symbol_table [''STA'', a, ''512''] = Inl Value_out_of_range"
  using assms
  by (simp_all add: encode_parts_simple_def Let_def toupper_def label_or_number_literals)

lemma simple_jump_limit:
  assumes "get_register_code_simple a \<noteq> -1"
  shows "encode_parts_simple symbol_table [''JMP'', ''511'']
           = Inr (word_of_int (push_bit 11 0b11000 OR 511))"
    and "encode_parts_simple symbol_table [''JMP'', ''512''] = Inl Value_out_of_range"
    and "encode_parts_simple symbol_table [''JZ'', a, ''511'']
           = Inr (word_of_int (push_bit 11 0b11001 OR push_bit 9 (get_register_code_simple a) OR 511))"
    and "encode_parts_simple symbol_table [''JZ'', a, ''512''] = Inl Value_out_of_range"
    and "encode_parts_simple symbol_table [''JNZ'', a, ''511'']
           = Inr (word_of_int (push_bit 11 0b11010 OR push_bit 9 (get_register_code_simple a) OR 511))"
    and "encode_parts_simple symbol_table [''JNZ'', a, ''512''] = Inl Value_out_of_range"
    and "encode_parts_simple symbol_table [''JP'', a, ''511'']
           = Inr (word_of_int (push_bit 11 0b11011 OR push_bit 9 (get_register_code_simple a) OR 511))"
    and "encode_parts_simple symbol_table [''JP'', a, ''512''] = Inl Value_out_of_range"
    and "encode_parts_simple symbol_table [''JN'', a, ''511'']
           = Inr (word_of_int (push_bit 11 0b11100 OR push_bit 9 (get_register_code_simple a) OR 511))"
    and "encode_parts_simple symbol_table [''JN'', a, ''512''] = Inl Value_out_of_range"
  using assms
  by (simp_all add: encode_parts_simple_def Let_def toupper_def label_or_number_literals)

text \<open>
  C5. The encoders accept the largest value of each immediate, address and offset field
  and reject the next one with an error, whatever valid registers stand beside it: 511
  and 512 for the 9-bit field of the simple profile (\<^verbatim>\<open>SET\<close>, \<^verbatim>\<open>LDA\<close>, \<^verbatim>\<open>STA\<close> and the
  jumps), 255 and 256 for the 8-bit field of the extended profile (immediate arithmetic,
  the \<^verbatim>\<open>MOV\<close> forms with an immediate or a direct address, the jumps and \<^verbatim>\<open>CALL\<close>), 31
  and 32 for the 5-bit offset of the base+offset \<^verbatim>\<open>MOV\<close> forms.
\<close>

theorem field_maximum_accepted_next_rejected:
  assumes "get_register_code_simple a \<noteq> -1"
      and "get_register_code r \<noteq> -1"
      and "get_register_code b \<noteq> -1"
  shows "encode_parts_simple symbol_table [''SET'', a, ''#511'']
           = Inr (word_of_int (push_bit 11 0b00110 OR push_bit 9 (get_register_code_simple a) OR 511))
       \<and> encode_parts_simple symbol_table [''SET'', a, ''#512''] = Inl Value_out_of_range
       \<and> encode_parts_simple symbol_table [''LDA'', a, ''511'']
           = Inr (word_of_int (push_bit 11 0b00111 OR push_bit 9 (get_register_code_simple a) OR 511))
       \<and> encode_parts_simple symbol_table [''LDA'', a, ''512''] = Inl Value_out_of_range
       \<and> encode_parts_simple symbol_table [''STA'', a, ''511'']
           = Inr (word_of_int (push_bit 11 0b01000 OR push_bit 9 (get_register_code_simple a) OR 511))
       \<and> encode_parts_simple symbol_table [''STA'', a, ''512''] = Inl Value_out_of_range
       \<and> encode_parts_simple symbol_table [''JMP'', ''511'']
           = Inr (word_of_int (push_bit 11 0b11000 OR 511))
       \<and> encode_parts_simple symbol_table [''JMP'', ''512''] = Inl Value_out_of_range
       \<and> encode_parts_simple symbol_table [''JZ'', a, ''511'']
           = Inr (word_of_int (push_bit 11 0b11001 OR push_bit 9 (get_register_code_simple a) OR 511))
       \<and> encode_parts_simple symbol_table [''JZ'', a, ''512''] = Inl Value_out_of_range
       \<and> encode_parts_simple symbol_table [''JNZ'', a, ''511'']
           = Inr (word_of_int (push_bit 11 0b11010 OR push_bit 9 (get_register_code_simple a) OR 511))
       \<and> encode_parts_simple symbol_table [''JNZ'', a, ''512''] = Inl Value_out_of_range
       \<and> encode_parts_simple symbol_table [''JP'', a, ''511'']
           = Inr (word_of_int (push_bit 11 0b11011 OR push_bit 9 (get_register_code_simple a) OR 511))
       \<and> encode_parts_simple symbol_table [''JP'', a, ''512''] = Inl Value_out_of_range
       \<and> encode_parts_simple symbol_table [''JN'', a, ''511'']
           = Inr (word_of_int (push_bit 11 0b11100 OR push_bit 9 (get_register_code_simple a) OR 511))
       \<and> encode_parts_simple symbol_table [''JN'', a, ''512''] = Inl Value_out_of_range
       \<and> (\<forall>m \<in> set [''ADD'', ''SUB'', ''CMP''].
             encode_parts symbol_table [m, r, ''#255'']
               = Inr (Opcode_reg_value (immediate_opcode m) (get_register_code r) 255)
           \<and> encode_parts symbol_table [m, r, ''#256''] = Inl Value_out_of_range)
       \<and> encode_parts symbol_table [''MOV'', r, ''#255'']
           = Inr (Opcode_reg_value 0b00110 (get_register_code r) 255)
       \<and> encode_parts symbol_table [''MOV'', r, ''#256''] = Inl Value_out_of_range
       \<and> encode_parts symbol_table [''MOV'', r, ''[255]'']
           = Inr (Opcode_reg_value 0b00111 (get_register_code r) 255)
       \<and> encode_parts symbol_table [''MOV'', r, ''[256]''] = Inl Value_out_of_range
       \<and> encode_parts symbol_table [''MOV'', ''[255]'', r]
           = Inr (Opcode_reg_value 0b01000 (get_register_code r) 255)
       \<and> encode_parts symbol_table [''MOV'', ''[256]'', r] = Inl Value_out_of_range
       \<and> (\<forall>m \<in> set [''JMP'', ''JE'', ''JZ'', ''JNE'', ''JNZ'', ''JG'', ''JNLE'',
                       ''JL'', ''JNGE'', ''JGE'', ''JNL'', ''JLE'', ''JNG'', ''CALL''].
             encode_parts symbol_table [m, ''255''] = Inr (Opcode_value (address_opcode m) 255)
           \<and> encode_parts symbol_table [m, ''256''] = Inl Value_out_of_range)
       \<and> encode_parts symbol_table [''MOV'', r, CHR ''['' # b @ ''+31]'']
           = Inr (Opcode_reg_base_offset 0b01111 (get_register_code r) (get_register_code b) 31)
       \<and> encode_parts symbol_table [''MOV'', r, CHR ''['' # b @ ''+32]''] = Inl Value_out_of_range
       \<and> encode_parts symbol_table [''MOV'', CHR ''['' # b @ ''+31]'', r]
           = Inr (Opcode_reg_base_offset 0b11111 (get_register_code r) (get_register_code b) 31)
       \<and> encode_parts symbol_table [''MOV'', CHR ''['' # b @ ''+32]'', r] = Inl Value_out_of_range"
proof -
  note simple = simple_immediate_limit [OF assms(1)] simple_address_limit [OF assms(1)]
    simple_jump_limit [OF assms(1)]
  have imm: "encode_parts symbol_table [m, r, ''#255'']
               = Inr (Opcode_reg_value (immediate_opcode m) (get_register_code r) 255)
           \<and> encode_parts symbol_table [m, r, ''#256''] = Inl Value_out_of_range"
    if "m \<in> set [''ADD'', ''SUB'', ''CMP'']" for m
  proof -
    from that have m: "m = ''ADD'' \<or> m = ''SUB'' \<or> m = ''CMP''" by simp
    show ?thesis
      by (simp only: encode_parts_immediate [OF m] encode_immediate_limit [OF assms(2) m])
  qed
  have addr: "encode_parts symbol_table [m, ''255''] = Inr (Opcode_value (address_opcode m) 255)
           \<and> encode_parts symbol_table [m, ''256''] = Inl Value_out_of_range"
    if "m \<in> set [''JMP'', ''JE'', ''JZ'', ''JNE'', ''JNZ'', ''JG'', ''JNLE'',
                       ''JL'', ''JNGE'', ''JGE'', ''JNL'', ''JLE'', ''JNG'', ''CALL'']" for m
    by (simp only: encode_parts_address [OF that] encode_address_limit)
  note mov = encode_mov_immediate_limit [OF assms(2)] encode_mov_load_limit [OF assms(2)]
    encode_mov_store_limit [OF assms(2)] encode_mov_offset_limit [OF assms(2,3)]
  show ?thesis
    using imm addr by (simp only: simple encode_parts_mov mov) blast
qed

theorem field_maximum_accepted_next_rejected_witness:
  "get_register_code_simple ''A'' \<noteq> -1 \<and> get_register_code ''EAX'' \<noteq> -1
   \<and> get_register_code ''EBP'' \<noteq> -1
   \<and> encode_instruction_simple [] ''SET A, #511'' = Inr 0x31FF
   \<and> encode_instruction_simple [] ''SET A, #512'' = Inl Value_out_of_range
   \<and> encode_instruction [] ''ADD EAX, #255'' = Inr 0x98FF
   \<and> encode_instruction [] ''ADD EAX, #256'' = Inl Value_out_of_range
   \<and> encode_instruction [] ''CALL 255'' = Inr 0x68FF
   \<and> encode_instruction [] ''CALL 256'' = Inl Value_out_of_range
   \<and> encode_instruction [] ''MOV EAX, [EBP+31]'' = Inr 0x78DF
   \<and> encode_instruction [] ''MOV EAX, [EBP+32]'' = Inl Value_out_of_range"
proof -
  have h1: "get_register_code_simple ''A'' \<noteq> -1" by code_simp
  have h2: "get_register_code ''EAX'' \<noteq> -1" by code_simp
  have h3: "get_register_code ''EBP'' \<noteq> -1" by code_simp
  note t = field_maximum_accepted_next_rejected [OF h1 h2 h3, of "[]"]
  have p: "split_parts ''SET A, #511'' = [''SET'', ''A'', ''#511'']"
    "split_parts ''SET A, #512'' = [''SET'', ''A'', ''#512'']"
    "split_parts ''ADD EAX, #255'' = [''ADD'', ''EAX'', ''#255'']"
    "split_parts ''ADD EAX, #256'' = [''ADD'', ''EAX'', ''#256'']"
    "split_parts ''CALL 255'' = [''CALL'', ''255'']"
    "split_parts ''CALL 256'' = [''CALL'', ''256'']"
    "split_parts ''MOV EAX, [EBP+31]'' = [''MOV'', ''EAX'', CHR ''['' # ''EBP'' @ ''+31]'']"
    "split_parts ''MOV EAX, [EBP+32]'' = [''MOV'', ''EAX'', CHR ''['' # ''EBP'' @ ''+32]'']"
    by code_simp+
  have c: "get_register_code_simple ''A'' = 0" "get_register_code ''EAX'' = 0"
    "get_register_code ''EBP'' = 6" "immediate_opcode ''ADD'' = 0b10011"
    "address_opcode ''CALL'' = 0b01101"
    by code_simp+
  have s1: "encode_instruction_simple [] ''SET A, #511'' = Inr 0x31FF"
    using t by (simp add: encode_instruction_simple_def p c)
  have s2: "encode_instruction_simple [] ''SET A, #512'' = Inl Value_out_of_range"
    using t by (simp add: encode_instruction_simple_def p)
  have e1: "encode_instruction [] ''ADD EAX, #255'' = Inr 0x98FF"
    using t by (simp add: encode_instruction_def encode_fields_def p c)
  have e2: "encode_instruction [] ''ADD EAX, #256'' = Inl Value_out_of_range"
    using t by (simp add: encode_instruction_def encode_fields_def p)
  have e3: "encode_instruction [] ''CALL 255'' = Inr 0x68FF"
    using t by (simp add: encode_instruction_def encode_fields_def p c)
  have e4: "encode_instruction [] ''CALL 256'' = Inl Value_out_of_range"
    using t by (simp add: encode_instruction_def encode_fields_def p)
  have e5: "encode_instruction [] ''MOV EAX, [EBP+31]'' = Inr 0x78DF"
    using t by (simp add: encode_instruction_def encode_fields_def p c)
  have e6: "encode_instruction [] ''MOV EAX, [EBP+32]'' = Inl Value_out_of_range"
    using t by (simp add: encode_instruction_def encode_fields_def p)
  show ?thesis using h1 h2 h3 s1 s2 e1 e2 e3 e4 e5 e6 by blast
qed

end
